theory Spec2Isabelle
  imports Main "HOL-Library.Log_Nat" "HOL-Library.AList"
begin

section \<open>Python values of the script\<close>

text \<open>
  The script \<^verbatim>\<open>testscript.py\<close> is dynamically typed. Its values are modelled by
  \<open>pyval\<close>: the JSON-shaped values the REST client and \<^verbatim>\<open>json.loads\<close> hand back
  (\<^verbatim>\<open>None\<close>, \<^verbatim>\<open>bool\<close>, \<^verbatim>\<open>int\<close>, \<^verbatim>\<open>float\<close>, \<^verbatim>\<open>str\<close>, \<^verbatim>\<open>list\<close>, \<^verbatim>\<open>dict\<close> with string keys).
  Strings are ASCII texts. Python's \<^verbatim>\<open>float\<close> is IEEE 754 binary64: a finite double is
  modelled by the rational number it denotes (the sign of a zero is dropped: the script
  cannot observe it), next to the two infinities and NaN.
\<close>

datatype float64 = Finite rat | PInf | NInf | NaN

datatype pyval =
    PNone
  | PBool bool
  | PInt int
  | PFloat float64
  | PStr string
  | PList "pyval list"
  | PDict "(string \<times> pyval) list"

text \<open>
  Instances of Python's \<^verbatim>\<open>Exception\<close> class, the class every handler of the script
  catches (\<^verbatim>\<open>except Exception\<close>). \<open>OtherError\<close> stands for the errors of the REST client
  and of \<^verbatim>\<open>json\<close> (transport errors, \<^verbatim>\<open>JSONDecodeError\<close>, ...).
\<close>

datatype exn =
    TypeError
  | ValueError
  | ZeroDivisionError
  | OverflowError
  | AttributeError
  | KeyError
  | OtherError string

definition bind_exn :: "exn + 'a \<Rightarrow> ('a \<Rightarrow> exn + 'b) \<Rightarrow> exn + 'b" where
  "bind_exn r f = (case r of Inl e \<Rightarrow> Inl e | Inr v \<Rightarrow> f v)"

section \<open>Binary64 arithmetic\<close>

text \<open>Round to the nearest integer, ties to the even one.\<close>

definition rne :: "rat \<Rightarrow> int" where
  "rne x = (let f = \<lfloor>x\<rfloor>; d = x - of_int f in
     if d < 1 / 2 then f else if 1 / 2 < d then f + 1 else if even f then f else f + 1)"

text \<open>The binary exponent of a non-zero rational: \<open>2 powi expo r \<le> \<bar>r\<bar> < 2 powi (expo r + 1)\<close>.\<close>

definition expo :: "rat \<Rightarrow> int" where
  "expo r = (case quotient_of \<bar>r\<bar> of (p, q) \<Rightarrow>
     (let d = bitlen p - bitlen q in if 2 powi d \<le> \<bar>r\<bar> then d else d - 1))"

text \<open>
  The spacing of the doubles around \<open>r\<close>: 53 significant bits, and the subnormal spacing
  \<open>2 powi (- 1074)\<close> below \<open>2 powi (- 1022)\<close>.
\<close>

definition quantum :: "rat \<Rightarrow> rat" where
  "quantum r = 2 powi (max (expo r) (- 1022) - 52)"

text \<open>
  The double nearest to a rational (round to nearest, ties to even), an infinity when the
  rounded value leaves the range of the format.
\<close>

definition round64 :: "rat \<Rightarrow> float64" where
  "round64 r = (if r = 0 then Finite 0 else
     (let q = quantum r; v = of_int (rne (r / q)) * q in
      if 2 ^ 1024 \<le> v then PInf else if v \<le> - (2 ^ 1024) then NInf else Finite v))"

fun sgnf :: "float64 \<Rightarrow> int" where
  "sgnf (Finite r) = (if r = 0 then 0 else if 0 < r then 1 else - 1)"
| "sgnf PInf = 1"
| "sgnf NInf = - 1"
| "sgnf NaN = 0"

definition signed_inf :: "int \<Rightarrow> float64" where
  "signed_inf s = (if s = 0 then NaN else if 0 < s then PInf else NInf)"

definition fmul :: "float64 \<Rightarrow> float64 \<Rightarrow> float64" where
  "fmul a b =
     (if a = NaN \<or> b = NaN then NaN
      else case (a, b) of
        (Finite x, Finite y) \<Rightarrow> round64 (x * y)
      | _ \<Rightarrow> signed_inf (sgnf a * sgnf b))"

text \<open>The quotient of two doubles, for a divisor that is not zero.\<close>

definition fdiv :: "float64 \<Rightarrow> float64 \<Rightarrow> float64" where
  "fdiv a b =
     (if a = NaN \<or> b = NaN then NaN
      else case (a, b) of
        (Finite x, Finite y) \<Rightarrow> round64 (x / y)
      | (Finite x, _) \<Rightarrow> Finite 0
      | (_, Finite y) \<Rightarrow> signed_inf (sgnf a * sgnf b)
      | _ \<Rightarrow> NaN)"

definition fsub :: "float64 \<Rightarrow> float64 \<Rightarrow> float64" where
  "fsub a b =
     (if a = NaN \<or> b = NaN then NaN
      else case (a, b) of
        (Finite x, Finite y) \<Rightarrow> round64 (x - y)
      | (Finite x, PInf) \<Rightarrow> NInf
      | (Finite x, _) \<Rightarrow> PInf
      | (PInf, PInf) \<Rightarrow> NaN
      | (NInf, NInf) \<Rightarrow> NaN
      | _ \<Rightarrow> a)"

text \<open>\<^verbatim>\<open>x <= q\<close> for a double and an exact number: false on NaN.\<close>

fun fle_rat :: "float64 \<Rightarrow> rat \<Rightarrow> bool" where
  "fle_rat (Finite r) q = (r \<le> q)"
| "fle_rat NInf q = True"
| "fle_rat PInf q = False"
| "fle_rat NaN q = False"

text \<open>
  The conversion of a Python \<^verbatim>\<open>int\<close> to \<^verbatim>\<open>float\<close>: correctly rounded,
  \<^verbatim>\<open>OverflowError\<close> when the integer is too large.
\<close>

definition int_to_float :: "int \<Rightarrow> exn + float64" where
  "int_to_float n = (case round64 (of_int n) of Finite r \<Rightarrow> Inr (Finite r) | _ \<Rightarrow> Inl OverflowError)"

section \<open>Built-in operations on Python values\<close>

text \<open>Truthiness, as \<^verbatim>\<open>if x\<close> and \<^verbatim>\<open>not x\<close> test it.\<close>

fun py_truthy :: "pyval \<Rightarrow> bool" where
  "py_truthy PNone = False"
| "py_truthy (PBool b) = b"
| "py_truthy (PInt n) = (n \<noteq> 0)"
| "py_truthy (PFloat f) = (f \<noteq> Finite 0)"
| "py_truthy (PStr s) = (s \<noteq> [])"
| "py_truthy (PList xs) = (xs \<noteq> [])"
| "py_truthy (PDict kvs) = (kvs \<noteq> [])"

text \<open>\<^verbatim>\<open>isinstance(x, (dict, list))\<close>\<close>

fun isinstance_dict_list :: "pyval \<Rightarrow> bool" where
  "isinstance_dict_list (PDict kvs) = True"
| "isinstance_dict_list (PList xs) = True"
| "isinstance_dict_list _ = False"

text \<open>\<^verbatim>\<open>x.get(key, default)\<close>: only a \<^verbatim>\<open>dict\<close> has the method.\<close>

fun py_get :: "pyval \<Rightarrow> string \<Rightarrow> pyval \<Rightarrow> exn + pyval" where
  "py_get (PDict kvs) k d = (case map_of kvs k of Some v \<Rightarrow> Inr v | None \<Rightarrow> Inr d)"
| "py_get _ k d = Inl AttributeError"

text \<open>\<^verbatim>\<open>x[key]\<close> for a string key.\<close>

fun py_getitem :: "pyval \<Rightarrow> string \<Rightarrow> exn + pyval" where
  "py_getitem (PDict kvs) k = (case map_of kvs k of Some v \<Rightarrow> Inr v | None \<Rightarrow> Inl KeyError)"
| "py_getitem _ k = Inl TypeError"

text \<open>\<^verbatim>\<open>bool\<close> is a subclass of \<^verbatim>\<open>int\<close>: both take part in arithmetic as integers.\<close>

fun as_int :: "pyval \<Rightarrow> int option" where
  "as_int (PInt n) = Some n"
| "as_int (PBool b) = Some (if b then 1 else 0)"
| "as_int _ = None"

text \<open>The operand of a float operation: a float as it is, an integer converted.\<close>

fun as_float :: "pyval \<Rightarrow> (exn + float64) option" where
  "as_float (PFloat f) = Some (Inr f)"
| "as_float (PInt n) = Some (int_to_float n)"
| "as_float (PBool b) = Some (int_to_float (if b then 1 else 0))"
| "as_float _ = None"

text \<open>
  \<^verbatim>\<open>a / b\<close>. Two integers are divided exactly and the quotient rounded once; otherwise
  both operands are converted to \<^verbatim>\<open>float\<close> first. A zero divisor raises.
\<close>

definition py_truediv :: "pyval \<Rightarrow> pyval \<Rightarrow> exn + pyval" where
  "py_truediv a b =
     (case (as_int a, as_int b) of
        (Some m, Some n) \<Rightarrow>
          if n = 0 then Inl ZeroDivisionError
          else (case round64 (of_int m / of_int n) of
                  Finite r \<Rightarrow> Inr (PFloat (Finite r))
                | _ \<Rightarrow> Inl OverflowError)
      | _ \<Rightarrow>
        (case (as_float a, as_float b) of
           (Some x, Some y) \<Rightarrow>
             bind_exn x (\<lambda>x'. bind_exn y (\<lambda>y'.
               if y' = Finite 0 then Inl ZeroDivisionError else Inr (PFloat (fdiv x' y'))))
         | _ \<Rightarrow> Inl TypeError))"

text \<open>\<^verbatim>\<open>a * c\<close> for a float literal \<^verbatim>\<open>c\<close>.\<close>

definition py_mul_float :: "pyval \<Rightarrow> float64 \<Rightarrow> exn + pyval" where
  "py_mul_float a c =
     (case as_float a of
        Some x \<Rightarrow> bind_exn x (\<lambda>x'. Inr (PFloat (fmul x' c)))
      | None \<Rightarrow> Inl TypeError)"

text \<open>\<^verbatim>\<open>a - n\<close> for an integer literal \<^verbatim>\<open>n\<close>.\<close>

definition py_sub_int :: "pyval \<Rightarrow> int \<Rightarrow> exn + pyval" where
  "py_sub_int a n =
     (case as_int a of
        Some m \<Rightarrow> Inr (PInt (m - n))
      | None \<Rightarrow>
        (case a of
           PFloat x \<Rightarrow> bind_exn (int_to_float n) (\<lambda>y. Inr (PFloat (fsub x y)))
         | _ \<Rightarrow> Inl TypeError))"

text \<open>\<^verbatim>\<open>a <= n\<close> for an integer literal \<^verbatim>\<open>n\<close>; Python compares a float with an integer exactly.\<close>

definition py_le_int :: "pyval \<Rightarrow> int \<Rightarrow> exn + bool" where
  "py_le_int a n =
     (case as_int a of
        Some m \<Rightarrow> Inr (m \<le> n)
      | None \<Rightarrow>
        (case a of
           PFloat x \<Rightarrow> Inr (fle_rat x (of_int n))
         | _ \<Rightarrow> Inl TypeError))"

text \<open>
  \<^verbatim>\<open>round(x)\<close> with one argument: an \<^verbatim>\<open>int\<close>, for a float the nearest integer with ties
  to even; NaN and the infinities raise.
\<close>

fun py_round :: "pyval \<Rightarrow> exn + pyval" where
  "py_round (PFloat (Finite r)) = Inr (PInt (rne r))"
| "py_round (PFloat NaN) = Inl ValueError"
| "py_round (PFloat _) = Inl OverflowError"
| "py_round (PInt n) = Inr (PInt n)"
| "py_round (PBool b) = Inr (PInt (if b then 1 else 0))"
| "py_round _ = Inl TypeError"

subsection \<open>Number literals in strings\<close>

text \<open>
  A character of a string stands for the code point of its number. The blanks \<^verbatim>\<open>float\<close> drops
  around a literal are those of C's \<^verbatim>\<open>isspace\<close>: 9 to 13 and 32. The separators 28 to 31 are not
  among them: \<^verbatim>\<open>float('\x1c5')\<close> raises \<^verbatim>\<open>ValueError\<close>.
\<close>

definition is_space :: "char \<Rightarrow> bool" where
  "is_space c = (let n = (of_char c :: nat) in (9 \<le> n \<and> n \<le> 13) \<or> n = 32)"

text \<open>
  Before it reads the literal, \<^verbatim>\<open>float\<close> replaces every whitespace character above 127 by a
  blank; of the characters up to 255 these are 133 and 160, so that \<^verbatim>\<open>float('\xa05')\<close> is \<open>5.0\<close>.
  Every other character stays as it is, and one that the literal has no place for makes
  \<^verbatim>\<open>float\<close> raise.
\<close>

definition blank_unicode_space :: "char \<Rightarrow> char" where
  "blank_unicode_space c =
     (let n = (of_char c :: nat) in if n = 133 \<or> n = 160 then CHR 0x20 else c)"

definition is_digit :: "char \<Rightarrow> bool" where
  "is_digit c = (let n = (of_char c :: nat) in 48 \<le> n \<and> n \<le> 57)"

definition digit_val :: "char \<Rightarrow> nat" where
  "digit_val c = of_char c - 48"

definition lower :: "char \<Rightarrow> char" where
  "lower c = (let n = (of_char c :: nat) in if 65 \<le> n \<and> n \<le> 90 then char_of (n + 32) else c)"

definition strip :: "string \<Rightarrow> string" where
  "strip s = rev (dropWhile is_space (rev (dropWhile is_space s)))"

text \<open>The digits after the first one of a digit part; a single underscore may separate two digits.\<close>

fun more_digits :: "string \<Rightarrow> string \<times> string" where
  "more_digits [] = ([], [])"
| "more_digits [c] = (if is_digit c then ([c], []) else ([], [c]))"
| "more_digits (c # d # cs) =
     (if is_digit c then (case more_digits (d # cs) of (ds, r) \<Rightarrow> (c # ds, r))
      else if c = CHR ''_'' \<and> is_digit d then (case more_digits cs of (ds, r) \<Rightarrow> (d # ds, r))
      else ([], c # d # cs))"

definition digitpart :: "string \<Rightarrow> (string \<times> string) option" where
  "digitpart s =
     (case s of
        [] \<Rightarrow> None
      | c # cs \<Rightarrow> if is_digit c then (case more_digits cs of (ds, r) \<Rightarrow> Some (c # ds, r)) else None)"

definition digits_val :: "string \<Rightarrow> nat" where
  "digits_val ds = foldl (\<lambda>a c. 10 * a + digit_val c) 0 ds"

definition split_sign :: "string \<Rightarrow> bool \<times> string" where
  "split_sign s =
     (case s of
        c # cs \<Rightarrow> if c = CHR ''-'' then (True, cs) else if c = CHR ''+'' then (False, cs) else (False, s)
      | [] \<Rightarrow> (False, s))"

text \<open>The mantissa of a float literal: integer digits and fraction digits, one of them present.\<close>

definition mantissa :: "string \<Rightarrow> (string \<times> string \<times> string) option" where
  "mantissa s =
     (case digitpart s of
        Some (ip, r) \<Rightarrow>
          (case r of
             c # r' \<Rightarrow>
               if c = CHR ''.'' then
                 (case digitpart r' of Some (fp, r'') \<Rightarrow> Some (ip, fp, r'') | None \<Rightarrow> Some (ip, [], r'))
               else Some (ip, [], r)
           | [] \<Rightarrow> Some (ip, [], r))
      | None \<Rightarrow>
          (case s of
             c # r' \<Rightarrow>
               if c = CHR ''.'' then
                 (case digitpart r' of Some (fp, r'') \<Rightarrow> Some ([], fp, r'') | None \<Rightarrow> None)
               else None
           | [] \<Rightarrow> None))"

text \<open>The exponent of a float literal, \<open>0\<close> when there is none; nothing may follow it.\<close>

definition exponent :: "string \<Rightarrow> int option" where
  "exponent s =
     (case s of
        [] \<Rightarrow> Some 0
      | c # r \<Rightarrow>
          if lower c = CHR ''e'' then
            (case split_sign r of (neg, r') \<Rightarrow>
               (case digitpart r' of
                  Some (ds, []) \<Rightarrow> Some (if neg then - int (digits_val ds) else int (digits_val ds))
                | _ \<Rightarrow> None))
          else None)"

text \<open>\<^verbatim>\<open>float(s)\<close> for a string: the literal's value, correctly rounded.\<close>

definition float_of_string :: "string \<Rightarrow> exn + float64" where
  "float_of_string s =
     (case split_sign (strip (map blank_unicode_space s)) of (neg, t) \<Rightarrow>
        if map lower t = ''inf'' \<or> map lower t = ''infinity'' then Inr (if neg then NInf else PInf)
        else if map lower t = ''nan'' then Inr NaN
        else
          (case mantissa t of
             None \<Rightarrow> Inl ValueError
           | Some (ip, fp, r) \<Rightarrow>
               (case exponent r of
                  None \<Rightarrow> Inl ValueError
                | Some ex \<Rightarrow>
                    (let v = of_nat (digits_val (ip @ fp)) * 10 powi (ex - int (length fp))
                     in Inr (round64 (if neg then - v else v))))))"

text \<open>\<^verbatim>\<open>float(x)\<close>\<close>

fun py_float :: "pyval \<Rightarrow> exn + pyval" where
  "py_float (PFloat f) = Inr (PFloat f)"
| "py_float (PInt n) = bind_exn (int_to_float n) (\<lambda>f. Inr (PFloat f))"
| "py_float (PBool b) = Inr (PFloat (Finite (if b then 1 else 0)))"
| "py_float (PStr s) = bind_exn (float_of_string s) (\<lambda>f. Inr (PFloat f))"
| "py_float _ = Inl TypeError"

section \<open>Effects: the REST client, the clock and the log\<close>

text \<open>
  What the script does to the outside world is recorded as a trace of events, oldest first:
  the three calls to the REST client with their parameters, \<^verbatim>\<open>time.sleep\<close> and the calls to
  \<^verbatim>\<open>logging\<close>. A log message is named after its text:

  \<^item> \<open>Fout_parsen_response\<close>: "Fout bij parsen response: %s" (line 72)
  \<^item> \<open>Fout_usd_to_sats\<close>: "Fout in usd_to_sats: %s" (line 80)
  \<^item> \<open>Fout_ophalen_ticker\<close>: "Fout bij ophalen ticker: %s" (line 93)
  \<^item> \<open>Orderparameters\<close>: "Orderparameters: %s" (lines 107 and 132)
  \<^item> \<open>Order_geplaatst\<close>: "Order succesvol geplaatst: %s" (line 111)
  \<^item> \<open>Order_mislukt\<close>: "Order mislukt: %s" (line 114)
  \<^item> \<open>Fout_plaatsen_order\<close>: "Fout bij plaatsen order: %s" (line 117)
  \<^item> \<open>Limietorder_geplaatst\<close>: "Limietorder succesvol geplaatst: %s" (line 136)
  \<^item> \<open>Limietorder_mislukt_met\<close>: "Limietorder mislukt: %s" (line 139)
  \<^item> \<open>Fout_plaatsen_limietorder\<close>: "Fout bij plaatsen limietorder: %s" (line 142)
  \<^item> \<open>PUT_parameters\<close>: "PUT request parameters voor take-profit: %s" (line 153)
  \<^item> \<open>Take_profit_ingesteld\<close>: "Take-profit succesvol ingesteld: %s" (line 157)
  \<^item> \<open>Take_profit_mislukt\<close>: "Take-profit instellen mislukt: %s" (line 159)
  \<^item> \<open>Fout_instellen_take_profit\<close>: "Fout bij instellen take-profit: %s" (line 161)
  \<^item> \<open>Kan_marktprijs_niet_ophalen\<close>: "Kan marktprijs niet ophalen. Script wordt beeindigd." (line 168)
  \<^item> \<open>Ongeldige_margin\<close>: "Ongeldige margin berekend. Script wordt beeindigd." (line 175)
  \<^item> \<open>Margin_berekend\<close>: "Margin berekend: %d satoshis voor $%d bij prijs %.2f" (line 177)
  \<^item> \<open>Plaats_eerste_order\<close>: "Plaats eerste markt kooporder voor $5 met hefboom 1" (line 180)
  \<^item> \<open>Eerste_order_mislukt\<close>: "Eerste order mislukt. Script wordt beeindigd." (line 183)
  \<^item> \<open>Plaats_tweede_order\<close>: "Plaats tweede markt kooporder voor $5 met hefboom 1" (line 190)
  \<^item> \<open>Take_profit_direct\<close>: "Take-profit direct ingesteld op %.0f (1%% boven geschatte marktprijs %.2f)" (line 194)
  \<^item> \<open>Werkelijke_entry_price\<close>: "Werkelijke entry_price: %.2f, geschatte take-profit: %.0f, ideale take-profit: %.0f" (line 199)
  \<^item> \<open>Take_profit_op_entry_price\<close>: "Take-profit ingesteld op %.0f (1%% boven entry_price %.2f)" (line 208)
  \<^item> \<open>Entry_price_niet_gevonden\<close>: "Entry_price niet gevonden voor tweede order." (line 211)
  \<^item> \<open>Tweede_order_mislukt\<close>: "Tweede order mislukt. Script wordt beeindigd." (line 214)
  \<^item> \<open>Plaats_limietorder\<close>: "Plaats test limiet kooporder voor $5 met hefboom 1" (line 221)
  \<^item> \<open>Limietorder_mislukt\<close>: "Limietorder mislukt." (line 226)
  \<^item> \<open>Limietorder_op_prijs\<close>: "Limietorder succesvol geplaatst op prijs %.0f met take-profit %.0f" (line 228)
\<close>

datatype loglevel = DEBUG | INFO | ERROR

datatype logmsg =
    Fout_parsen_response
  | Fout_usd_to_sats
  | Fout_ophalen_ticker
  | Orderparameters
  | Order_geplaatst
  | Order_mislukt
  | Fout_plaatsen_order
  | Limietorder_geplaatst
  | Limietorder_mislukt_met
  | Fout_plaatsen_limietorder
  | PUT_parameters
  | Take_profit_ingesteld
  | Take_profit_mislukt
  | Fout_instellen_take_profit
  | Kan_marktprijs_niet_ophalen
  | Ongeldige_margin
  | Margin_berekend
  | Plaats_eerste_order
  | Eerste_order_mislukt
  | Plaats_tweede_order
  | Take_profit_direct
  | Werkelijke_entry_price
  | Take_profit_op_entry_price
  | Entry_price_niet_gevonden
  | Tweede_order_mislukt
  | Plaats_limietorder
  | Limietorder_mislukt
  | Limietorder_op_prijs

datatype logarg = LVal pyval | LExn exn

datatype event =
    Get_ticker
  | New_trade pyval
  | Update_trade pyval
  | Sleep float64
  | Log loglevel logmsg "logarg list"

text \<open>
  The REST client \<^verbatim>\<open>lnm\<close> is outside the script: each of its three methods returns a value
  or raises, and what it answers may depend on everything that happened before the call
  (the trace so far) and on the parameters of the call.
\<close>

record lnm_client =
  futures_get_ticker :: "event list \<Rightarrow> exn + pyval"
  futures_new_trade :: "event list \<Rightarrow> pyval \<Rightarrow> exn + pyval"
  futures_update_trade :: "event list \<Rightarrow> pyval \<Rightarrow> exn + pyval"

text \<open>
  A statement of the script takes the trace so far and returns the extended trace with
  either the exception it raised or its value.
\<close>

type_synonym 'a io = "event list \<Rightarrow> (exn + 'a) \<times> event list"

definition return_io :: "'a \<Rightarrow> 'a io" where
  "return_io v tr = (Inr v, tr)"

definition raise_io :: "exn \<Rightarrow> 'a io" where
  "raise_io e tr = (Inl e, tr)"

text \<open>The value of an expression that has no effect but may raise.\<close>

definition eval_io :: "exn + 'a \<Rightarrow> 'a io" where
  "eval_io r tr = (r, tr)"

text \<open>Sequencing: an exception of the first statement skips the rest.\<close>

definition bind_io :: "'a io \<Rightarrow> ('a \<Rightarrow> 'b io) \<Rightarrow> 'b io" where
  "bind_io m f tr = (case m tr of (Inl e, tr') \<Rightarrow> (Inl e, tr') | (Inr v, tr') \<Rightarrow> f v tr')"

text \<open>\<^verbatim>\<open>try: body / except Exception as e: handler\<close>\<close>

definition try_except :: "'a io \<Rightarrow> (exn \<Rightarrow> 'a io) \<Rightarrow> 'a io" where
  "try_except body handler tr =
     (case body tr of (Inl e, tr') \<Rightarrow> handler e tr' | (Inr v, tr') \<Rightarrow> (Inr v, tr'))"

definition logging :: "loglevel \<Rightarrow> logmsg \<Rightarrow> logarg list \<Rightarrow> unit io" where
  "logging lv msg args tr = (Inr (), tr @ [Log lv msg args])"

definition time_sleep :: "float64 \<Rightarrow> unit io" where
  "time_sleep secs tr = (Inr (), tr @ [Sleep secs])"

definition call_get_ticker :: "lnm_client \<Rightarrow> pyval io" where
  "call_get_ticker lnm tr = (futures_get_ticker lnm tr, tr @ [Get_ticker])"

definition call_new_trade :: "lnm_client \<Rightarrow> pyval \<Rightarrow> pyval io" where
  "call_new_trade lnm params tr = (futures_new_trade lnm tr params, tr @ [New_trade params])"

definition call_update_trade :: "lnm_client \<Rightarrow> pyval \<Rightarrow> pyval io" where
  "call_update_trade lnm params tr = (futures_update_trade lnm tr params, tr @ [Update_trade params])"

section \<open>The script\<close>

text \<open>Line 11: \<^verbatim>\<open>REQUEST_DELAY = 3.0\<close>; line 14: \<^verbatim>\<open>USE_DIRECT_TAKE_PROFIT = True\<close>.\<close>

definition REQUEST_DELAY :: float64 where
  "REQUEST_DELAY = Finite 3"

definition USE_DIRECT_TAKE_PROFIT :: bool where
  "USE_DIRECT_TAKE_PROFIT = True"

text \<open>The float literals \<^verbatim>\<open>1e8\<close> and \<^verbatim>\<open>1.01\<close>: the doubles nearest to them.\<close>

definition lit_1e8 :: float64 where
  "lit_1e8 = round64 100000000"

definition lit_1_01 :: float64 where
  "lit_1_01 = round64 (101 / 100)"

text \<open>
  Lines 65-73. \<^verbatim>\<open>json.loads\<close> is a parameter: a function without effect that returns the
  decoded value or raises.
\<close>

definition parse_response :: "(pyval \<Rightarrow> exn + pyval) \<Rightarrow> pyval \<Rightarrow> pyval io" where
  "parse_response json_loads response =
     (if isinstance_dict_list response then return_io response
      else try_except (eval_io (json_loads response))
             (\<lambda>e. bind_io (logging ERROR Fout_parsen_response [LExn e])
                     (\<lambda>_. return_io (PDict []))))"

text \<open>Lines 75-81. \<^verbatim>\<open>int(...)\<close> of the \<^verbatim>\<open>int\<close> that \<^verbatim>\<open>round\<close> returns is that \<^verbatim>\<open>int\<close>.\<close>

definition usd_to_sats :: "pyval \<Rightarrow> pyval \<Rightarrow> pyval io" where
  "usd_to_sats usd_amount btc_price =
     try_except
       (eval_io (bind_exn (py_truediv usd_amount btc_price) (\<lambda>q.
                 bind_exn (py_mul_float q lit_1e8) py_round)))
       (\<lambda>e. bind_io (logging ERROR Fout_usd_to_sats [LExn e])
               (\<lambda>_. return_io (PInt 0)))"

text \<open>Lines 83-94.\<close>

definition get_ticker :: "(pyval \<Rightarrow> exn + pyval) \<Rightarrow> lnm_client \<Rightarrow> pyval io" where
  "get_ticker json_loads lnm =
     try_except
       (bind_io (call_get_ticker lnm) (\<lambda>response.
        bind_io (parse_response json_loads response) (\<lambda>ticker.
        bind_io (eval_io (bind_exn (py_get ticker ''lastPrice'' (PInt 0)) py_float)) (\<lambda>price.
        bind_io (eval_io (py_le_int price 0)) (\<lambda>nonpositive.
          if nonpositive then raise_io ValueError else return_io price)))))
       (\<lambda>e. bind_io (logging ERROR Fout_ophalen_ticker [LExn e])
               (\<lambda>_. return_io PNone))"

text \<open>Lines 99-106 and 123-131: the request, with \<^verbatim>\<open>takeprofit\<close> only when one is given.\<close>

definition with_takeprofit :: "(string \<times> pyval) list \<Rightarrow> pyval \<Rightarrow> pyval" where
  "with_takeprofit params takeprofit =
     (if takeprofit \<noteq> PNone then PDict (AList.update ''takeprofit'' takeprofit params)
      else PDict params)"

definition market_params :: "pyval \<Rightarrow> pyval \<Rightarrow> pyval \<Rightarrow> pyval" where
  "market_params margin_sats leverage takeprofit =
     with_takeprofit
       [(''type'', PStr ''m''), (''side'', PStr ''b''),
        (''margin'', margin_sats), (''leverage'', leverage)] takeprofit"

definition limit_params :: "pyval \<Rightarrow> pyval \<Rightarrow> pyval \<Rightarrow> pyval \<Rightarrow> pyval" where
  "limit_params margin_sats leverage price takeprofit =
     with_takeprofit
       [(''type'', PStr ''l''), (''side'', PStr ''b''),
        (''margin'', margin_sats), (''leverage'', leverage), (''price'', price)] takeprofit"

text \<open>Lines 96-118.\<close>

definition place_market_buy_order ::
  "(pyval \<Rightarrow> exn + pyval) \<Rightarrow> lnm_client \<Rightarrow> pyval \<Rightarrow> pyval \<Rightarrow> pyval \<Rightarrow> pyval io" where
  "place_market_buy_order json_loads lnm margin_sats leverage takeprofit =
     try_except
       (bind_io (return_io (market_params margin_sats leverage takeprofit)) (\<lambda>params.
        bind_io (logging DEBUG Orderparameters [LVal params]) (\<lambda>_.
        bind_io (call_new_trade lnm params) (\<lambda>response.
        bind_io (parse_response json_loads response) (\<lambda>order.
        bind_io (eval_io (py_get order ''id'' PNone)) (\<lambda>ident.
          if py_truthy ident then
            bind_io (logging INFO Order_geplaatst [LVal order]) (\<lambda>_. return_io order)
          else
            bind_io (logging ERROR Order_mislukt [LVal order]) (\<lambda>_. return_io PNone)))))))
       (\<lambda>e. bind_io (logging ERROR Fout_plaatsen_order [LExn e])
               (\<lambda>_. return_io PNone))"

text \<open>Lines 120-143.\<close>

definition place_limit_buy_order ::
  "(pyval \<Rightarrow> exn + pyval) \<Rightarrow> lnm_client \<Rightarrow> pyval \<Rightarrow> pyval \<Rightarrow> pyval \<Rightarrow> pyval \<Rightarrow> pyval io" where
  "place_limit_buy_order json_loads lnm margin_sats leverage price takeprofit =
     try_except
       (bind_io (return_io (limit_params margin_sats leverage price takeprofit)) (\<lambda>params.
        bind_io (logging DEBUG Orderparameters [LVal params]) (\<lambda>_.
        bind_io (call_new_trade lnm params) (\<lambda>response.
        bind_io (parse_response json_loads response) (\<lambda>order.
        bind_io (eval_io (py_get order ''id'' PNone)) (\<lambda>ident.
          if py_truthy ident then
            bind_io (logging INFO Limietorder_geplaatst [LVal order]) (\<lambda>_. return_io order)
          else
            bind_io (logging ERROR Limietorder_mislukt_met [LVal order]) (\<lambda>_. return_io PNone)))))))
       (\<lambda>e. bind_io (logging ERROR Fout_plaatsen_limietorder [LExn e])
               (\<lambda>_. return_io PNone))"

text \<open>Lines 145-161: no \<^verbatim>\<open>return\<close> statement, so the value is \<^verbatim>\<open>None\<close> on every path.\<close>

definition set_take_profit ::
  "(pyval \<Rightarrow> exn + pyval) \<Rightarrow> lnm_client \<Rightarrow> pyval \<Rightarrow> pyval \<Rightarrow> pyval io" where
  "set_take_profit json_loads lnm trade_id tp_price =
     try_except
       (bind_io (return_io (PDict [(''id'', trade_id), (''type'', PStr ''takeprofit''),
                                   (''value'', tp_price)])) (\<lambda>params.
        bind_io (logging DEBUG PUT_parameters [LVal params]) (\<lambda>_.
        bind_io (call_update_trade lnm params) (\<lambda>response.
        bind_io (parse_response json_loads response) (\<lambda>updated_order.
        bind_io (eval_io (py_get updated_order ''id'' PNone)) (\<lambda>ident.
          if py_truthy ident then
            bind_io (logging INFO Take_profit_ingesteld [LVal updated_order]) (\<lambda>_. return_io PNone)
          else
            bind_io (logging ERROR Take_profit_mislukt [LVal updated_order]) (\<lambda>_. return_io PNone)))))))
       (\<lambda>e. bind_io (logging ERROR Fout_instellen_take_profit [LExn e])
               (\<lambda>_. return_io PNone))"

text \<open>
  Lines 191-211 of \<^verbatim>\<open>main\<close>: the second market order under the policy that the constant
  \<^verbatim>\<open>USE_DIRECT_TAKE_PROFIT\<close> selects, here a parameter. The value is \<^verbatim>\<open>second_order\<close>.
\<close>

definition second_order_step ::
  "bool \<Rightarrow> (pyval \<Rightarrow> exn + pyval) \<Rightarrow> lnm_client \<Rightarrow> pyval \<Rightarrow> pyval \<Rightarrow> pyval io" where
  "second_order_step use_direct json_loads lnm market_price margin_sats =
     (if use_direct then
        bind_io (eval_io (bind_exn (py_mul_float market_price lit_1_01) py_round)) (\<lambda>tp_price.
        bind_io (logging INFO Take_profit_direct [LVal tp_price, LVal market_price]) (\<lambda>_.
        bind_io (place_market_buy_order json_loads lnm margin_sats (PInt 1) tp_price) (\<lambda>second_order.
          if py_truthy second_order then
            bind_io (eval_io (py_get second_order ''entry_price'' market_price)) (\<lambda>entry_price.
            bind_io (eval_io (bind_exn (py_mul_float entry_price lit_1_01) py_round)) (\<lambda>actual_tp_target.
            bind_io (logging INFO Werkelijke_entry_price
                       [LVal entry_price, LVal tp_price, LVal actual_tp_target]) (\<lambda>_.
              return_io second_order)))
          else return_io second_order)))
      else
        bind_io (place_market_buy_order json_loads lnm margin_sats (PInt 1) PNone) (\<lambda>second_order.
          if py_truthy second_order then
            bind_io (eval_io (py_get second_order ''entry_price'' PNone)) (\<lambda>entry_price.
              if py_truthy entry_price then
                bind_io (eval_io (bind_exn (py_mul_float entry_price lit_1_01) py_round)) (\<lambda>tp_price.
                bind_io (logging INFO Take_profit_op_entry_price [LVal tp_price, LVal entry_price]) (\<lambda>_.
                bind_io (eval_io (py_getitem second_order ''id'')) (\<lambda>trade_id.
                bind_io (set_take_profit json_loads lnm trade_id tp_price) (\<lambda>_.
                  return_io second_order))))
              else
                bind_io (logging ERROR Entry_price_niet_gevonden []) (\<lambda>_. return_io second_order))
          else return_io second_order))"

text \<open>Lines 220-228 of \<^verbatim>\<open>main\<close>: the limit order.\<close>

definition limit_order_step ::
  "(pyval \<Rightarrow> exn + pyval) \<Rightarrow> lnm_client \<Rightarrow> pyval \<Rightarrow> pyval \<Rightarrow> pyval io" where
  "limit_order_step json_loads lnm market_price margin_sats =
     bind_io (logging INFO Plaats_limietorder []) (\<lambda>_.
     bind_io (eval_io (bind_exn (py_sub_int market_price 100) py_round)) (\<lambda>limit_price.
     bind_io (eval_io (bind_exn (py_mul_float limit_price lit_1_01) py_round)) (\<lambda>limit_take_profit.
     bind_io (place_limit_buy_order json_loads lnm margin_sats (PInt 1) limit_price limit_take_profit)
       (\<lambda>limit_order.
       if \<not> py_truthy limit_order then
         bind_io (logging ERROR Limietorder_mislukt []) (\<lambda>_. return_io PNone)
       else
         bind_io (logging INFO Limietorder_op_prijs [LVal limit_price, LVal limit_take_profit])
           (\<lambda>_. return_io PNone)))))"

text \<open>Lines 164-228: \<^verbatim>\<open>main\<close>, for either value of \<^verbatim>\<open>USE_DIRECT_TAKE_PROFIT\<close>.\<close>

definition main_with :: "bool \<Rightarrow> (pyval \<Rightarrow> exn + pyval) \<Rightarrow> lnm_client \<Rightarrow> pyval io" where
  "main_with use_direct json_loads lnm =
     bind_io (get_ticker json_loads lnm) (\<lambda>market_price.
       if \<not> py_truthy market_price then
         bind_io (logging ERROR Kan_marktprijs_niet_ophalen []) (\<lambda>_. return_io PNone)
       else
     bind_io (return_io (PInt 5)) (\<lambda>usd_amount.
     bind_io (usd_to_sats usd_amount market_price) (\<lambda>margin_sats.
     bind_io (eval_io (py_le_int margin_sats 0)) (\<lambda>nonpositive.
       if nonpositive then
         bind_io (logging ERROR Ongeldige_margin []) (\<lambda>_. return_io PNone)
       else
     bind_io (logging INFO Margin_berekend [LVal margin_sats, LVal usd_amount, LVal market_price]) (\<lambda>_.
     bind_io (logging INFO Plaats_eerste_order []) (\<lambda>_.
     bind_io (place_market_buy_order json_loads lnm margin_sats (PInt 1) PNone) (\<lambda>first_order.
       if \<not> py_truthy first_order then
         bind_io (logging ERROR Eerste_order_mislukt []) (\<lambda>_. return_io PNone)
       else
     bind_io (time_sleep REQUEST_DELAY) (\<lambda>_.
     bind_io (logging INFO Plaats_tweede_order []) (\<lambda>_.
     bind_io (second_order_step use_direct json_loads lnm market_price margin_sats) (\<lambda>second_order.
       if \<not> py_truthy second_order then
         bind_io (logging ERROR Tweede_order_mislukt []) (\<lambda>_. return_io PNone)
       else
     bind_io (time_sleep REQUEST_DELAY) (\<lambda>_.
       limit_order_step json_loads lnm market_price margin_sats)))))))))))"

definition main :: "(pyval \<Rightarrow> exn + pyval) \<Rightarrow> lnm_client \<Rightarrow> pyval io" where
  "main = main_with USE_DIRECT_TAKE_PROFIT"

section \<open>Reading traces\<close>

text \<open>The parameters of the order-creation calls, of the update calls, and the delays of a trace.\<close>

fun new_trades :: "event list \<Rightarrow> pyval list" where
  "new_trades [] = []"
| "new_trades (New_trade p # evs) = p # new_trades evs"
| "new_trades (_ # evs) = new_trades evs"

fun update_trades :: "event list \<Rightarrow> pyval list" where
  "update_trades [] = []"
| "update_trades (Update_trade p # evs) = p # update_trades evs"
| "update_trades (_ # evs) = update_trades evs"

fun sleeps :: "event list \<Rightarrow> float64 list" where
  "sleeps [] = []"
| "sleeps (Sleep d # evs) = d # sleeps evs"
| "sleeps (_ # evs) = sleeps evs"

fun is_log :: "event \<Rightarrow> bool" where
  "is_log (Log lv msg args) = True"
| "is_log _ = False"


text \<open>A statement keeps a reading of the trace when running it never changes that reading.\<close>

definition keeps :: "(event list \<Rightarrow> 'x) \<Rightarrow> 'a io \<Rightarrow> bool" where
  "keeps reading m = (\<forall>tr. reading (snd (m tr)) = reading tr)"


section \<open>Words of the specification\<close>

text \<open>A strictly positive float: a positive finite double or \<open>+inf\<close>; NaN is not.\<close>

fun strictly_positive :: "float64 \<Rightarrow> bool" where
  "strictly_positive (Finite r) = (0 < r)"
| "strictly_positive PInf = True"
| "strictly_positive _ = False"

text \<open>
  An order record whose identifier field is present and non-empty: a \<^verbatim>\<open>dict\<close> with a key
  \<^verbatim>\<open>id\<close> whose value is neither \<^verbatim>\<open>None\<close> nor an empty string, list or \<^verbatim>\<open>dict\<close>.
\<close>

definition id_present_nonempty :: "pyval \<Rightarrow> bool" where
  "id_present_nonempty order =
     (case order of
        PDict kvs \<Rightarrow>
          (case map_of kvs ''id'' of
             Some v \<Rightarrow> v \<noteq> PNone \<and> v \<noteq> PStr [] \<and> v \<noteq> PList [] \<and> v \<noteq> PDict []
           | None \<Rightarrow> False)
      | _ \<Rightarrow> False)"

section \<open>Clients for concrete runs\<close>

text \<open>A \<^verbatim>\<open>json.loads\<close> that rejects every input.\<close>

definition json_rejects :: "pyval \<Rightarrow> exn + pyval" where
  "json_rejects response = Inl (OtherError ''JSONDecodeError'')"

text \<open>
  A client with scripted answers: one for the ticker, one for each of the first, second and
  later order-creation calls (told apart by the order calls already in the trace) and one
  for the update call.
\<close>

definition scripted_client ::
  "exn + pyval \<Rightarrow> exn + pyval \<Rightarrow> exn + pyval \<Rightarrow> exn + pyval \<Rightarrow> exn + pyval \<Rightarrow> lnm_client" where
  "scripted_client ticker first second third updated =
     \<lparr> futures_get_ticker = (\<lambda>tr. ticker),
       futures_new_trade = (\<lambda>tr params.
         case new_trades tr of [] \<Rightarrow> first | [p] \<Rightarrow> second | _ \<Rightarrow> third),
       futures_update_trade = (\<lambda>tr params. updated) \<rparr>"

text \<open>
  The venue of the end-to-end scenario: last price "50000", three accepted orders, the
  second one filled at 50010; the update call fails.
\<close>

definition scenario_client :: lnm_client where
  "scenario_client =
     scripted_client
       (Inr (PDict [(''lastPrice'', PStr ''50000'')]))
       (Inr (PDict [(''id'', PStr ''a'')]))
       (Inr (PDict [(''id'', PStr ''b''), (''entry_price'', PInt 50010)]))
       (Inr (PDict [(''id'', PStr ''c'')]))
       (Inl (OtherError ''HTTPError''))"

text \<open>An answer of the venue that carries no identifier.\<close>

definition rejected :: "exn + pyval" where
  "rejected = Inr (PDict [(''message'', PStr ''Rejected'')])"

text \<open>
  The venue of the scenario with one failure: \<open>0\<close> the ticker call raises, \<open>1\<close>, \<open>2\<close>, \<open>3\<close>
  the first, second, third order is rejected.
\<close>

definition failing_client :: "nat \<Rightarrow> lnm_client" where
  "failing_client k =
     scripted_client
       (if k = 0 then Inl (OtherError ''timeout'') else Inr (PDict [(''lastPrice'', PStr ''50000'')]))
       (if k = 1 then rejected else Inr (PDict [(''id'', PStr ''a'')]))
       (if k = 2 then rejected
        else Inr (PDict [(''id'', PStr ''b''), (''entry_price'', PInt 50010)]))
       (if k = 3 then rejected else Inr (PDict [(''id'', PStr ''c'')]))
       (Inl (OtherError ''HTTPError''))"

text \<open>The venue of the scenario, but the second order's answer carries no entry price.\<close>

definition no_entry_price_client :: lnm_client where
  "no_entry_price_client =
     scripted_client
       (Inr (PDict [(''lastPrice'', PStr ''50000'')]))
       (Inr (PDict [(''id'', PStr ''a'')]))
       (Inr (PDict [(''id'', PStr ''b'')]))
       (Inr (PDict [(''id'', PStr ''c'')]))
       (Inl (OtherError ''HTTPError''))"

text \<open>A venue whose last price is infinite.\<close>

definition infinite_price_client :: lnm_client where
  "infinite_price_client =
     scripted_client
       (Inr (PDict [(''lastPrice'', PFloat PInf)]))
       (Inr (PDict [(''id'', PStr ''a'')]))
       (Inr (PDict [(''id'', PStr ''b'')]))
       (Inr (PDict [(''id'', PStr ''c'')]))
       (Inl (OtherError ''HTTPError''))"

text \<open>A client whose ticker holds no number: its \<^verbatim>\<open>lastPrice\<close> is the string \<^verbatim>\<open>nan\<close>.\<close>

definition nan_price_client :: lnm_client where
  "nan_price_client =
     scripted_client
       (Inr (PDict [(''lastPrice'', PStr ''nan'')]))
       (Inr (PDict [(''id'', PStr ''a'')]))
       (Inr (PDict [(''id'', PStr ''b'')]))
       (Inr (PDict [(''id'', PStr ''c'')]))
       (Inl (OtherError ''HTTPError''))"

lemmas io_defs =
  return_io_def raise_io_def eval_io_def bind_io_def try_except_def logging_def time_sleep_def
  call_get_ticker_def call_new_trade_def call_update_trade_def

section \<open>Binary64: facts for evaluation\<close>

lemma rne_eqI: "\<bar>x - of_int m\<bar> < 1 / 2 \<Longrightarrow> rne x = m"
  unfolding rne_def Let_def by (auto simp: abs_if split: if_splits) linarith+

lemma rne_of_int: "rne (of_int m) = m"
  by (rule rne_eqI) simp

lemma quotient_of_pos:
  assumes "0 < r" "quotient_of r = (p, q)"
  shows "0 < p" "0 < q" "r = of_int p / of_int q"
  using assms quotient_of_denom_pos[OF assms(2)] quotient_of_div[OF assms(2)]
  by (auto simp: zero_less_divide_iff)

lemma powi_less_cancel: "(2::rat) powi a < 2 powi b \<Longrightarrow> a < b"
  by (metis power_int_increasing[of b a 2] not_less one_le_numeral)

lemma expo_unique:
  assumes "(2::rat) powi a \<le> x" "x < 2 powi (a + 1)" "2 powi b \<le> x" "x < 2 powi (b + 1)"
  shows "a = b"
proof -
  have "(2::rat) powi a < 2 powi (b + 1)" using assms by linarith
  then have "a < b + 1" by (rule powi_less_cancel)
  moreover have "(2::rat) powi b < 2 powi (a + 1)" using assms by linarith
  then have "b < a + 1" by (rule powi_less_cancel)
  ultimately show ?thesis by simp
qed

lemma bitlen_powi:
  assumes "0 < p"
  shows "(2::rat) powi (bitlen p - 1) \<le> of_int p" "of_int p < (2::rat) powi bitlen p"
proof -
  have b: "1 \<le> bitlen p" using assms by (simp add: bitlen_alt_def)
  have "(2::int) ^ nat (bitlen p - 1) \<le> p" "p < 2 ^ nat (bitlen p)"
    using bitlen_bounds[OF assms] by auto
  then have "rat_of_int (2 ^ nat (bitlen p - 1)) \<le> of_int p" "rat_of_int p < of_int (2 ^ nat (bitlen p))"
    by (simp_all only: of_int_le_iff of_int_less_iff)
  then show "(2::rat) powi (bitlen p - 1) \<le> of_int p" "of_int p < (2::rat) powi bitlen p"
    using b by (simp_all add: power_int_def)
qed

text \<open>\<open>expo\<close> is the binary exponent.\<close>

lemma expo_bounds:
  assumes "r \<noteq> 0"
  shows "2 powi expo r \<le> \<bar>r\<bar> \<and> \<bar>r\<bar> < 2 powi (expo r + 1)"
proof -
  obtain p q where pq: "quotient_of \<bar>r\<bar> = (p, q)" by fastforce
  have x: "0 < \<bar>r\<bar>" using assms by simp
  note f = quotient_of_pos[OF x pq]
  note bp = bitlen_powi[OF f(1)]
  note bq = bitlen_powi[OF f(2)]
  define d where "d = bitlen p - bitlen q"
  have up: "\<bar>r\<bar> < 2 powi (d + 1)"
  proof -
    have "rat_of_int p / of_int q < 2 powi bitlen p / 2 powi (bitlen q - 1)"
      by (rule frac_less) (use f bp bq in auto)
    also have "\<dots> = 2 powi (d + 1)"
      by (simp add: d_def power_int_diff[symmetric] algebra_simps)
    finally show ?thesis using f(3) by simp
  qed
  have lo: "2 powi (d - 1) < \<bar>r\<bar>"
  proof -
    have "(2::rat) powi (bitlen p - 1) / 2 powi bitlen q < of_int p / of_int q"
      by (rule frac_less2) (use f bp bq in auto)
    moreover have "(2::rat) powi (bitlen p - 1) / 2 powi bitlen q = 2 powi (d - 1)"
      by (simp add: d_def power_int_diff[symmetric] algebra_simps)
    ultimately show ?thesis using f(3) by simp
  qed
  show ?thesis
    using up lo pq by (auto simp: expo_def d_def[symmetric] Let_def)
qed

lemma expo_eqI:
  assumes "2 powi e \<le> \<bar>r\<bar>" "\<bar>r\<bar> < 2 powi (e + 1)"
  shows "expo r = e"
proof -
  have "(0::rat) < 2 powi e" by simp
  with assms(1) have "0 < \<bar>r\<bar>" by linarith
  then have "r \<noteq> 0" by simp
  from expo_bounds[OF this] assms show ?thesis
    using expo_unique[of "expo r" "\<bar>r\<bar>" e] by blast
qed

lemma round64_val:
  assumes "r \<noteq> 0" "quantum r = q" "rne (r / q) = m" "of_int m * q = v" "\<bar>v\<bar> < 2 ^ 1024"
  shows "round64 r = Finite v"
proof -
  have "\<not> 2 ^ 1024 \<le> v" "\<not> v \<le> - (2 ^ 1024)" using assms(5) by linarith+
  then show ?thesis
    by (simp only: round64_def Let_def assms(1-4) if_False)
qed

text \<open>
  How a rounding is computed by hand: with the exponent \<open>e\<close> of \<open>r\<close> in the normal range and
  \<open>m\<close> the integer nearest to \<open>r\<close> in units of \<open>2 powi (e - 52)\<close>.
\<close>

lemma round64_eqI:
  assumes "2 powi e \<le> \<bar>r\<bar>" "\<bar>r\<bar> < 2 powi (e + 1)" "- 1022 \<le> e"
    and "\<bar>r / 2 powi (e - 52) - of_int m\<bar> < 1 / 2"
    and "\<bar>rat_of_int m * 2 powi (e - 52)\<bar> < 2 ^ 1024"
  shows "round64 r = Finite (of_int m * 2 powi (e - 52))"
proof -
  have "(0::rat) < 2 powi e" by simp
  with assms(1) have "0 < \<bar>r\<bar>" by linarith
  then have nz: "r \<noteq> 0" by simp
  have e: "expo r = e" using assms(1,2) by (rule expo_eqI)
  have q: "quantum r = 2 powi (e - 52)" using assms(3) by (simp add: quantum_def e max_def)
  have m: "rne (r / 2 powi (e - 52)) = m" using assms(4) by (rule rne_eqI)
  show ?thesis using nz q m refl assms(5) by (rule round64_val)
qed

text \<open>An integer below \<open>2 ^ 53\<close> is a double.\<close>

lemma round64_int:
  assumes "\<bar>n\<bar> < 2 ^ 53"
  shows "round64 (of_int n) = Finite (of_int n)"
proof (cases "n = 0")
  case True
  then show ?thesis by (simp add: round64_def)
next
  case False
  define r :: rat where "r = of_int n"
  have nz: "r \<noteq> 0" using False by (simp add: r_def)
  define e where "e = expo r"
  note b = expo_bounds[OF nz, folded e_def]
  have "\<bar>r\<bar> < 2 powi 53" using assms unfolding r_def
    by (metis of_int_abs of_int_less_numeral_power_cancel_iff power_int_numeral)
  with b have "(2::rat) powi e < 2 powi 53" by linarith
  then have e53: "e < 53" by (rule powi_less_cancel)
  have "1 \<le> \<bar>n\<bar>" using False by simp
  then have "rat_of_int 1 \<le> of_int \<bar>n\<bar>" by (simp only: of_int_le_iff)
  then have "1 \<le> \<bar>r\<bar>" by (simp add: r_def)
  with b have "(2::rat) powi 0 < 2 powi (e + 1)" by simp
  then have e0: "0 \<le> e" using powi_less_cancel[of 0 "e + 1"] by simp
  have q: "quantum r = 2 powi (e - 52)" using e0 by (simp add: quantum_def e_def max_def)
  have "r / 2 powi (e - 52) = r * 2 powi (52 - e)"
    by (simp add: power_int_diff field_simps)
  also have "\<dots> = of_int (n * 2 ^ nat (52 - e))"
    using e53 by (simp add: r_def power_int_def)
  finally have m: "rne (r / 2 powi (e - 52)) = n * 2 ^ nat (52 - e)"
    by (simp only: rne_of_int)
  have v: "rat_of_int (n * 2 ^ nat (52 - e)) * 2 powi (e - 52) = r"
    using e53 by (simp add: r_def power_int_def power_int_diff field_simps)
  have "\<bar>r\<bar> < 2 ^ 1024"
  proof -
    have "(2::rat) powi 53 \<le> 2 powi 1024" by (rule power_int_increasing) auto
    with \<open>\<bar>r\<bar> < 2 powi 53\<close> show ?thesis by simp
  qed
  with nz q m v show ?thesis unfolding r_def[symmetric] by (rule round64_val)
qed

lemma lit_1e8: "lit_1e8 = Finite 100000000"
  unfolding lit_1e8_def using round64_int[of 100000000] by simp

lemma lit_1_01: "lit_1_01 = Finite (4548635623644201 / 4503599627370496)"
  unfolding lit_1_01_def
  using round64_eqI[where e = 0 and r = "101 / 100" and m = 4548635623644201] by simp

subsection \<open>Bounds on a rounding\<close>

lemma rne_cases:
  obtains (down) "rne y = \<lfloor>y\<rfloor>" "y - of_int \<lfloor>y\<rfloor> \<le> 1 / 2"
  | (up) "rne y = \<lfloor>y\<rfloor> + 1" "1 / 2 < y - of_int \<lfloor>y\<rfloor>"
  | (tie) "rne y = \<lfloor>y\<rfloor> + 1" "y - of_int \<lfloor>y\<rfloor> = 1 / 2" "odd \<lfloor>y\<rfloor>"
  unfolding rne_def Let_def
  by (cases "even \<lfloor>y\<rfloor>"; cases "y - of_int \<lfloor>y\<rfloor>" "1 / 2 :: rat" rule: linorder_cases) auto

lemma rne_bound: "\<bar>rat_of_int (rne y)\<bar> \<le> 2 * \<bar>y\<bar>"
proof -
  define f where "f = \<lfloor>y\<rfloor>"
  have fl: "of_int f \<le> y" "y < of_int f + 1" unfolding f_def by linarith+
  have f1: "rat_of_int (f + 1) = of_int f + 1" by simp
  show ?thesis
  proof (cases "0 \<le> y")
    case True
    then have "0 \<le> f" unfolding f_def by simp
    then have f0: "rat_of_int 0 \<le> of_int f" by (simp only: of_int_le_iff)
    have odd1: "rat_of_int 1 \<le> of_int f" if "odd f"
    proof -
      from that \<open>0 \<le> f\<close> have "1 \<le> f" by presburger
      then show ?thesis by (simp only: of_int_le_iff)
    qed
    show ?thesis
    proof (cases y rule: rne_cases)
      case down
      then show ?thesis using True fl f0 unfolding f_def[symmetric] by simp
    next
      case up
      then show ?thesis using True fl f0 f1 unfolding f_def[symmetric] by simp
    next
      case tie
      then show ?thesis using True fl f0 f1 odd1 unfolding f_def[symmetric] by simp
    qed
  next
    case False
    then have "f < 0" unfolding f_def by (simp add: floor_less_iff)
    then have "f \<le> - 1" by simp
    then have "rat_of_int f \<le> of_int (- 1)" by (simp only: of_int_le_iff)
    then have fm: "rat_of_int f \<le> - 1" by simp
    show ?thesis
    proof (cases y rule: rne_cases)
      case down
      then show ?thesis using False fl fm unfolding f_def[symmetric] by simp
    next
      case up
      then show ?thesis using False fl fm f1 unfolding f_def[symmetric] by simp
    next
      case tie
      then show ?thesis using False fl fm f1 unfolding f_def[symmetric] by simp
    qed
  qed
qed

lemma rne_sign: "0 \<le> y \<Longrightarrow> 0 \<le> rne y" "y \<le> 0 \<Longrightarrow> rne y \<le> 0"
proof -
  have a: "\<bar>rat_of_int (rne y)\<bar> \<le> 2 * \<bar>y\<bar>" by (rule rne_bound)
  have lo: "rat_of_int \<lfloor>y\<rfloor> \<le> y" by linarith
  show "0 \<le> rne y" if "0 \<le> y"
  proof -
    from that have "0 \<le> \<lfloor>y\<rfloor>" by simp
    then show ?thesis by (cases y rule: rne_cases) simp_all
  qed
  show "rne y \<le> 0" if "y \<le> 0"
  proof (cases "y = 0")
    case True then show ?thesis by (simp add: rne_def)
  next
    case False
    with that have "y < 0" by simp
    then have "\<lfloor>y\<rfloor> < 0" by (simp add: floor_less_iff)
    then show ?thesis by (cases y rule: rne_cases) simp_all
  qed
qed

lemma quantum_pos: "0 < quantum r"
  by (simp add: quantum_def)

lemma round64_small:
  assumes "\<bar>x\<bar> < 2 ^ 1023"
  shows "\<exists>v. round64 x = Finite v \<and> \<bar>v\<bar> \<le> 2 * \<bar>x\<bar> \<and> (0 \<le> x \<longrightarrow> 0 \<le> v) \<and> (x \<le> 0 \<longrightarrow> v \<le> 0)"
proof (cases "x = 0")
  case True
  then show ?thesis by (simp add: round64_def)
next
  case False
  define q where "q = quantum x"
  define m where "m = rne (x / q)"
  define v where "v = rat_of_int m * q"
  have q: "0 < q" unfolding q_def by (rule quantum_pos)
  have "\<bar>rat_of_int m\<bar> \<le> 2 * \<bar>x / q\<bar>" unfolding m_def by (rule rne_bound)
  then have "\<bar>rat_of_int m\<bar> \<le> (2 * \<bar>x\<bar>) / q" using q by simp
  then have "\<bar>rat_of_int m\<bar> * q \<le> 2 * \<bar>x\<bar>" using q by (simp only: pos_le_divide_eq)
  then have b: "\<bar>v\<bar> \<le> 2 * \<bar>x\<bar>" using q by (simp add: v_def abs_mult)
  then have "\<bar>v\<bar> < 2 ^ 1024" using assms by simp
  with False have r: "round64 x = Finite v"
    by (intro round64_val[where q = q and m = m]) (simp_all add: q_def m_def v_def)
  have "0 \<le> x \<Longrightarrow> 0 \<le> v" using rne_sign(1)[of "x / q"] q by (simp add: v_def m_def)
  moreover have "x \<le> 0 \<Longrightarrow> v \<le> 0"
    using rne_sign(2)[of "x / q"] q by (simp add: v_def m_def divide_le_0_iff mult_le_0_iff)
  ultimately show ?thesis using r b by blast
qed

subsection \<open>The numbers of the end-to-end scenario\<close>

lemma int_to_float_small: "\<bar>n\<bar> < 2 ^ 53 \<Longrightarrow> int_to_float n = Inr (Finite (of_int n))"
  by (simp add: int_to_float_def round64_int)

lemma rne_numeral [simp]: "rne (numeral k) = numeral k" "rne (- numeral k) = - numeral k" "rne 0 = 0" "rne 1 = 1"
  using rne_of_int[of "numeral k"] rne_of_int[of "- numeral k"] rne_of_int[of 0] rne_of_int[of 1] by simp_all

lemma round64_numeral: "numeral k < (2::int) ^ 53 \<Longrightarrow> round64 (numeral k) = Finite (numeral k)"
  using round64_int[of "numeral k"] by simp

lemma fdiv_5_50000:
  "fdiv (Finite 5) (Finite 50000) = Finite (7378697629483821 / 73786976294838206464)"
  using round64_eqI[where e = "- 14" and r = "5 / 50000" and m = 7378697629483821]
  by (simp add: fdiv_def)

lemma fdiv_5_neg50000:
  "fdiv (Finite 5) (Finite (- 50000)) = Finite (- (7378697629483821 / 73786976294838206464))"
  using round64_eqI[where e = "- 14" and r = "- (5 / 50000)" and m = "- 7378697629483821"]
  by (simp add: fdiv_def)

lemma fmul_1e8:
  "fmul (Finite (7378697629483821 / 73786976294838206464)) (Finite 100000000) = Finite 10000"
  using round64_eqI[where e = 13 and r = "7378697629483821 / 73786976294838206464 * 100000000"
      and m = 5497558138880000]
  by (simp add: fmul_def)

lemma fmul_neg_1e8:
  "fmul (Finite (- (7378697629483821 / 73786976294838206464))) (Finite 100000000) = Finite (- 10000)"
  using round64_eqI[where e = 13 and r = "- (7378697629483821 / 73786976294838206464) * 100000000"
      and m = "- 5497558138880000"]
  by (simp add: fmul_def)

lemma fmul_50000:
  "fmul (Finite 50000) (Finite (4548635623644201 / 4503599627370496)) = Finite 50500"
  using round64_eqI[where e = 15 and r = "50000 * (4548635623644201 / 4503599627370496)"
      and m = 6940667150336000]
  by (simp add: fmul_def)

lemma fmul_50010:
  "fmul (Finite 50010) (Finite (4548635623644201 / 4503599627370496)) =
     Finite (6942055283766067 / 137438953472)"
  using round64_eqI[where e = 15 and r = "50010 * (4548635623644201 / 4503599627370496)"
      and m = 6942055283766067]
  by (simp add: fmul_def)

lemma fmul_49900:
  "fmul (Finite 49900) (Finite (4548635623644201 / 4503599627370496)) = Finite 50399"
  using round64_eqI[where e = 15 and r = "49900 * (4548635623644201 / 4503599627370496)"
      and m = 6926785816035328]
  by (simp add: fmul_def)

lemma fsub_50000_100: "fsub (Finite 50000) (Finite 100) = Finite 49900"
  using round64_int[of 49900] by (simp add: fsub_def)

lemma rne_50510: "rne (6942055283766067 / 137438953472) = 50510"
  by (rule rne_eqI) simp

lemma usd_to_sats_5_50000:
  "usd_to_sats (PInt 5) (PFloat (Finite 50000)) tr = (Inr (PInt 10000), tr)"
  by (simp add: usd_to_sats_def io_defs bind_exn_def py_truediv_def py_mul_float_def
      int_to_float_small lit_1e8 fdiv_5_50000 fmul_1e8)

lemma usd_to_sats_5_neg50000:
  "usd_to_sats (PInt 5) (PFloat (Finite (- 50000))) tr = (Inr (PInt (- 10000)), tr)"
  by (simp add: usd_to_sats_def io_defs bind_exn_def py_truediv_def py_mul_float_def
      int_to_float_small lit_1e8 fdiv_5_neg50000 fmul_neg_1e8)

lemma tp_50000: "bind_exn (py_mul_float (PFloat (Finite 50000)) lit_1_01) py_round = Inr (PInt 50500)"
  by (simp add: bind_exn_def py_mul_float_def lit_1_01 fmul_50000)

lemma tp_50010: "bind_exn (py_mul_float (PInt 50010) lit_1_01) py_round = Inr (PInt 50510)"
  by (simp add: bind_exn_def py_mul_float_def lit_1_01 fmul_50010 int_to_float_small rne_50510)

lemma tp_49900: "bind_exn (py_mul_float (PInt 49900) lit_1_01) py_round = Inr (PInt 50399)"
  by (simp add: bind_exn_def py_mul_float_def lit_1_01 fmul_49900 int_to_float_small)

lemma limit_50000: "bind_exn (py_sub_int (PFloat (Finite 50000)) 100) py_round = Inr (PInt 49900)"
  by (simp add: bind_exn_def py_sub_int_def int_to_float_small fsub_50000_100)

lemma float_50000: "py_float (PStr ''50000'') = Inr (PFloat (Finite 50000))"
  by (simp add: float_of_string_def strip_def is_space_def blank_unicode_space_def split_sign_def
      mantissa_def
      digitpart_def is_digit_def exponent_def digits_val_def digit_val_def lower_def
      bind_exn_def round64_numeral)

section \<open>The response normalizer\<close>

lemma parse_response_structured:
  "isinstance_dict_list response \<Longrightarrow> parse_response json_loads response tr = (Inr response, tr)"
  by (simp add: parse_response_def io_defs)

lemma parse_response_decoded:
  "\<not> isinstance_dict_list response \<Longrightarrow> json_loads response = Inr v \<Longrightarrow>
   parse_response json_loads response tr = (Inr v, tr)"
  by (simp add: parse_response_def io_defs)

lemma parse_response_failed:
  "\<not> isinstance_dict_list response \<Longrightarrow> json_loads response = Inl e \<Longrightarrow>
   parse_response json_loads response tr =
     (Inr (PDict []), tr @ [Log ERROR Fout_parsen_response [LExn e]])"
  by (simp add: parse_response_def io_defs)

lemma parse_response_cases:
  obtains v where "parse_response json_loads response tr = (Inr v, tr)"
  | e where "parse_response json_loads response tr =
      (Inr (PDict []), tr @ [Log ERROR Fout_parsen_response [LExn e]])"
  by (cases "isinstance_dict_list response"; cases "json_loads response")
    (auto simp: parse_response_structured parse_response_decoded parse_response_failed)

text \<open>
  C7. \<^verbatim>\<open>parse_response\<close> returns a \<^verbatim>\<open>dict\<close> or \<^verbatim>\<open>list\<close> unchanged and logs nothing;
  any other input goes to \<^verbatim>\<open>json.loads\<close>, whose value is returned when it decodes, and
  whose failure is logged as one error and answered by the empty \<^verbatim>\<open>dict\<close>; for every
  input and every behaviour of \<^verbatim>\<open>json.loads\<close> the function returns a value, never an
  exception.
\<close>

theorem parse_response_contract:
  "(isinstance_dict_list response \<longrightarrow>
      parse_response json_loads response tr = (Inr response, tr)) \<and>
   (\<not> isinstance_dict_list response \<longrightarrow>
      (\<forall>v. json_loads response = Inr v \<longrightarrow>
         parse_response json_loads response tr = (Inr v, tr)) \<and>
      (\<forall>e. json_loads response = Inl e \<longrightarrow>
         parse_response json_loads response tr =
           (Inr (PDict []), tr @ [Log ERROR Fout_parsen_response [LExn e]]))) \<and>
   (\<exists>v tr'. parse_response json_loads response tr = (Inr v, tr'))"
proof (intro conjI impI allI)
  show "\<exists>v tr'. parse_response json_loads response tr = (Inr v, tr')"
    by (rule parse_response_cases[of json_loads response tr]) blast+
qed (simp_all add: parse_response_structured parse_response_decoded parse_response_failed)

theorem parse_response_contract_witness:
  "parse_response json_rejects (PList [PInt 1]) [] = (Inr (PList [PInt 1]), []) \<and>
   parse_response (\<lambda>s. Inr (PInt 7)) (PStr ''7'') [Get_ticker] = (Inr (PInt 7), [Get_ticker]) \<and>
   parse_response json_rejects (PStr ''<html>'') [Get_ticker] =
     (Inr (PDict []),
      [Get_ticker, Log ERROR Fout_parsen_response [LExn (OtherError ''JSONDecodeError'')]])"
  using parse_response_contract[where response = "PList [PInt 1]" and json_loads = json_rejects
      and tr = "[]"]
    parse_response_contract[where response = "PStr ''7''" and json_loads = "\<lambda>s. Inr (PInt 7)"
      and tr = "[Get_ticker]"]
    parse_response_contract[where response = "PStr ''<html>''" and json_loads = json_rejects
      and tr = "[Get_ticker]"]
  by (simp add: json_rejects_def)

section \<open>The unit converter\<close>

lemma usd_to_sats_value:
  "bind_exn (py_truediv usd_amount btc_price) (\<lambda>q. bind_exn (py_mul_float q lit_1e8) py_round) = Inr n \<Longrightarrow>
   usd_to_sats usd_amount btc_price tr = (Inr n, tr)"
  by (simp add: usd_to_sats_def io_defs)

lemma usd_to_sats_raised:
  "bind_exn (py_truediv usd_amount btc_price) (\<lambda>q. bind_exn (py_mul_float q lit_1e8) py_round) = Inl e \<Longrightarrow>
   usd_to_sats usd_amount btc_price tr = (Inr (PInt 0), tr @ [Log ERROR Fout_usd_to_sats [LExn e]])"
  by (simp add: usd_to_sats_def io_defs)

lemma py_round_float_int: "py_round (PFloat f) = Inr v \<Longrightarrow> \<exists>n. v = PInt n"
  by (cases f) auto

lemma py_truediv_float: "py_truediv a b = Inr q \<Longrightarrow> \<exists>f. q = PFloat f"
  by (auto simp: py_truediv_def bind_exn_def split: option.splits sum.splits if_splits float64.splits)

lemma py_mul_float_float: "py_mul_float a c = Inr q \<Longrightarrow> \<exists>f. q = PFloat f"
  by (auto simp: py_mul_float_def bind_exn_def split: option.splits sum.splits)

lemma usd_formula_int:
  assumes "bind_exn (py_truediv a b) (\<lambda>q. bind_exn (py_mul_float q lit_1e8) py_round) = Inr v"
  shows "\<exists>n. v = PInt n"
proof -
  from assms obtain q where q: "py_truediv a b = Inr q" by (auto simp: bind_exn_def split: sum.splits)
  with assms obtain p where p: "py_mul_float q lit_1e8 = Inr p" "py_round p = Inr v"
    by (auto simp: bind_exn_def split: sum.splits)
  from py_mul_float_float[OF p(1)] obtain f where "p = PFloat f" by blast
  with p(2) show ?thesis by (auto dest: py_round_float_int)
qed

lemma usd_to_sats_cases:
  obtains (val) n where "usd_to_sats a b tr = (Inr (PInt n), tr)"
      "bind_exn (py_truediv a b) (\<lambda>q. bind_exn (py_mul_float q lit_1e8) py_round) = Inr (PInt n)"
  | (exn) e where "usd_to_sats a b tr = (Inr (PInt 0), tr @ [Log ERROR Fout_usd_to_sats [LExn e]])"
      "bind_exn (py_truediv a b) (\<lambda>q. bind_exn (py_mul_float q lit_1e8) py_round) = Inl e"
proof (cases "bind_exn (py_truediv a b) (\<lambda>q. bind_exn (py_mul_float q lit_1e8) py_round)")
  case (Inl e)
  then show ?thesis using exn usd_to_sats_raised by blast
next
  case (Inr v)
  with usd_formula_int obtain n where "v = PInt n" by blast
  with Inr show ?thesis using val usd_to_sats_value by blast
qed

lemma usd_to_sats_zero_price:
  assumes "btc_price = PInt 0 \<or> btc_price = PFloat (Finite 0) \<or> btc_price = PBool False"
  shows "\<exists>e. bind_exn (py_truediv usd_amount btc_price) (\<lambda>q. bind_exn (py_mul_float q lit_1e8) py_round) = Inl e"
  using assms
  by (cases usd_amount)
    (auto simp: py_truediv_def bind_exn_def int_to_float_small split: option.splits sum.splits)

lemma usd_to_sats_not_number:
  assumes "as_float usd_amount = None \<or> as_float btc_price = None"
  shows "bind_exn (py_truediv usd_amount btc_price) (\<lambda>q. bind_exn (py_mul_float q lit_1e8) py_round) = Inl TypeError"
  using assms
  by (cases usd_amount; cases btc_price)
    (auto simp: py_truediv_def bind_exn_def split: option.splits sum.splits)

lemma usd_to_sats_floats:
  assumes "int_to_float a = Inr (Finite a')" "r \<noteq> 0"
    and "fdiv (Finite a') (Finite r) = Finite x" "fmul (Finite x) lit_1e8 = Finite y"
  shows "usd_to_sats (PInt a) (PFloat (Finite r)) tr = (Inr (PInt (rne y)), tr)"
  using assms by (intro usd_to_sats_value) (simp add: py_truediv_def py_mul_float_def bind_exn_def)

lemma usd_to_sats_total: "\<exists>n tr'. usd_to_sats usd_amount btc_price tr = (Inr (PInt n), tr')"
  by (rule usd_to_sats_cases[of usd_amount btc_price tr]) blast+

text \<open>
  C1, as the code has it. Whenever \<^verbatim>\<open>usd_amount / btc_price * 1e8\<close> and its rounding
  evaluate, \<^verbatim>\<open>usd_to_sats\<close> returns that integer and logs nothing, whatever the sign of the
  price: for an \<^verbatim>\<open>int\<close> amount and a finite non-zero float price whose quotient and product
  are finite it is \<open>rne\<close> of the rounded product of the rounded quotient. Whenever the
  evaluation raises, it returns exactly 0 after one logged error; a zero price and a
  non-numeric argument always raise. The function never raises and always returns an
  \<^verbatim>\<open>int\<close>.
\<close>

theorem usd_to_sats_contract:
  "(\<forall>n. bind_exn (py_truediv usd_amount btc_price)
           (\<lambda>q. bind_exn (py_mul_float q lit_1e8) py_round) = Inr n \<longrightarrow>
        usd_to_sats usd_amount btc_price tr = (Inr n, tr)) \<and>
   (\<forall>a a' r x y. usd_amount = PInt a \<and> btc_price = PFloat (Finite r) \<and> r \<noteq> 0 \<and>
        int_to_float a = Inr (Finite a') \<and> fdiv (Finite a') (Finite r) = Finite x \<and>
        fmul (Finite x) lit_1e8 = Finite y \<longrightarrow>
        usd_to_sats usd_amount btc_price tr = (Inr (PInt (rne y)), tr)) \<and>
   (\<forall>e. bind_exn (py_truediv usd_amount btc_price)
           (\<lambda>q. bind_exn (py_mul_float q lit_1e8) py_round) = Inl e \<longrightarrow>
        usd_to_sats usd_amount btc_price tr =
          (Inr (PInt 0), tr @ [Log ERROR Fout_usd_to_sats [LExn e]])) \<and>
   (btc_price = PInt 0 \<or> btc_price = PFloat (Finite 0) \<or> btc_price = PBool False \<longrightarrow>
      (\<exists>e. usd_to_sats usd_amount btc_price tr =
          (Inr (PInt 0), tr @ [Log ERROR Fout_usd_to_sats [LExn e]]))) \<and>
   (as_float usd_amount = None \<or> as_float btc_price = None \<longrightarrow>
      usd_to_sats usd_amount btc_price tr =
        (Inr (PInt 0), tr @ [Log ERROR Fout_usd_to_sats [LExn TypeError]])) \<and>
   (\<exists>n tr'. usd_to_sats usd_amount btc_price tr = (Inr (PInt n), tr'))"
proof (intro conjI allI impI)
  show "\<exists>e. usd_to_sats usd_amount btc_price tr =
      (Inr (PInt 0), tr @ [Log ERROR Fout_usd_to_sats [LExn e]])"
    if "btc_price = PInt 0 \<or> btc_price = PFloat (Finite 0) \<or> btc_price = PBool False"
    using usd_to_sats_zero_price[OF that, of usd_amount] usd_to_sats_raised by blast
  show "usd_to_sats usd_amount btc_price tr =
      (Inr (PInt 0), tr @ [Log ERROR Fout_usd_to_sats [LExn TypeError]])"
    if "as_float usd_amount = None \<or> as_float btc_price = None"
    using usd_to_sats_not_number[OF that] by (rule usd_to_sats_raised)
  show "usd_to_sats usd_amount btc_price tr = (Inr (PInt (rne y)), tr)"
    if "usd_amount = PInt a \<and> btc_price = PFloat (Finite r) \<and> r \<noteq> 0 \<and>
        int_to_float a = Inr (Finite a') \<and> fdiv (Finite a') (Finite r) = Finite x \<and>
        fmul (Finite x) lit_1e8 = Finite y" for a a' r x y
    using that usd_to_sats_floats by blast
qed (simp_all add: usd_to_sats_value usd_to_sats_raised usd_to_sats_total)

theorem usd_to_sats_contract_witness:
  "usd_to_sats (PInt 5) (PFloat (Finite 50000)) [] = (Inr (PInt 10000), []) \<and>
   (\<exists>e. usd_to_sats (PInt 5) (PInt 0) [] =
      (Inr (PInt 0), [Log ERROR Fout_usd_to_sats [LExn e]])) \<and>
   usd_to_sats (PInt 5) (PStr ''50000'') [] =
      (Inr (PInt 0), [Log ERROR Fout_usd_to_sats [LExn TypeError]])"
proof -
  have e: "bind_exn (py_truediv (PInt 5) (PFloat (Finite 50000)))
      (\<lambda>q. bind_exn (py_mul_float q lit_1e8) py_round) = Inr (PInt 10000)"
    by (simp add: bind_exn_def py_truediv_def py_mul_float_def int_to_float_small lit_1e8
        fdiv_5_50000 fmul_1e8)
  show ?thesis
    using usd_to_sats_contract[where usd_amount = "PInt 5" and btc_price = "PFloat (Finite 50000)"
        and tr = "[]"]
      usd_to_sats_contract[where usd_amount = "PInt 5" and btc_price = "PInt 0" and tr = "[]"]
      usd_to_sats_contract[where usd_amount = "PInt 5" and btc_price = "PStr ''50000''" and tr = "[]"]
    by (simp add: e)
qed

text \<open>
  C1, as the specification has it, fails: at the price \<open>-50000.0\<close> nothing is raised, and the
  result for 5 dollars is \<open>-10000\<close>, not 0.
\<close>

theorem usd_to_sats_negative_price:
  "usd_to_sats (PInt 5) (PFloat (Finite (- 50000))) [] = (Inr (PInt (- 10000)), [])"
  by (rule usd_to_sats_5_neg50000)

section \<open>The market price fetch\<close>

lemma py_float_float: "py_float v = Inr w \<Longrightarrow> \<exists>f. w = PFloat f"
  by (cases v) (auto simp: bind_exn_def split: sum.splits)

lemma strictly_positive_not_le: "strictly_positive f \<Longrightarrow> \<not> fle_rat f 0"
  by (cases f) auto

lemma get_ticker_transport:
  "futures_get_ticker lnm tr = Inl e \<Longrightarrow>
   get_ticker json_loads lnm tr =
     (Inr PNone, tr @ [Get_ticker, Log ERROR Fout_ophalen_ticker [LExn e]])"
  by (simp add: get_ticker_def io_defs)

lemma get_ticker_price:
  assumes "futures_get_ticker lnm tr = Inr response"
    and "parse_response json_loads response (tr @ [Get_ticker]) = (Inr ticker, tr2)"
    and "bind_exn (py_get ticker ''lastPrice'' (PInt 0)) py_float = Inr (PFloat f)"
  shows "get_ticker json_loads lnm tr =
     (if fle_rat f 0 then (Inr PNone, tr2 @ [Log ERROR Fout_ophalen_ticker [LExn ValueError]])
      else (Inr (PFloat f), tr2))"
  using assms by (simp add: get_ticker_def io_defs py_le_int_def)

lemma get_ticker_no_price:
  assumes "futures_get_ticker lnm tr = Inr response"
    and "parse_response json_loads response (tr @ [Get_ticker]) = (Inr ticker, tr2)"
    and "bind_exn (py_get ticker ''lastPrice'' (PInt 0)) py_float = Inl e"
  shows "get_ticker json_loads lnm tr =
     (Inr PNone, tr2 @ [Log ERROR Fout_ophalen_ticker [LExn e]])"
  using assms by (simp add: get_ticker_def io_defs)

lemma float_of_zero: "bind_exn (Inr (PInt 0)) py_float = Inr (PFloat (Finite 0))"
  using int_to_float_small[of 0] by (simp add: bind_exn_def)

lemma get_ticker_cases:
  obtains (price) f evs where
      "get_ticker json_loads lnm tr = (Inr (PFloat f), tr @ Get_ticker # evs)"
      "\<not> fle_rat f 0" "list_all is_log evs"
  | (none) evs where
      "get_ticker json_loads lnm tr = (Inr PNone, tr @ Get_ticker # evs)" "list_all is_log evs"
proof (cases "futures_get_ticker lnm tr")
  case (Inl e)
  show ?thesis
    by (rule none[of "[Log ERROR Fout_ophalen_ticker [LExn e]]"])
      (simp_all add: get_ticker_transport[OF Inl])
next
  case (Inr response)
  obtain ticker evs where p: "parse_response json_loads response (tr @ [Get_ticker]) =
      (Inr ticker, tr @ Get_ticker # evs)" "list_all is_log evs"
    by (rule parse_response_cases[of json_loads response "tr @ [Get_ticker]"]) auto
  show ?thesis
  proof (cases "bind_exn (py_get ticker ''lastPrice'' (PInt 0)) py_float")
    case (Inl e)
    show ?thesis
      by (rule none[of "evs @ [Log ERROR Fout_ophalen_ticker [LExn e]]"])
        (simp_all add: get_ticker_no_price[OF Inr p(1) Inl] p(2))
  next
    case r: (Inr w)
    then obtain f where w: "w = PFloat f"
      by (auto simp: bind_exn_def split: sum.splits dest: py_float_float)
    note g = get_ticker_price[OF Inr p(1) r[unfolded w]]
    show ?thesis
    proof (cases "fle_rat f 0")
      case True
      show ?thesis
        by (rule none[of "evs @ [Log ERROR Fout_ophalen_ticker [LExn ValueError]]"])
          (simp_all add: g True p(2))
    next
      case False
      show ?thesis
        by (rule price[of f evs]) (simp_all add: g False p(2))
    qed
  qed
qed

text \<open>
  The outcomes of \<^verbatim>\<open>get_ticker\<close>, which never raises. With \<open>ticker\<close> the normalized answer of
  the ticker call: when \<^verbatim>\<open>float(ticker.get('lastPrice', 0))\<close> is strictly positive, that float is
  returned and nothing is logged, and for \<^verbatim>\<open>lastPrice = "50000"\<close> it is \<open>50000.0\<close>; when the field is
  absent, is 0, converts to a float \<open>\<le> 0\<close> or does not convert, and when the client raises, the
  value is \<^verbatim>\<open>None\<close> after one logged error. The one float left, NaN, is neither: the test
  \<^verbatim>\<open>price <= 0\<close> is false on it, and it is returned with nothing logged.
\<close>

lemma get_ticker_outcomes:
  "(\<exists>v tr'. get_ticker json_loads lnm tr = (Inr v, tr')) \<and>
   (\<forall>e. futures_get_ticker lnm tr = Inl e \<longrightarrow>
      get_ticker json_loads lnm tr =
        (Inr PNone, tr @ [Get_ticker, Log ERROR Fout_ophalen_ticker [LExn e]])) \<and>
   (\<forall>response ticker tr2.
      futures_get_ticker lnm tr = Inr response \<and>
      parse_response json_loads response (tr @ [Get_ticker]) = (Inr ticker, tr2) \<longrightarrow>
      (\<forall>f. bind_exn (py_get ticker ''lastPrice'' (PInt 0)) py_float = Inr (PFloat f) \<and>
           strictly_positive f \<longrightarrow>
           get_ticker json_loads lnm tr = (Inr (PFloat f), tr2)) \<and>
      (py_get ticker ''lastPrice'' (PInt 0) = Inr (PStr ''50000'') \<longrightarrow>
           get_ticker json_loads lnm tr = (Inr (PFloat (Finite 50000)), tr2)) \<and>
      (\<forall>f. bind_exn (py_get ticker ''lastPrice'' (PInt 0)) py_float = Inr (PFloat f) \<and>
           fle_rat f 0 \<longrightarrow>
           get_ticker json_loads lnm tr =
             (Inr PNone, tr2 @ [Log ERROR Fout_ophalen_ticker [LExn ValueError]])) \<and>
      (bind_exn (py_get ticker ''lastPrice'' (PInt 0)) py_float = Inr (PFloat NaN) \<longrightarrow>
           get_ticker json_loads lnm tr = (Inr (PFloat NaN), tr2)) \<and>
      (\<forall>kvs. ticker = PDict kvs \<and>
           (map_of kvs ''lastPrice'' = None \<or> map_of kvs ''lastPrice'' = Some (PInt 0)) \<longrightarrow>
           get_ticker json_loads lnm tr =
             (Inr PNone, tr2 @ [Log ERROR Fout_ophalen_ticker [LExn ValueError]])) \<and>
      (\<forall>e. bind_exn (py_get ticker ''lastPrice'' (PInt 0)) py_float = Inl e \<longrightarrow>
           get_ticker json_loads lnm tr =
             (Inr PNone, tr2 @ [Log ERROR Fout_ophalen_ticker [LExn e]])))"
proof (intro conjI allI impI; (elim conjE)?)
  show "\<exists>v tr'. get_ticker json_loads lnm tr = (Inr v, tr')"
    by (rule get_ticker_cases[of json_loads lnm tr]) blast+
next
  fix response ticker tr2 kvs
  assume a: "futures_get_ticker lnm tr = Inr response"
    "parse_response json_loads response (tr @ [Get_ticker]) = (Inr ticker, tr2)"
    "ticker = PDict kvs"
    "map_of kvs ''lastPrice'' = None \<or> map_of kvs ''lastPrice'' = Some (PInt 0)"
  then have "bind_exn (py_get ticker ''lastPrice'' (PInt 0)) py_float = Inr (PFloat (Finite 0))"
    using float_of_zero by auto
  from get_ticker_price[OF a(1,2) this]
  show "get_ticker json_loads lnm tr =
      (Inr PNone, tr2 @ [Log ERROR Fout_ophalen_ticker [LExn ValueError]])" by simp
next
  fix response ticker tr2
  assume a: "futures_get_ticker lnm tr = Inr response"
    "parse_response json_loads response (tr @ [Get_ticker]) = (Inr ticker, tr2)"
    "py_get ticker ''lastPrice'' (PInt 0) = Inr (PStr ''50000'')"
  then have "bind_exn (py_get ticker ''lastPrice'' (PInt 0)) py_float = Inr (PFloat (Finite 50000))"
    by (simp add: bind_exn_def float_50000 del: py_float.simps)
  from get_ticker_price[OF a(1,2) this]
  show "get_ticker json_loads lnm tr = (Inr (PFloat (Finite 50000)), tr2)" by simp
qed (simp_all add: get_ticker_transport get_ticker_price get_ticker_no_price strictly_positive_not_le)

lemma get_ticker_outcomes_example:
  "get_ticker json_rejects scenario_client [] = (Inr (PFloat (Finite 50000)), [Get_ticker]) \<and>
   get_ticker json_rejects
     (scripted_client (Inr (PDict [(''lastPrice'', PInt 0)])) (Inr PNone) (Inr PNone) (Inr PNone) (Inr PNone)) [] =
     (Inr PNone, [Get_ticker, Log ERROR Fout_ophalen_ticker [LExn ValueError]]) \<and>
   get_ticker json_rejects
     (scripted_client (Inr (PDict [(''bid'', PInt 7)])) (Inr PNone) (Inr PNone) (Inr PNone) (Inr PNone)) [] =
     (Inr PNone, [Get_ticker, Log ERROR Fout_ophalen_ticker [LExn ValueError]]) \<and>
   get_ticker json_rejects
     (scripted_client (Inl (OtherError ''timeout'')) (Inr PNone) (Inr PNone) (Inr PNone) (Inr PNone)) [] =
     (Inr PNone, [Get_ticker, Log ERROR Fout_ophalen_ticker [LExn (OtherError ''timeout'')]])"
  using get_ticker_outcomes[where json_loads = json_rejects and lnm = scenario_client and tr = "[]"]
    get_ticker_outcomes[where json_loads = json_rejects and tr = "[]"
      and lnm = "scripted_client (Inr (PDict [(''lastPrice'', PInt 0)])) (Inr PNone) (Inr PNone) (Inr PNone) (Inr PNone)"]
    get_ticker_outcomes[where json_loads = json_rejects and tr = "[]"
      and lnm = "scripted_client (Inr (PDict [(''bid'', PInt 7)])) (Inr PNone) (Inr PNone) (Inr PNone) (Inr PNone)"]
    get_ticker_outcomes[where json_loads = json_rejects and tr = "[]"
      and lnm = "scripted_client (Inl (OtherError ''timeout'')) (Inr PNone) (Inr PNone) (Inr PNone) (Inr PNone)"]
  by (simp add: scenario_client_def scripted_client_def parse_response_structured)

section \<open>Order placement\<close>

lemma truthy_nonempty:
  "py_truthy v \<Longrightarrow> v \<noteq> PNone \<and> v \<noteq> PStr [] \<and> v \<noteq> PList [] \<and> v \<noteq> PDict []"
  by (cases v) auto

lemma id_truthy_present:
  "py_get order ''id'' PNone = Inr ident \<Longrightarrow> py_truthy ident \<Longrightarrow> id_present_nonempty order"
  by (cases order) (auto simp: id_present_nonempty_def split: option.splits dest: truthy_nonempty)

lemma id_absent_falsy:
  "py_get order ''id'' PNone = Inr ident \<Longrightarrow> \<not> id_present_nonempty order \<Longrightarrow> \<not> py_truthy ident"
  using id_truthy_present by blast

lemma no_get_no_id: "py_get order ''id'' PNone = Inl e \<Longrightarrow> \<not> id_present_nonempty order"
  by (cases order) (auto simp: id_present_nonempty_def split: option.splits)

lemma truthy_id_is_dict:
  "py_get order ''id'' PNone = Inr ident \<Longrightarrow> py_truthy ident \<Longrightarrow>
   py_truthy order \<and> (\<exists>kvs. order = PDict kvs \<and> map_of kvs ''id'' = Some ident)"
  by (cases order) (auto split: option.splits)

lemma place_market_submit_error:
  "futures_new_trade lnm (tr @ [Log DEBUG Orderparameters [LVal (market_params m l tp)]])
     (market_params m l tp) = Inl e \<Longrightarrow>
   place_market_buy_order json_loads lnm m l tp tr =
     (Inr PNone, tr @ [Log DEBUG Orderparameters [LVal (market_params m l tp)],
        New_trade (market_params m l tp), Log ERROR Fout_plaatsen_order [LExn e]])"
  by (simp add: place_market_buy_order_def io_defs)

lemma place_market_answer:
  assumes "futures_new_trade lnm (tr @ [Log DEBUG Orderparameters [LVal (market_params m l tp)]])
     (market_params m l tp) = Inr response"
    and "parse_response json_loads response
       (tr @ [Log DEBUG Orderparameters [LVal (market_params m l tp)],
              New_trade (market_params m l tp)]) = (Inr order, tr2)"
  shows "place_market_buy_order json_loads lnm m l tp tr =
     (case py_get order ''id'' PNone of
        Inl e \<Rightarrow> (Inr PNone, tr2 @ [Log ERROR Fout_plaatsen_order [LExn e]])
      | Inr ident \<Rightarrow>
          if py_truthy ident then (Inr order, tr2 @ [Log INFO Order_geplaatst [LVal order]])
          else (Inr PNone, tr2 @ [Log ERROR Order_mislukt [LVal order]]))"
  using assms by (simp add: place_market_buy_order_def io_defs split: sum.splits)

lemma place_limit_submit_error:
  "futures_new_trade lnm (tr @ [Log DEBUG Orderparameters [LVal (limit_params m l p tp)]])
     (limit_params m l p tp) = Inl e \<Longrightarrow>
   place_limit_buy_order json_loads lnm m l p tp tr =
     (Inr PNone, tr @ [Log DEBUG Orderparameters [LVal (limit_params m l p tp)],
        New_trade (limit_params m l p tp), Log ERROR Fout_plaatsen_limietorder [LExn e]])"
  by (simp add: place_limit_buy_order_def io_defs)

lemma place_limit_answer:
  assumes "futures_new_trade lnm (tr @ [Log DEBUG Orderparameters [LVal (limit_params m l p tp)]])
     (limit_params m l p tp) = Inr response"
    and "parse_response json_loads response
       (tr @ [Log DEBUG Orderparameters [LVal (limit_params m l p tp)],
              New_trade (limit_params m l p tp)]) = (Inr order, tr2)"
  shows "place_limit_buy_order json_loads lnm m l p tp tr =
     (case py_get order ''id'' PNone of
        Inl e \<Rightarrow> (Inr PNone, tr2 @ [Log ERROR Fout_plaatsen_limietorder [LExn e]])
      | Inr ident \<Rightarrow>
          if py_truthy ident then (Inr order, tr2 @ [Log INFO Limietorder_geplaatst [LVal order]])
          else (Inr PNone, tr2 @ [Log ERROR Limietorder_mislukt_met [LVal order]]))"
  using assms by (simp add: place_limit_buy_order_def io_defs split: sum.splits)

text \<open>What an order placement returns and leaves in the trace, in every case.\<close>

lemma place_market_cases:
  obtains (placed) order ident evs where
      "place_market_buy_order json_loads lnm m l tp tr =
         (Inr order, tr @ Log DEBUG Orderparameters [LVal (market_params m l tp)] #
            New_trade (market_params m l tp) # evs)"
      "py_get order ''id'' PNone = Inr ident" "py_truthy ident" "py_truthy order"
      "list_all is_log evs"
  | (failed) evs where
      "place_market_buy_order json_loads lnm m l tp tr =
         (Inr PNone, tr @ Log DEBUG Orderparameters [LVal (market_params m l tp)] #
            New_trade (market_params m l tp) # evs)"
      "list_all is_log evs"
proof (cases "futures_new_trade lnm (tr @ [Log DEBUG Orderparameters [LVal (market_params m l tp)]])
     (market_params m l tp)")
  case (Inl e)
  show ?thesis
    by (rule failed[of "[Log ERROR Fout_plaatsen_order [LExn e]]"])
      (simp_all add: place_market_submit_error[OF Inl])
next
  case (Inr response)
  obtain order evs where p: "parse_response json_loads response
       (tr @ [Log DEBUG Orderparameters [LVal (market_params m l tp)],
              New_trade (market_params m l tp)]) =
      (Inr order, tr @ Log DEBUG Orderparameters [LVal (market_params m l tp)] #
            New_trade (market_params m l tp) # evs)" "list_all is_log evs"
    by (rule parse_response_cases[of json_loads response
          "tr @ [Log DEBUG Orderparameters [LVal (market_params m l tp)],
              New_trade (market_params m l tp)]"]) auto
  note a = place_market_answer[OF Inr p(1)]
  show ?thesis
  proof (cases "py_get order ''id'' PNone")
    case (Inl e)
    show ?thesis
      by (rule failed[of "evs @ [Log ERROR Fout_plaatsen_order [LExn e]]"])
        (simp_all add: a Inl p(2))
  next
    case i: (Inr ident)
    show ?thesis
    proof (cases "py_truthy ident")
      case True
      show ?thesis
        by (rule placed[of order "evs @ [Log INFO Order_geplaatst [LVal order]]" ident])
          (use truthy_id_is_dict[OF i True] in \<open>simp_all add: a i True p(2)\<close>)
    next
      case False
      show ?thesis
        by (rule failed[of "evs @ [Log ERROR Order_mislukt [LVal order]]"])
          (simp_all add: a i False p(2))
    qed
  qed
qed

lemma place_limit_cases:
  obtains (placed) order ident evs where
      "place_limit_buy_order json_loads lnm m l p tp tr =
         (Inr order, tr @ Log DEBUG Orderparameters [LVal (limit_params m l p tp)] #
            New_trade (limit_params m l p tp) # evs)"
      "py_get order ''id'' PNone = Inr ident" "py_truthy ident" "py_truthy order"
      "list_all is_log evs"
  | (failed) evs where
      "place_limit_buy_order json_loads lnm m l p tp tr =
         (Inr PNone, tr @ Log DEBUG Orderparameters [LVal (limit_params m l p tp)] #
            New_trade (limit_params m l p tp) # evs)"
      "list_all is_log evs"
proof (cases "futures_new_trade lnm (tr @ [Log DEBUG Orderparameters [LVal (limit_params m l p tp)]])
     (limit_params m l p tp)")
  case (Inl e)
  show ?thesis
    by (rule failed[of "[Log ERROR Fout_plaatsen_limietorder [LExn e]]"])
      (simp_all add: place_limit_submit_error[OF Inl])
next
  case (Inr response)
  obtain order evs where p: "parse_response json_loads response
       (tr @ [Log DEBUG Orderparameters [LVal (limit_params m l p tp)],
              New_trade (limit_params m l p tp)]) =
      (Inr order, tr @ Log DEBUG Orderparameters [LVal (limit_params m l p tp)] #
            New_trade (limit_params m l p tp) # evs)" "list_all is_log evs"
    by (rule parse_response_cases[of json_loads response
          "tr @ [Log DEBUG Orderparameters [LVal (limit_params m l p tp)],
              New_trade (limit_params m l p tp)]"]) auto
  note a = place_limit_answer[OF Inr p(1)]
  show ?thesis
  proof (cases "py_get order ''id'' PNone")
    case (Inl e)
    show ?thesis
      by (rule failed[of "evs @ [Log ERROR Fout_plaatsen_limietorder [LExn e]]"])
        (simp_all add: a Inl p(2))
  next
    case i: (Inr ident)
    show ?thesis
    proof (cases "py_truthy ident")
      case True
      show ?thesis
        by (rule placed[of order "evs @ [Log INFO Limietorder_geplaatst [LVal order]]" ident])
          (use truthy_id_is_dict[OF i True] in \<open>simp_all add: a i True p(2)\<close>)
    next
      case False
      show ?thesis
        by (rule failed[of "evs @ [Log ERROR Limietorder_mislukt_met [LVal order]]"])
          (simp_all add: a i False p(2))
    qed
  qed
qed

lemma place_market_total:
  "\<exists>v tr'. place_market_buy_order json_loads lnm m l tp tr = (Inr v, tr')"
  by (rule place_market_cases[of json_loads lnm m l tp tr]) blast+

lemma place_limit_total:
  "\<exists>v tr'. place_limit_buy_order json_loads lnm m l p tp tr = (Inr v, tr')"
  by (rule place_limit_cases[of json_loads lnm m l p tp tr]) blast+

lemma place_market_no_id:
  assumes "futures_new_trade lnm (tr @ [Log DEBUG Orderparameters [LVal (market_params m l tp)]])
     (market_params m l tp) = Inr response"
    and "parse_response json_loads response
       (tr @ [Log DEBUG Orderparameters [LVal (market_params m l tp)],
              New_trade (market_params m l tp)]) = (Inr order, tr2)"
    and "\<not> id_present_nonempty order"
  shows "fst (place_market_buy_order json_loads lnm m l tp tr) = Inr PNone"
  using assms(3) id_truthy_present[of order]
  by (auto simp: place_market_answer[OF assms(1,2)] split: sum.splits)

lemma place_market_only_with_id:
  assumes "futures_new_trade lnm (tr @ [Log DEBUG Orderparameters [LVal (market_params m l tp)]])
     (market_params m l tp) = Inr response"
    and "parse_response json_loads response
       (tr @ [Log DEBUG Orderparameters [LVal (market_params m l tp)],
              New_trade (market_params m l tp)]) = (Inr order, tr2)"
    and "fst (place_market_buy_order json_loads lnm m l tp tr) = Inr v" "v \<noteq> PNone"
  shows "v = order \<and> id_present_nonempty order"
  using assms(3,4) id_truthy_present[of order]
  by (auto simp: place_market_answer[OF assms(1,2)] split: sum.splits if_splits)

lemma place_limit_no_id:
  assumes "futures_new_trade lnm (tr @ [Log DEBUG Orderparameters [LVal (limit_params m l p tp)]])
     (limit_params m l p tp) = Inr response"
    and "parse_response json_loads response
       (tr @ [Log DEBUG Orderparameters [LVal (limit_params m l p tp)],
              New_trade (limit_params m l p tp)]) = (Inr order, tr2)"
    and "\<not> id_present_nonempty order"
  shows "fst (place_limit_buy_order json_loads lnm m l p tp tr) = Inr PNone"
  using assms(3) id_truthy_present[of order]
  by (auto simp: place_limit_answer[OF assms(1,2)] split: sum.splits)

lemma place_limit_only_with_id:
  assumes "futures_new_trade lnm (tr @ [Log DEBUG Orderparameters [LVal (limit_params m l p tp)]])
     (limit_params m l p tp) = Inr response"
    and "parse_response json_loads response
       (tr @ [Log DEBUG Orderparameters [LVal (limit_params m l p tp)],
              New_trade (limit_params m l p tp)]) = (Inr order, tr2)"
    and "fst (place_limit_buy_order json_loads lnm m l p tp tr) = Inr v" "v \<noteq> PNone"
  shows "v = order \<and> id_present_nonempty order"
  using assms(3,4) id_truthy_present[of order]
  by (auto simp: place_limit_answer[OF assms(1,2)] split: sum.splits if_splits)

text \<open>
  C2. Neither order placement raises: an exception of the submission, of the normalization
  or of the field access is logged and answered by \<^verbatim>\<open>None\<close>. With \<open>order\<close> the normalized
  answer of the order-creation call: when \<open>order\<close> has no present and non-empty \<^verbatim>\<open>id\<close>, the
  value is \<^verbatim>\<open>None\<close> whatever else \<open>order\<close> holds; a value other than \<^verbatim>\<open>None\<close> is \<open>order\<close>
  itself and then its \<^verbatim>\<open>id\<close> is present and non-empty; and an \<^verbatim>\<open>id\<close> that is a non-empty
  string makes the placement return \<open>order\<close>.
\<close>

theorem place_order_contract:
  "(\<exists>v tr'. place_market_buy_order json_loads lnm m l tp tr = (Inr v, tr')) \<and>
   (\<exists>v tr'. place_limit_buy_order json_loads lnm m l p tp tr = (Inr v, tr')) \<and>
   (\<forall>e. futures_new_trade lnm (tr @ [Log DEBUG Orderparameters [LVal (market_params m l tp)]])
          (market_params m l tp) = Inl e \<longrightarrow>
        fst (place_market_buy_order json_loads lnm m l tp tr) = Inr PNone) \<and>
   (\<forall>e. futures_new_trade lnm (tr @ [Log DEBUG Orderparameters [LVal (limit_params m l p tp)]])
          (limit_params m l p tp) = Inl e \<longrightarrow>
        fst (place_limit_buy_order json_loads lnm m l p tp tr) = Inr PNone) \<and>
   (\<forall>response order tr2.
      futures_new_trade lnm (tr @ [Log DEBUG Orderparameters [LVal (market_params m l tp)]])
        (market_params m l tp) = Inr response \<and>
      parse_response json_loads response
        (tr @ [Log DEBUG Orderparameters [LVal (market_params m l tp)],
               New_trade (market_params m l tp)]) = (Inr order, tr2) \<longrightarrow>
      (\<not> id_present_nonempty order \<longrightarrow>
         fst (place_market_buy_order json_loads lnm m l tp tr) = Inr PNone) \<and>
      (\<forall>v. fst (place_market_buy_order json_loads lnm m l tp tr) = Inr v \<and> v \<noteq> PNone \<longrightarrow>
         v = order \<and> id_present_nonempty order) \<and>
      (\<forall>s. py_get order ''id'' PNone = Inr (PStr s) \<and> s \<noteq> [] \<longrightarrow>
         place_market_buy_order json_loads lnm m l tp tr =
           (Inr order, tr2 @ [Log INFO Order_geplaatst [LVal order]]))) \<and>
   (\<forall>response order tr2.
      futures_new_trade lnm (tr @ [Log DEBUG Orderparameters [LVal (limit_params m l p tp)]])
        (limit_params m l p tp) = Inr response \<and>
      parse_response json_loads response
        (tr @ [Log DEBUG Orderparameters [LVal (limit_params m l p tp)],
               New_trade (limit_params m l p tp)]) = (Inr order, tr2) \<longrightarrow>
      (\<not> id_present_nonempty order \<longrightarrow>
         fst (place_limit_buy_order json_loads lnm m l p tp tr) = Inr PNone) \<and>
      (\<forall>v. fst (place_limit_buy_order json_loads lnm m l p tp tr) = Inr v \<and> v \<noteq> PNone \<longrightarrow>
         v = order \<and> id_present_nonempty order) \<and>
      (\<forall>s. py_get order ''id'' PNone = Inr (PStr s) \<and> s \<noteq> [] \<longrightarrow>
         place_limit_buy_order json_loads lnm m l p tp tr =
           (Inr order, tr2 @ [Log INFO Limietorder_geplaatst [LVal order]])))"
proof (intro conjI allI impI; (elim conjE)?)
  show "\<exists>v tr'. place_market_buy_order json_loads lnm m l tp tr = (Inr v, tr')"
    by (rule place_market_total)
  show "\<exists>v tr'. place_limit_buy_order json_loads lnm m l p tp tr = (Inr v, tr')"
    by (rule place_limit_total)
  show "fst (place_market_buy_order json_loads lnm m l tp tr) = Inr PNone"
    if "futures_new_trade lnm (tr @ [Log DEBUG Orderparameters [LVal (market_params m l tp)]])
          (market_params m l tp) = Inl e" for e
    by (simp add: place_market_submit_error[OF that])
  show "fst (place_limit_buy_order json_loads lnm m l p tp tr) = Inr PNone"
    if "futures_new_trade lnm (tr @ [Log DEBUG Orderparameters [LVal (limit_params m l p tp)]])
          (limit_params m l p tp) = Inl e" for e
    by (simp add: place_limit_submit_error[OF that])
next
  fix response order tr2
  assume a: "futures_new_trade lnm (tr @ [Log DEBUG Orderparameters [LVal (market_params m l tp)]])
        (market_params m l tp) = Inr response"
    "parse_response json_loads response
        (tr @ [Log DEBUG Orderparameters [LVal (market_params m l tp)],
               New_trade (market_params m l tp)]) = (Inr order, tr2)"
  show "fst (place_market_buy_order json_loads lnm m l tp tr) = Inr PNone"
    if "\<not> id_present_nonempty order"
    using a that by (rule place_market_no_id)
  show "v = order" "id_present_nonempty order"
    if "fst (place_market_buy_order json_loads lnm m l tp tr) = Inr v" "v \<noteq> PNone" for v
    using place_market_only_with_id[OF a that] by blast+
  show "place_market_buy_order json_loads lnm m l tp tr =
      (Inr order, tr2 @ [Log INFO Order_geplaatst [LVal order]])"
    if "py_get order ''id'' PNone = Inr (PStr s)" "s \<noteq> []" for s
    using that by (simp add: place_market_answer[OF a])
next
  fix response order tr2
  assume a: "futures_new_trade lnm (tr @ [Log DEBUG Orderparameters [LVal (limit_params m l p tp)]])
        (limit_params m l p tp) = Inr response"
    "parse_response json_loads response
        (tr @ [Log DEBUG Orderparameters [LVal (limit_params m l p tp)],
               New_trade (limit_params m l p tp)]) = (Inr order, tr2)"
  show "fst (place_limit_buy_order json_loads lnm m l p tp tr) = Inr PNone"
    if "\<not> id_present_nonempty order"
    using a that by (rule place_limit_no_id)
  show "v = order" "id_present_nonempty order"
    if "fst (place_limit_buy_order json_loads lnm m l p tp tr) = Inr v" "v \<noteq> PNone" for v
    using place_limit_only_with_id[OF a that] by blast+
  show "place_limit_buy_order json_loads lnm m l p tp tr =
      (Inr order, tr2 @ [Log INFO Limietorder_geplaatst [LVal order]])"
    if "py_get order ''id'' PNone = Inr (PStr s)" "s \<noteq> []" for s
    using that by (simp add: place_limit_answer[OF a])
qed

theorem place_order_contract_witness:
  "place_market_buy_order json_rejects scenario_client (PInt 10000) (PInt 1) PNone [] =
     (Inr (PDict [(''id'', PStr ''a'')]),
      [Log DEBUG Orderparameters [LVal (market_params (PInt 10000) (PInt 1) PNone)],
       New_trade (market_params (PInt 10000) (PInt 1) PNone),
       Log INFO Order_geplaatst [LVal (PDict [(''id'', PStr ''a'')])]]) \<and>
   fst (place_market_buy_order json_rejects
     (scripted_client (Inr PNone)
        (Inr (PDict [(''entry_price'', PInt 50010), (''id'', PStr [])])) (Inr PNone) (Inr PNone)
        (Inr PNone))
     (PInt 10000) (PInt 1) PNone []) = Inr PNone \<and>
   fst (place_limit_buy_order json_rejects
     (scripted_client (Inr PNone)
        (Inr (PDict [(''entry_price'', PInt 50010), (''margin'', PInt 10000)])) (Inr PNone) (Inr PNone)
        (Inr PNone))
     (PInt 10000) (PInt 1) (PInt 49900) (PInt 50399) []) = Inr PNone \<and>
   fst (place_limit_buy_order json_rejects
     (scripted_client (Inr PNone) (Inl (OtherError ''timeout'')) (Inr PNone) (Inr PNone) (Inr PNone))
     (PInt 10000) (PInt 1) (PInt 49900) (PInt 50399) []) = Inr PNone"
proof (intro conjI)
  show "place_market_buy_order json_rejects scenario_client (PInt 10000) (PInt 1) PNone [] =
     (Inr (PDict [(''id'', PStr ''a'')]),
      [Log DEBUG Orderparameters [LVal (market_params (PInt 10000) (PInt 1) PNone)],
       New_trade (market_params (PInt 10000) (PInt 1) PNone),
       Log INFO Order_geplaatst [LVal (PDict [(''id'', PStr ''a'')])]])"
    using place_order_contract[where json_loads = json_rejects and lnm = scenario_client
      and m = "PInt 10000" and l = "PInt 1" and tp = PNone and tr = "[]"]
    by (simp add: scenario_client_def scripted_client_def parse_response_structured)
  show "fst (place_market_buy_order json_rejects
     (scripted_client (Inr PNone)
        (Inr (PDict [(''entry_price'', PInt 50010), (''id'', PStr [])])) (Inr PNone) (Inr PNone)
        (Inr PNone))
     (PInt 10000) (PInt 1) PNone []) = Inr PNone"
    using place_order_contract[where json_loads = json_rejects and m = "PInt 10000" and l = "PInt 1"
      and tp = PNone and tr = "[]" and lnm = "scripted_client (Inr PNone)
        (Inr (PDict [(''entry_price'', PInt 50010), (''id'', PStr [])])) (Inr PNone) (Inr PNone)
        (Inr PNone)"]
    by (simp add: scripted_client_def parse_response_structured id_present_nonempty_def)
  show "fst (place_limit_buy_order json_rejects
     (scripted_client (Inr PNone)
        (Inr (PDict [(''entry_price'', PInt 50010), (''margin'', PInt 10000)])) (Inr PNone) (Inr PNone)
        (Inr PNone))
     (PInt 10000) (PInt 1) (PInt 49900) (PInt 50399) []) = Inr PNone"
    using place_order_contract[where json_loads = json_rejects and m = "PInt 10000" and l = "PInt 1"
      and p = "PInt 49900" and tp = "PInt 50399" and tr = "[]" and lnm = "scripted_client (Inr PNone)
        (Inr (PDict [(''entry_price'', PInt 50010), (''margin'', PInt 10000)])) (Inr PNone) (Inr PNone)
        (Inr PNone)"]
    by (simp add: scripted_client_def parse_response_structured id_present_nonempty_def)
  show "fst (place_limit_buy_order json_rejects
     (scripted_client (Inr PNone) (Inl (OtherError ''timeout'')) (Inr PNone) (Inr PNone) (Inr PNone))
     (PInt 10000) (PInt 1) (PInt 49900) (PInt 50399) []) = Inr PNone"
    using place_order_contract[where json_loads = json_rejects and m = "PInt 10000" and l = "PInt 1"
      and p = "PInt 49900" and tp = "PInt 50399" and tr = "[]" and lnm = "scripted_client (Inr PNone)
        (Inl (OtherError ''timeout'')) (Inr PNone) (Inr PNone) (Inr PNone)"]
    by (simp add: scripted_client_def)
qed

section \<open>The arithmetic of main cannot fail once the margin is positive\<close>

lemma round64_zero [simp]: "round64 0 = Finite 0"
  by (simp add: round64_def)

lemma usd_to_sats_value_iff:
  "usd_to_sats a b tr = (Inr (PInt n), tr') \<Longrightarrow> n \<noteq> 0 \<Longrightarrow>
   bind_exn (py_truediv a b) (\<lambda>q. bind_exn (py_mul_float q lit_1e8) py_round) = Inr (PInt n)"
  by (rule usd_to_sats_cases[of a b tr]) auto

lemma margin_positive_price:
  assumes "usd_to_sats (PInt 5) (PFloat f) tr = (Inr (PInt n), tr')" "0 < n" "\<not> fle_rat f 0"
  shows "\<exists>r. f = Finite r \<and> 0 < r \<and> r < 2 ^ 40"
proof -
  from assms(1,2) have v: "bind_exn (py_truediv (PInt 5) (PFloat f))
      (\<lambda>q. bind_exn (py_mul_float q lit_1e8) py_round) = Inr (PInt n)"
    by (intro usd_to_sats_value_iff) auto
  show ?thesis
  proof (cases f)
    case (Finite r)
    with assms(3) have r: "0 < r" by simp
    have "r < 2 ^ 40"
    proof (rule ccontr)
      assume "\<not> r < 2 ^ 40"
      then have big: "2 ^ 40 \<le> r" by simp
      have "5 / r \<le> 5 / 2 ^ 40" using big by (intro divide_left_mono) auto
      then have x1: "\<bar>5 / r\<bar> \<le> 5 / 2 ^ 40" using r by simp
      then have "\<bar>5 / r\<bar> < 2 ^ 1023" by simp
      from round64_small[OF this] obtain v1 where
        v1: "round64 (5 / r) = Finite v1" "\<bar>v1\<bar> \<le> 2 * \<bar>5 / r\<bar>" by blast
      from v1(2) x1 have b1: "\<bar>v1\<bar> \<le> 10 / 2 ^ 40" by simp
      then have "\<bar>v1 * 100000000\<bar> \<le> 10 / 2 ^ 40 * 100000000" by (simp add: abs_mult)
      then have x2: "\<bar>v1 * 100000000\<bar> \<le> 1 / 500" by simp
      then have "\<bar>v1 * 100000000\<bar> < 2 ^ 1023" by simp
      from round64_small[OF this] obtain v2 where
        v2: "round64 (v1 * 100000000) = Finite v2" "\<bar>v2\<bar> \<le> 2 * \<bar>v1 * 100000000\<bar>" by blast
      from v2(2) x2 have "\<bar>v2 - of_int 0\<bar> < 1 / 2" by simp
      then have "rne v2 = 0" by (rule rne_eqI)
      with v Finite r v1(1) v2(1) have "n = 0"
        by (simp add: bind_exn_def py_truediv_def py_mul_float_def int_to_float_small
            fdiv_def fmul_def lit_1e8)
      with assms(2) show False by simp
    qed
    with Finite r show ?thesis by simp
  next
    case PInf
    with v have "n = 0"
      by (simp add: bind_exn_def py_truediv_def py_mul_float_def int_to_float_small
            fdiv_def fmul_def lit_1e8)
    with assms(2) show ?thesis by simp
  next
    case NInf
    with assms(3) show ?thesis by simp
  next
    case NaN
    with v show ?thesis
      by (simp add: bind_exn_def py_truediv_def py_mul_float_def int_to_float_small
            fdiv_def fmul_def lit_1e8)
  qed
qed

lemma fmul_1_01_small:
  assumes "\<bar>x\<bar> < 2 ^ 60"
  shows "\<exists>v. fmul (Finite x) lit_1_01 = Finite v \<and> \<bar>v\<bar> \<le> 4 * \<bar>x\<bar>"
proof -
  define c :: rat where "c = 4548635623644201 / 4503599627370496"
  have c: "0 \<le> c" "c \<le> 2" by (simp_all add: c_def)
  have "\<bar>x * c\<bar> = \<bar>x\<bar> * c" using c by (simp add: abs_mult)
  also have "\<dots> \<le> \<bar>x\<bar> * 2" using c by (intro mult_left_mono) auto
  finally have b: "\<bar>x * c\<bar> \<le> 2 * \<bar>x\<bar>" by simp
  with assms have "\<bar>x * c\<bar> < 2 ^ 1023" by simp
  from round64_small[OF this] b show ?thesis
    by (auto simp: fmul_def lit_1_01 c_def[symmetric])
qed

lemma take_profit_computes:
  assumes "0 < r" "r < 2 ^ 40"
  shows "\<exists>tp. bind_exn (py_mul_float (PFloat (Finite r)) lit_1_01) py_round = Inr (PInt tp)"
proof -
  from assms have "\<bar>r\<bar> < 2 ^ 60" by simp
  from fmul_1_01_small[OF this] show ?thesis
    by (auto simp: bind_exn_def py_mul_float_def)
qed

lemma limit_prices_compute:
  assumes "0 < r" "r < 2 ^ 40"
  shows "\<exists>lp ltp. bind_exn (py_sub_int (PFloat (Finite r)) 100) py_round = Inr (PInt lp) \<and>
     bind_exn (py_mul_float (PInt lp) lit_1_01) py_round = Inr (PInt ltp)"
proof -
  have x: "\<bar>r - 100\<bar> < 2 ^ 41" using assms by (simp add: abs_if)
  then have "\<bar>r - 100\<bar> < 2 ^ 1023" by simp
  from round64_small[OF this] obtain v where
    v: "round64 (r - 100) = Finite v" "\<bar>v\<bar> \<le> 2 * \<bar>r - 100\<bar>" by blast
  have lp: "bind_exn (py_sub_int (PFloat (Finite r)) 100) py_round = Inr (PInt (rne v))"
    by (simp add: bind_exn_def py_sub_int_def int_to_float_small fsub_def v(1))
  have "\<bar>rat_of_int (rne v)\<bar> \<le> 2 * \<bar>v\<bar>" by (rule rne_bound)
  with v(2) x have b: "\<bar>rat_of_int (rne v)\<bar> < 2 ^ 43" by simp
  then have "rat_of_int \<bar>rne v\<bar> < of_int (2 ^ 43)" by simp
  then have "\<bar>rne v\<bar> < 2 ^ 43" by (simp only: of_int_less_iff)
  then have "\<bar>rne v\<bar> < 2 ^ 53" by simp
  then have i: "int_to_float (rne v) = Inr (Finite (of_int (rne v)))" by (rule int_to_float_small)
  from b have "\<bar>rat_of_int (rne v)\<bar> < 2 ^ 60" by simp
  from fmul_1_01_small[OF this] obtain w where "fmul (Finite (of_int (rne v))) lit_1_01 = Finite w"
    by blast
  then have "bind_exn (py_mul_float (PInt (rne v)) lit_1_01) py_round = Inr (PInt (rne w))"
    by (simp add: bind_exn_def py_mul_float_def i)
  with lp show ?thesis by blast
qed

section \<open>The take-profit update\<close>

lemma set_take_profit_cases:
  obtains evs where
    "set_take_profit json_loads lnm trade_id tp_price tr =
       (Inr PNone,
        tr @ Log DEBUG PUT_parameters
               [LVal (PDict [(''id'', trade_id), (''type'', PStr ''takeprofit''), (''value'', tp_price)])] #
             Update_trade
               (PDict [(''id'', trade_id), (''type'', PStr ''takeprofit''), (''value'', tp_price)]) # evs)"
    "list_all is_log evs"
proof -
  define u where "u = PDict [(''id'', trade_id), (''type'', PStr ''takeprofit''), (''value'', tp_price)]"
  show ?thesis
  proof (cases "futures_update_trade lnm (tr @ [Log DEBUG PUT_parameters [LVal u]]) u")
    case (Inl e)
    show ?thesis
      by (rule that[of "[Log ERROR Fout_instellen_take_profit [LExn e]]"])
        (use Inl in \<open>simp_all add: set_take_profit_def io_defs u_def\<close>)
  next
    case (Inr response)
    obtain updated evs where p: "parse_response json_loads response
        (tr @ [Log DEBUG PUT_parameters [LVal u], Update_trade u]) =
        (Inr updated, tr @ Log DEBUG PUT_parameters [LVal u] # Update_trade u # evs)"
      "list_all is_log evs"
      by (rule parse_response_cases[of json_loads response
            "tr @ [Log DEBUG PUT_parameters [LVal u], Update_trade u]"]) auto
    show ?thesis
    proof (cases "py_get updated ''id'' PNone")
      case (Inl e)
      show ?thesis
        by (rule that[of "evs @ [Log ERROR Fout_instellen_take_profit [LExn e]]"])
          (use Inr p Inl in \<open>simp_all add: set_take_profit_def io_defs u_def\<close>)
    next
      case i: (Inr ident)
      show ?thesis
      proof (cases "py_truthy ident")
        case True
        show ?thesis
          by (rule that[of "evs @ [Log INFO Take_profit_ingesteld [LVal updated]]"])
            (use Inr p i True in \<open>simp_all add: set_take_profit_def io_defs u_def\<close>)
      next
        case False
        show ?thesis
          by (rule that[of "evs @ [Log ERROR Take_profit_mislukt [LVal updated]]"])
            (use Inr p i False in \<open>simp_all add: set_take_profit_def io_defs u_def\<close>)
      qed
    qed
  qed
qed

section \<open>The orchestration, step by step\<close>

lemma main_no_price:
  assumes "get_ticker json_loads lnm tr = (Inr market_price, t1)" "\<not> py_truthy market_price"
  shows "main_with d json_loads lnm tr =
     (Inr PNone, t1 @ [Log ERROR Kan_marktprijs_niet_ophalen []])"
  using assms by (simp add: main_with_def io_defs)

lemma main_no_margin:
  assumes "get_ticker json_loads lnm tr = (Inr market_price, t1)" "py_truthy market_price"
    and "usd_to_sats (PInt 5) market_price t1 = (Inr (PInt n), t2)" "n \<le> 0"
  shows "main_with d json_loads lnm tr = (Inr PNone, t2 @ [Log ERROR Ongeldige_margin []])"
  using assms by (simp add: main_with_def io_defs py_le_int_def)

lemma main_no_first_order:
  assumes "get_ticker json_loads lnm tr = (Inr market_price, t1)" "py_truthy market_price"
    and "usd_to_sats (PInt 5) market_price t1 = (Inr (PInt n), t2)" "0 < n"
    and "place_market_buy_order json_loads lnm (PInt n) (PInt 1) PNone
       (t2 @ [Log INFO Margin_berekend [LVal (PInt n), LVal (PInt 5), LVal market_price],
              Log INFO Plaats_eerste_order []]) = (Inr first_order, t3)"
      "\<not> py_truthy first_order"
  shows "main_with d json_loads lnm tr = (Inr PNone, t3 @ [Log ERROR Eerste_order_mislukt []])"
  using assms by (simp add: main_with_def io_defs py_le_int_def)

lemma main_after_first_order:
  assumes "get_ticker json_loads lnm tr = (Inr market_price, t1)" "py_truthy market_price"
    and "usd_to_sats (PInt 5) market_price t1 = (Inr (PInt n), t2)" "0 < n"
    and "place_market_buy_order json_loads lnm (PInt n) (PInt 1) PNone
       (t2 @ [Log INFO Margin_berekend [LVal (PInt n), LVal (PInt 5), LVal market_price],
              Log INFO Plaats_eerste_order []]) = (Inr first_order, t3)"
      "py_truthy first_order"
  shows "main_with d json_loads lnm tr =
     (case second_order_step d json_loads lnm market_price (PInt n)
             (t3 @ [Sleep REQUEST_DELAY, Log INFO Plaats_tweede_order []]) of
        (Inl e, t4) \<Rightarrow> (Inl e, t4)
      | (Inr second_order, t4) \<Rightarrow>
          if \<not> py_truthy second_order then (Inr PNone, t4 @ [Log ERROR Tweede_order_mislukt []])
          else limit_order_step json_loads lnm market_price (PInt n) (t4 @ [Sleep REQUEST_DELAY]))"
  using assms by (simp add: main_with_def io_defs py_le_int_def split: prod.splits sum.splits)

lemma second_order_direct_raises:
  "bind_exn (py_mul_float market_price lit_1_01) py_round = Inl e \<Longrightarrow>
   second_order_step True json_loads lnm market_price margin_sats tr = (Inl e, tr)"
  by (simp add: second_order_step_def io_defs)

lemma second_order_direct:
  assumes "bind_exn (py_mul_float market_price lit_1_01) py_round = Inr tp_price"
    and "place_market_buy_order json_loads lnm margin_sats (PInt 1) tp_price
       (tr @ [Log INFO Take_profit_direct [LVal tp_price, LVal market_price]]) = (Inr second_order, t4)"
  shows "second_order_step True json_loads lnm market_price margin_sats tr =
     (if py_truthy second_order then
        (case bind_exn (py_get second_order ''entry_price'' market_price)
                (\<lambda>entry_price. bind_exn (bind_exn (py_mul_float entry_price lit_1_01) py_round)
                   (\<lambda>target. Inr (entry_price, target))) of
           Inl e \<Rightarrow> (Inl e, t4)
         | Inr (entry_price, target) \<Rightarrow>
             (Inr second_order,
              t4 @ [Log INFO Werkelijke_entry_price [LVal entry_price, LVal tp_price, LVal target]]))
      else (Inr second_order, t4))"
  using assms
  by (simp add: second_order_step_def io_defs bind_exn_def split: sum.splits)

lemma second_order_deferred:
  assumes "place_market_buy_order json_loads lnm margin_sats (PInt 1) PNone tr = (Inr second_order, t4)"
  shows "second_order_step False json_loads lnm market_price margin_sats tr =
     (if py_truthy second_order then
        (case py_get second_order ''entry_price'' PNone of
           Inl e \<Rightarrow> (Inl e, t4)
         | Inr entry_price \<Rightarrow>
             if py_truthy entry_price then
               (case bind_exn (py_mul_float entry_price lit_1_01) py_round of
                  Inl e \<Rightarrow> (Inl e, t4)
                | Inr tp_price \<Rightarrow>
                    (case py_getitem second_order ''id'' of
                       Inl e \<Rightarrow>
                         (Inl e, t4 @ [Log INFO Take_profit_op_entry_price [LVal tp_price, LVal entry_price]])
                     | Inr trade_id \<Rightarrow>
                         (case set_take_profit json_loads lnm trade_id tp_price
                                 (t4 @ [Log INFO Take_profit_op_entry_price
                                          [LVal tp_price, LVal entry_price]]) of
                            (Inl e, t5) \<Rightarrow> (Inl e, t5)
                          | (Inr u, t5) \<Rightarrow> (Inr second_order, t5))))
             else (Inr second_order, t4 @ [Log ERROR Entry_price_niet_gevonden []]))
      else (Inr second_order, t4))"
  using assms
  by (simp add: second_order_step_def io_defs split: sum.splits prod.splits)

lemma limit_order_raises:
  "bind_exn (bind_exn (py_sub_int market_price 100) py_round)
     (\<lambda>limit_price. bind_exn (bind_exn (py_mul_float limit_price lit_1_01) py_round)
        (\<lambda>limit_take_profit. Inr (limit_price, limit_take_profit))) = Inl e \<Longrightarrow>
   limit_order_step json_loads lnm market_price margin_sats tr =
     (Inl e, tr @ [Log INFO Plaats_limietorder []])"
  by (auto simp: limit_order_step_def io_defs bind_exn_def split: sum.splits)

lemma limit_order_placed:
  assumes "bind_exn (py_sub_int market_price 100) py_round = Inr limit_price"
    and "bind_exn (py_mul_float limit_price lit_1_01) py_round = Inr limit_take_profit"
    and "place_limit_buy_order json_loads lnm margin_sats (PInt 1) limit_price limit_take_profit
       (tr @ [Log INFO Plaats_limietorder []]) = (Inr limit_order, t5)"
  shows "limit_order_step json_loads lnm market_price margin_sats tr =
     (Inr PNone,
      t5 @ [if \<not> py_truthy limit_order then Log ERROR Limietorder_mislukt []
            else Log INFO Limietorder_op_prijs [LVal limit_price, LVal limit_take_profit]])"
  using assms by (simp add: limit_order_step_def io_defs)

section \<open>What a statement leaves untouched\<close>

lemma update_trades_append [simp]: "update_trades (xs @ ys) = update_trades xs @ update_trades ys"
  by (induction xs rule: update_trades.induct) auto

lemma sleeps_append [simp]: "sleeps (xs @ ys) = sleeps xs @ sleeps ys"
  by (induction xs rule: sleeps.induct) auto

lemma new_trades_append [simp]: "new_trades (xs @ ys) = new_trades xs @ new_trades ys"
  by (induction xs rule: new_trades.induct) auto

lemma logs_silent:
  "list_all is_log evs \<Longrightarrow> update_trades evs = [] \<and> sleeps evs = [] \<and> new_trades evs = []"
  by (induction evs) (auto elim: is_log.elims)

lemma keepsD: "keeps reading m \<Longrightarrow> m tr = (r, tr') \<Longrightarrow> reading tr' = reading tr"
  by (auto simp: keeps_def dest: spec[of _ tr])

lemma keeps_return: "keeps reading (return_io v)"
  by (simp add: keeps_def return_io_def)

lemma keeps_raise: "keeps reading (raise_io e)"
  by (simp add: keeps_def raise_io_def)

lemma keeps_eval: "keeps reading (eval_io r)"
  by (simp add: keeps_def eval_io_def)

lemma keeps_bind:
  assumes "keeps reading m" "\<And>v. keeps reading (f v)"
  shows "keeps reading (bind_io m f)"
  unfolding keeps_def
proof
  fix tr
  obtain r t where m: "m tr = (r, t)" by fastforce
  from keepsD[OF assms(1) m] have t: "reading t = reading tr" .
  show "reading (snd (bind_io m f tr)) = reading tr"
  proof (cases r)
    case (Inl e)
    with m t show ?thesis by (simp add: bind_io_def)
  next
    case (Inr v)
    obtain r' t' where f: "f v t = (r', t')" by fastforce
    from keepsD[OF assms(2) f] t m Inr f show ?thesis by (simp add: bind_io_def)
  qed
qed

lemma keeps_try:
  assumes "keeps reading body" "\<And>e. keeps reading (handler e)"
  shows "keeps reading (try_except body handler)"
  unfolding keeps_def
proof
  fix tr
  obtain r t where m: "body tr = (r, t)" by fastforce
  from keepsD[OF assms(1) m] have t: "reading t = reading tr" .
  show "reading (snd (try_except body handler tr)) = reading tr"
  proof (cases r)
    case (Inl e)
    obtain r' t' where f: "handler e t = (r', t')" by fastforce
    from keepsD[OF assms(2) f] t m Inl f show ?thesis by (simp add: try_except_def)
  next
    case (Inr v)
    with m t show ?thesis by (simp add: try_except_def)
  qed
qed

lemma keeps_if:
  "(c \<Longrightarrow> keeps reading a) \<Longrightarrow> (\<not> c \<Longrightarrow> keeps reading b) \<Longrightarrow> keeps reading (if c then a else b)"
  by simp

lemma keeps_logging:
  "keeps update_trades (logging lv msg args)" "keeps sleeps (logging lv msg args)"
  "keeps new_trades (logging lv msg args)"
  by (simp_all add: keeps_def logging_def)

lemma keeps_get_ticker_call:
  "keeps update_trades (call_get_ticker lnm)" "keeps sleeps (call_get_ticker lnm)"
  "keeps new_trades (call_get_ticker lnm)"
  by (simp_all add: keeps_def call_get_ticker_def)

lemma keeps_new_trade_call:
  "keeps update_trades (call_new_trade lnm params)" "keeps sleeps (call_new_trade lnm params)"
  by (simp_all add: keeps_def call_new_trade_def)

lemma keeps_update_trade_call:
  "keeps sleeps (call_update_trade lnm params)" "keeps new_trades (call_update_trade lnm params)"
  by (simp_all add: keeps_def call_update_trade_def)

lemma keeps_sleep:
  "keeps update_trades (time_sleep secs)" "keeps new_trades (time_sleep secs)"
  by (simp_all add: keeps_def time_sleep_def)

lemmas keeps_rules =
  keeps_bind keeps_try keeps_if keeps_return keeps_raise keeps_eval keeps_logging
  keeps_get_ticker_call keeps_new_trade_call keeps_update_trade_call keeps_sleep

lemma keeps_parse_response:
  "keeps update_trades (parse_response json_loads response)"
  "keeps sleeps (parse_response json_loads response)"
  "keeps new_trades (parse_response json_loads response)"
  unfolding parse_response_def by (intro keeps_rules)+

lemma keeps_usd_to_sats:
  "keeps update_trades (usd_to_sats a b)" "keeps sleeps (usd_to_sats a b)"
  "keeps new_trades (usd_to_sats a b)"
  unfolding usd_to_sats_def by (intro keeps_rules)+

lemma keeps_get_ticker:
  "keeps update_trades (get_ticker json_loads lnm)" "keeps sleeps (get_ticker json_loads lnm)"
  "keeps new_trades (get_ticker json_loads lnm)"
  unfolding get_ticker_def by (intro keeps_rules keeps_parse_response)+

lemma keeps_place_market:
  "keeps update_trades (place_market_buy_order json_loads lnm m l tp)"
  "keeps sleeps (place_market_buy_order json_loads lnm m l tp)"
  unfolding place_market_buy_order_def by (intro keeps_rules keeps_parse_response)+

lemma keeps_place_limit:
  "keeps update_trades (place_limit_buy_order json_loads lnm m l p tp)"
  "keeps sleeps (place_limit_buy_order json_loads lnm m l p tp)"
  unfolding place_limit_buy_order_def by (intro keeps_rules keeps_parse_response)+


lemma keeps_second_order_direct:
  "keeps update_trades (second_order_step True json_loads lnm mp m)"
  unfolding second_order_step_def if_True
  by (intro keeps_rules keeps_place_market)+


lemma keeps_limit_order_step:
  "keeps update_trades (limit_order_step json_loads lnm mp m)"
  "keeps sleeps (limit_order_step json_loads lnm mp m)"
  unfolding limit_order_step_def by (intro keeps_rules keeps_place_limit)+

lemma main_direct_keeps_updates: "keeps update_trades (main_with True json_loads lnm)"
  unfolding main_with_def
  by (intro keeps_rules keeps_get_ticker keeps_usd_to_sats keeps_place_market
      keeps_second_order_direct keeps_limit_order_step)+

section \<open>The end-to-end scenario, run\<close>

lemma bind_exn_Inr: "bind_exn (Inr v) f = f v"
  by (simp add: bind_exn_def)

lemma bind_exn_Inl: "bind_exn (Inl e) f = Inl e"
  by (simp add: bind_exn_def)

lemma float_of_string_50000: "float_of_string ''50000'' = Inr (Finite 50000)"
  using float_50000 by (simp add: bind_exn_def split: sum.splits)

lemma market_params_plain:
  "market_params m l PNone =
     PDict [(''type'', PStr ''m''), (''side'', PStr ''b''), (''margin'', m), (''leverage'', l)]"
  by (simp add: market_params_def with_takeprofit_def)

lemma market_params_takeprofit:
  "tp \<noteq> PNone \<Longrightarrow> market_params m l tp =
     PDict [(''type'', PStr ''m''), (''side'', PStr ''b''), (''margin'', m), (''leverage'', l),
            (''takeprofit'', tp)]"
  by (simp add: market_params_def with_takeprofit_def)

lemma limit_params_takeprofit:
  "tp \<noteq> PNone \<Longrightarrow> limit_params m l p tp =
     PDict [(''type'', PStr ''l''), (''side'', PStr ''b''), (''margin'', m), (''leverage'', l),
            (''price'', p), (''takeprofit'', tp)]"
  by (simp add: limit_params_def with_takeprofit_def)

lemma scenario_ticker:
  "get_ticker json_loads scenario_client tr = (Inr (PFloat (Finite 50000)), tr @ [Get_ticker])"
  by (simp add: get_ticker_def io_defs scenario_client_def scripted_client_def
      parse_response_structured bind_exn_def float_of_string_50000 py_le_int_def)

lemma scenario_first_order:
  "new_trades tr = [] \<Longrightarrow>
   place_market_buy_order json_loads scenario_client (PInt 10000) (PInt 1) PNone tr =
     (Inr (PDict [(''id'', PStr ''a'')]),
      tr @ [Log DEBUG Orderparameters [LVal (market_params (PInt 10000) (PInt 1) PNone)],
            New_trade (market_params (PInt 10000) (PInt 1) PNone),
            Log INFO Order_geplaatst [LVal (PDict [(''id'', PStr ''a'')])]])"
  by (simp add: place_market_buy_order_def io_defs scenario_client_def scripted_client_def
      parse_response_structured)

lemma scenario_second_order:
  "new_trades tr = [p] \<Longrightarrow>
   place_market_buy_order json_loads scenario_client (PInt 10000) (PInt 1) tp tr =
     (Inr (PDict [(''id'', PStr ''b''), (''entry_price'', PInt 50010)]),
      tr @ [Log DEBUG Orderparameters [LVal (market_params (PInt 10000) (PInt 1) tp)],
            New_trade (market_params (PInt 10000) (PInt 1) tp),
            Log INFO Order_geplaatst
              [LVal (PDict [(''id'', PStr ''b''), (''entry_price'', PInt 50010)])]])"
  by (simp add: place_market_buy_order_def io_defs scenario_client_def scripted_client_def
      parse_response_structured)

lemma scenario_limit_order:
  "new_trades tr = [p, q] \<Longrightarrow>
   place_limit_buy_order json_loads scenario_client (PInt 10000) (PInt 1) lp ltp tr =
     (Inr (PDict [(''id'', PStr ''c'')]),
      tr @ [Log DEBUG Orderparameters [LVal (limit_params (PInt 10000) (PInt 1) lp ltp)],
            New_trade (limit_params (PInt 10000) (PInt 1) lp ltp),
            Log INFO Limietorder_geplaatst [LVal (PDict [(''id'', PStr ''c'')])]])"
  by (simp add: place_limit_buy_order_def io_defs scenario_client_def scripted_client_def
      parse_response_structured)

lemma scenario_run:
  "main json_loads scenario_client [] =
     (Inr PNone,
      [Get_ticker,
       Log INFO Margin_berekend [LVal (PInt 10000), LVal (PInt 5), LVal (PFloat (Finite 50000))],
       Log INFO Plaats_eerste_order [],
       Log DEBUG Orderparameters
         [LVal (PDict [(''type'', PStr ''m''), (''side'', PStr ''b''), (''margin'', PInt 10000),
                       (''leverage'', PInt 1)])],
       New_trade (PDict [(''type'', PStr ''m''), (''side'', PStr ''b''), (''margin'', PInt 10000),
                       (''leverage'', PInt 1)]),
       Log INFO Order_geplaatst [LVal (PDict [(''id'', PStr ''a'')])],
       Sleep (Finite 3),
       Log INFO Plaats_tweede_order [],
       Log INFO Take_profit_direct [LVal (PInt 50500), LVal (PFloat (Finite 50000))],
       Log DEBUG Orderparameters
         [LVal (PDict [(''type'', PStr ''m''), (''side'', PStr ''b''), (''margin'', PInt 10000),
                       (''leverage'', PInt 1), (''takeprofit'', PInt 50500)])],
       New_trade (PDict [(''type'', PStr ''m''), (''side'', PStr ''b''), (''margin'', PInt 10000),
                       (''leverage'', PInt 1), (''takeprofit'', PInt 50500)]),
       Log INFO Order_geplaatst [LVal (PDict [(''id'', PStr ''b''), (''entry_price'', PInt 50010)])],
       Log INFO Werkelijke_entry_price [LVal (PInt 50010), LVal (PInt 50500), LVal (PInt 50510)],
       Sleep (Finite 3),
       Log INFO Plaats_limietorder [],
       Log DEBUG Orderparameters
         [LVal (PDict [(''type'', PStr ''l''), (''side'', PStr ''b''), (''margin'', PInt 10000),
                       (''leverage'', PInt 1), (''price'', PInt 49900), (''takeprofit'', PInt 50399)])],
       New_trade (PDict [(''type'', PStr ''l''), (''side'', PStr ''b''), (''margin'', PInt 10000),
                       (''leverage'', PInt 1), (''price'', PInt 49900), (''takeprofit'', PInt 50399)]),
       Log INFO Limietorder_geplaatst [LVal (PDict [(''id'', PStr ''c'')])],
       Log INFO Limietorder_op_prijs [LVal (PInt 49900), LVal (PInt 50399)]])"
proof -
  have a: "get_ticker json_loads scenario_client [] = (Inr (PFloat (Finite 50000)), [Get_ticker])"
    using scenario_ticker[of json_loads "[]"] by simp
  note b = usd_to_sats_5_50000[of "[Get_ticker]"]
  have c: "place_market_buy_order json_loads scenario_client (PInt 10000) (PInt 1) PNone
       ([Get_ticker] @
        [Log INFO Margin_berekend [LVal (PInt 10000), LVal (PInt 5), LVal (PFloat (Finite 50000))],
         Log INFO Plaats_eerste_order []]) = (Inr (PDict [(''id'', PStr ''a'')]),
       [Get_ticker,
        Log INFO Margin_berekend [LVal (PInt 10000), LVal (PInt 5), LVal (PFloat (Finite 50000))],
        Log INFO Plaats_eerste_order [],
        Log DEBUG Orderparameters [LVal (market_params (PInt 10000) (PInt 1) PNone)],
        New_trade (market_params (PInt 10000) (PInt 1) PNone),
        Log INFO Order_geplaatst [LVal (PDict [(''id'', PStr ''a'')])]])"
    by (simp add: scenario_first_order)
  show ?thesis
    unfolding main_def USE_DIRECT_TAKE_PROFIT_def
    by (subst main_after_first_order[OF a _ b _ c])
      (simp_all add: second_order_direct[OF tp_50000 scenario_second_order]
        limit_order_placed[OF limit_50000 tp_49900 scenario_limit_order]
        tp_50010 bind_exn_Inr REQUEST_DELAY_def market_params_plain market_params_takeprofit
        limit_params_takeprofit del: py_round.simps)
qed

section \<open>Abort on the first failure\<close>

lemma second_order_failed_direct:
  assumes "bind_exn (py_mul_float market_price lit_1_01) py_round = Inr tp_price"
    and "place_market_buy_order json_loads lnm margin_sats (PInt 1) tp_price
       (tr @ [Log INFO Take_profit_direct [LVal tp_price, LVal market_price]]) = (Inr PNone, t4)"
  shows "second_order_step True json_loads lnm market_price margin_sats tr = (Inr PNone, t4)"
  by (simp add: second_order_direct[OF assms])

lemma second_order_failed_deferred:
  assumes "place_market_buy_order json_loads lnm margin_sats (PInt 1) PNone tr = (Inr PNone, t4)"
  shows "second_order_step False json_loads lnm market_price margin_sats tr = (Inr PNone, t4)"
  by (simp add: second_order_deferred[OF assms])

lemma main_no_second_order:
  assumes "get_ticker json_loads lnm tr = (Inr market_price, t1)" "py_truthy market_price"
    and "usd_to_sats (PInt 5) market_price t1 = (Inr (PInt n), t2)" "0 < n"
    and "place_market_buy_order json_loads lnm (PInt n) (PInt 1) PNone
       (t2 @ [Log INFO Margin_berekend [LVal (PInt n), LVal (PInt 5), LVal market_price],
              Log INFO Plaats_eerste_order []]) = (Inr first_order, t3)"
      "py_truthy first_order"
    and "second_order_step d json_loads lnm market_price (PInt n)
       (t3 @ [Sleep REQUEST_DELAY, Log INFO Plaats_tweede_order []]) = (Inr second_order, t4)"
      "\<not> py_truthy second_order"
  shows "main_with d json_loads lnm tr = (Inr PNone, t4 @ [Log ERROR Tweede_order_mislukt []])"
  by (simp add: main_after_first_order[OF assms(1-6)] assms(7,8))

lemma main_to_limit_order:
  assumes "get_ticker json_loads lnm tr = (Inr market_price, t1)" "py_truthy market_price"
    and "usd_to_sats (PInt 5) market_price t1 = (Inr (PInt n), t2)" "0 < n"
    and "place_market_buy_order json_loads lnm (PInt n) (PInt 1) PNone
       (t2 @ [Log INFO Margin_berekend [LVal (PInt n), LVal (PInt 5), LVal market_price],
              Log INFO Plaats_eerste_order []]) = (Inr first_order, t3)"
      "py_truthy first_order"
    and "second_order_step d json_loads lnm market_price (PInt n)
       (t3 @ [Sleep REQUEST_DELAY, Log INFO Plaats_tweede_order []]) = (Inr second_order, t4)"
      "py_truthy second_order"
  shows "main_with d json_loads lnm tr =
     limit_order_step json_loads lnm market_price (PInt n) (t4 @ [Sleep REQUEST_DELAY])"
  by (simp add: main_after_first_order[OF assms(1-6)] assms(7,8))

lemma main_no_limit_order:
  assumes "get_ticker json_loads lnm tr = (Inr market_price, t1)" "py_truthy market_price"
    and "usd_to_sats (PInt 5) market_price t1 = (Inr (PInt n), t2)" "0 < n"
    and "place_market_buy_order json_loads lnm (PInt n) (PInt 1) PNone
       (t2 @ [Log INFO Margin_berekend [LVal (PInt n), LVal (PInt 5), LVal market_price],
              Log INFO Plaats_eerste_order []]) = (Inr first_order, t3)"
      "py_truthy first_order"
    and "second_order_step d json_loads lnm market_price (PInt n)
       (t3 @ [Sleep REQUEST_DELAY, Log INFO Plaats_tweede_order []]) = (Inr second_order, t4)"
      "py_truthy second_order"
    and "bind_exn (py_sub_int market_price 100) py_round = Inr limit_price"
      "bind_exn (py_mul_float limit_price lit_1_01) py_round = Inr limit_take_profit"
    and "place_limit_buy_order json_loads lnm (PInt n) (PInt 1) limit_price limit_take_profit
       (t4 @ [Sleep REQUEST_DELAY, Log INFO Plaats_limietorder []]) = (Inr PNone, t5)"
  shows "main_with d json_loads lnm tr = (Inr PNone, t5 @ [Log ERROR Limietorder_mislukt []])"
proof -
  from assms(11) have p: "place_limit_buy_order json_loads lnm (PInt n) (PInt 1) limit_price
      limit_take_profit ((t4 @ [Sleep REQUEST_DELAY]) @ [Log INFO Plaats_limietorder []]) =
      (Inr PNone, t5)" by simp
  show ?thesis
    by (simp add: main_to_limit_order[OF assms(1-8)] limit_order_placed[OF assms(9,10) p])
qed

text \<open>
  C3. Along the sequence of \<^verbatim>\<open>main\<close>, under either take-profit policy: when \<^verbatim>\<open>get_ticker\<close>
  returns \<^verbatim>\<open>None\<close>, when the margin is \<open>\<le> 0\<close>, when the first order, the second order or the
  limit order returns \<^verbatim>\<open>None\<close>, \<^verbatim>\<open>main\<close> returns at once: its trace is the trace of the
  failed step followed by one error log entry, so the failed step ran once and nothing was
  called after it. A second order that returns \<^verbatim>\<open>None\<close> ends the second step there, without
  an update call.
\<close>

theorem main_aborts_on_failure:
  "\<forall>market_price t1. get_ticker json_loads lnm tr = (Inr market_price, t1) \<longrightarrow>
     (market_price = PNone \<longrightarrow>
        main_with d json_loads lnm tr =
          (Inr PNone, t1 @ [Log ERROR Kan_marktprijs_niet_ophalen []])) \<and>
     (py_truthy market_price \<longrightarrow>
       (\<forall>n t2. usd_to_sats (PInt 5) market_price t1 = (Inr (PInt n), t2) \<longrightarrow>
          (n \<le> 0 \<longrightarrow>
             main_with d json_loads lnm tr = (Inr PNone, t2 @ [Log ERROR Ongeldige_margin []])) \<and>
          (0 < n \<longrightarrow>
            (\<forall>first_order t3.
               place_market_buy_order json_loads lnm (PInt n) (PInt 1) PNone
                 (t2 @ [Log INFO Margin_berekend [LVal (PInt n), LVal (PInt 5), LVal market_price],
                        Log INFO Plaats_eerste_order []]) = (Inr first_order, t3) \<longrightarrow>
               (first_order = PNone \<longrightarrow>
                  main_with d json_loads lnm tr =
                    (Inr PNone, t3 @ [Log ERROR Eerste_order_mislukt []])) \<and>
               (py_truthy first_order \<longrightarrow>
                 (\<forall>tp_price t4.
                    bind_exn (py_mul_float market_price lit_1_01) py_round = Inr tp_price \<and>
                    place_market_buy_order json_loads lnm (PInt n) (PInt 1) tp_price
                      (t3 @ [Sleep REQUEST_DELAY, Log INFO Plaats_tweede_order [],
                             Log INFO Take_profit_direct [LVal tp_price, LVal market_price]]) =
                      (Inr PNone, t4) \<longrightarrow>
                    main_with True json_loads lnm tr =
                      (Inr PNone, t4 @ [Log ERROR Tweede_order_mislukt []])) \<and>
                 (\<forall>t4.
                    place_market_buy_order json_loads lnm (PInt n) (PInt 1) PNone
                      (t3 @ [Sleep REQUEST_DELAY, Log INFO Plaats_tweede_order []]) =
                      (Inr PNone, t4) \<longrightarrow>
                    main_with False json_loads lnm tr =
                      (Inr PNone, t4 @ [Log ERROR Tweede_order_mislukt []])) \<and>
                 (\<forall>second_order t4.
                    second_order_step d json_loads lnm market_price (PInt n)
                      (t3 @ [Sleep REQUEST_DELAY, Log INFO Plaats_tweede_order []]) =
                      (Inr second_order, t4) \<and> py_truthy second_order \<longrightarrow>
                    (\<forall>limit_price limit_take_profit t5.
                       bind_exn (py_sub_int market_price 100) py_round = Inr limit_price \<and>
                       bind_exn (py_mul_float limit_price lit_1_01) py_round =
                         Inr limit_take_profit \<and>
                       place_limit_buy_order json_loads lnm (PInt n) (PInt 1) limit_price
                         limit_take_profit
                         (t4 @ [Sleep REQUEST_DELAY, Log INFO Plaats_limietorder []]) =
                         (Inr PNone, t5) \<longrightarrow>
                       main_with d json_loads lnm tr =
                         (Inr PNone, t5 @ [Log ERROR Limietorder_mislukt []]))))))))"
proof (intro allI impI conjI; (elim conjE)?)
  fix market_price t1
  assume a: "get_ticker json_loads lnm tr = (Inr market_price, t1)"
  show "main_with d json_loads lnm tr =
      (Inr PNone, t1 @ [Log ERROR Kan_marktprijs_niet_ophalen []])" if "market_price = PNone"
    using main_no_price[OF a] that by simp
  fix n t2
  assume t: "py_truthy market_price"
    and b: "usd_to_sats (PInt 5) market_price t1 = (Inr (PInt n), t2)"
  show "main_with d json_loads lnm tr = (Inr PNone, t2 @ [Log ERROR Ongeldige_margin []])"
    if "n \<le> 0"
    using a t b that by (rule main_no_margin)
  fix first_order t3
  assume n: "0 < n"
    and c: "place_market_buy_order json_loads lnm (PInt n) (PInt 1) PNone
                 (t2 @ [Log INFO Margin_berekend [LVal (PInt n), LVal (PInt 5), LVal market_price],
                        Log INFO Plaats_eerste_order []]) = (Inr first_order, t3)"
  show "main_with d json_loads lnm tr = (Inr PNone, t3 @ [Log ERROR Eerste_order_mislukt []])"
    if "first_order = PNone"
    using main_no_first_order[OF a t b n c] that by simp
  assume f: "py_truthy first_order"
  show "main_with True json_loads lnm tr = (Inr PNone, t4 @ [Log ERROR Tweede_order_mislukt []])"
    if "bind_exn (py_mul_float market_price lit_1_01) py_round = Inr tp_price"
      "place_market_buy_order json_loads lnm (PInt n) (PInt 1) tp_price
         (t3 @ [Sleep REQUEST_DELAY, Log INFO Plaats_tweede_order [],
                Log INFO Take_profit_direct [LVal tp_price, LVal market_price]]) = (Inr PNone, t4)"
    for tp_price t4
  proof -
    from that(2) have "place_market_buy_order json_loads lnm (PInt n) (PInt 1) tp_price
         ((t3 @ [Sleep REQUEST_DELAY, Log INFO Plaats_tweede_order []]) @
           [Log INFO Take_profit_direct [LVal tp_price, LVal market_price]]) = (Inr PNone, t4)"
      by simp
    from second_order_failed_direct[OF that(1) this]
    have "second_order_step True json_loads lnm market_price (PInt n)
        (t3 @ [Sleep REQUEST_DELAY, Log INFO Plaats_tweede_order []]) = (Inr PNone, t4)" .
    from main_no_second_order[OF a t b n c f this] show ?thesis by simp
  qed
  show "main_with False json_loads lnm tr = (Inr PNone, t4 @ [Log ERROR Tweede_order_mislukt []])"
    if "place_market_buy_order json_loads lnm (PInt n) (PInt 1) PNone
         (t3 @ [Sleep REQUEST_DELAY, Log INFO Plaats_tweede_order []]) = (Inr PNone, t4)" for t4
    using main_no_second_order[OF a t b n c f second_order_failed_deferred[OF that]] by simp
  show "main_with d json_loads lnm tr = (Inr PNone, t5 @ [Log ERROR Limietorder_mislukt []])"
    if "second_order_step d json_loads lnm market_price (PInt n)
          (t3 @ [Sleep REQUEST_DELAY, Log INFO Plaats_tweede_order []]) = (Inr second_order, t4)"
      "py_truthy second_order"
      "bind_exn (py_sub_int market_price 100) py_round = Inr limit_price"
      "bind_exn (py_mul_float limit_price lit_1_01) py_round = Inr limit_take_profit"
      "place_limit_buy_order json_loads lnm (PInt n) (PInt 1) limit_price limit_take_profit
         (t4 @ [Sleep REQUEST_DELAY, Log INFO Plaats_limietorder []]) = (Inr PNone, t5)"
    for second_order t4 limit_price limit_take_profit t5
    using a t b n c f that by (rule main_no_limit_order)
qed

subsection \<open>Runs that fail\<close>

lemma place_market_dict:
  assumes "futures_new_trade lnm (tr @ [Log DEBUG Orderparameters [LVal (market_params m l tp)]])
     (market_params m l tp) = Inr (PDict kvs)"
  shows "place_market_buy_order json_loads lnm m l tp tr =
     (if py_truthy (case map_of kvs ''id'' of Some i \<Rightarrow> i | None \<Rightarrow> PNone) then
        (Inr (PDict kvs),
         tr @ [Log DEBUG Orderparameters [LVal (market_params m l tp)],
               New_trade (market_params m l tp), Log INFO Order_geplaatst [LVal (PDict kvs)]])
      else
        (Inr PNone,
         tr @ [Log DEBUG Orderparameters [LVal (market_params m l tp)],
               New_trade (market_params m l tp), Log ERROR Order_mislukt [LVal (PDict kvs)]]))"
  by (simp add: place_market_answer[OF assms parse_response_structured] split: option.splits)

lemma place_limit_dict:
  assumes "futures_new_trade lnm (tr @ [Log DEBUG Orderparameters [LVal (limit_params m l p tp)]])
     (limit_params m l p tp) = Inr (PDict kvs)"
  shows "place_limit_buy_order json_loads lnm m l p tp tr =
     (if py_truthy (case map_of kvs ''id'' of Some i \<Rightarrow> i | None \<Rightarrow> PNone) then
        (Inr (PDict kvs),
         tr @ [Log DEBUG Orderparameters [LVal (limit_params m l p tp)],
               New_trade (limit_params m l p tp), Log INFO Limietorder_geplaatst [LVal (PDict kvs)]])
      else
        (Inr PNone,
         tr @ [Log DEBUG Orderparameters [LVal (limit_params m l p tp)],
               New_trade (limit_params m l p tp),
               Log ERROR Limietorder_mislukt_met [LVal (PDict kvs)]]))"
  by (simp add: place_limit_answer[OF assms parse_response_structured] split: option.splits)

lemma scripted_new_trade:
  "futures_new_trade (scripted_client k f s t u) tr params =
     (case new_trades tr of [] \<Rightarrow> f | [p] \<Rightarrow> s | _ \<Rightarrow> t)"
  by (simp add: scripted_client_def)

lemma scripted_ticker_50000:
  "get_ticker json_loads (scripted_client (Inr (PDict [(''lastPrice'', PStr ''50000'')])) f s t u) tr =
     (Inr (PFloat (Finite 50000)), tr @ [Get_ticker])"
  by (simp add: get_ticker_def io_defs scripted_client_def
      parse_response_structured bind_exn_def float_of_string_50000 py_le_int_def)

lemma failing_ticker:
  "get_ticker json_loads (failing_client 0) tr =
     (Inr PNone, tr @ [Get_ticker, Log ERROR Fout_ophalen_ticker [LExn (OtherError ''timeout'')]])"
  "0 < k \<Longrightarrow> get_ticker json_loads (failing_client k) tr =
     (Inr (PFloat (Finite 50000)), tr @ [Get_ticker])"
  by (simp_all add: failing_client_def scripted_ticker_50000)
    (simp add: get_ticker_def io_defs scripted_client_def)

lemma infinite_ticker:
  "get_ticker json_loads infinite_price_client tr = (Inr (PFloat PInf), tr @ [Get_ticker])"
  by (simp add: infinite_price_client_def get_ticker_def io_defs scripted_client_def
      parse_response_structured bind_exn_def py_le_int_def)

lemma usd_to_sats_infinite:
  "usd_to_sats (PInt 5) (PFloat PInf) tr = (Inr (PInt 0), tr)"
  by (simp add: usd_to_sats_def io_defs bind_exn_def py_truediv_def py_mul_float_def
      int_to_float_small fdiv_def fmul_def lit_1e8)

lemma failing_first_order:
  assumes "new_trades tr = []"
  shows "place_market_buy_order json_loads (failing_client 1) m l tp tr =
     (Inr PNone,
      tr @ [Log DEBUG Orderparameters [LVal (market_params m l tp)],
            New_trade (market_params m l tp),
            Log ERROR Order_mislukt [LVal (PDict [(''message'', PStr ''Rejected'')])]])"
    and "k \<noteq> 1 \<Longrightarrow> place_market_buy_order json_loads (failing_client k) m l tp tr =
     (Inr (PDict [(''id'', PStr ''a'')]),
      tr @ [Log DEBUG Orderparameters [LVal (market_params m l tp)],
            New_trade (market_params m l tp),
            Log INFO Order_geplaatst [LVal (PDict [(''id'', PStr ''a'')])]])"
proof -
  have "futures_new_trade (failing_client 1)
      (tr @ [Log DEBUG Orderparameters [LVal (market_params m l tp)]]) (market_params m l tp) =
      Inr (PDict [(''message'', PStr ''Rejected'')])"
    using assms by (simp add: failing_client_def scripted_new_trade rejected_def)
  from place_market_dict[OF this] show "place_market_buy_order json_loads (failing_client 1) m l tp tr =
     (Inr PNone,
      tr @ [Log DEBUG Orderparameters [LVal (market_params m l tp)],
            New_trade (market_params m l tp),
            Log ERROR Order_mislukt [LVal (PDict [(''message'', PStr ''Rejected'')])]])"
    by simp
  assume "k \<noteq> 1"
  then have "futures_new_trade (failing_client k)
      (tr @ [Log DEBUG Orderparameters [LVal (market_params m l tp)]]) (market_params m l tp) =
      Inr (PDict [(''id'', PStr ''a'')])"
    using assms by (simp add: failing_client_def scripted_new_trade)
  from place_market_dict[OF this] show "place_market_buy_order json_loads (failing_client k) m l tp tr =
     (Inr (PDict [(''id'', PStr ''a'')]),
      tr @ [Log DEBUG Orderparameters [LVal (market_params m l tp)],
            New_trade (market_params m l tp),
            Log INFO Order_geplaatst [LVal (PDict [(''id'', PStr ''a'')])]])"
    by simp
qed

lemma failing_second_order:
  assumes "new_trades tr = [p]"
  shows "place_market_buy_order json_loads (failing_client 2) m l tp tr =
     (Inr PNone,
      tr @ [Log DEBUG Orderparameters [LVal (market_params m l tp)],
            New_trade (market_params m l tp),
            Log ERROR Order_mislukt [LVal (PDict [(''message'', PStr ''Rejected'')])]])"
    and "k \<noteq> 2 \<Longrightarrow> place_market_buy_order json_loads (failing_client k) m l tp tr =
     (Inr (PDict [(''id'', PStr ''b''), (''entry_price'', PInt 50010)]),
      tr @ [Log DEBUG Orderparameters [LVal (market_params m l tp)],
            New_trade (market_params m l tp),
            Log INFO Order_geplaatst
              [LVal (PDict [(''id'', PStr ''b''), (''entry_price'', PInt 50010)])]])"
proof -
  have "futures_new_trade (failing_client 2)
      (tr @ [Log DEBUG Orderparameters [LVal (market_params m l tp)]]) (market_params m l tp) =
      Inr (PDict [(''message'', PStr ''Rejected'')])"
    using assms by (simp add: failing_client_def scripted_new_trade rejected_def)
  from place_market_dict[OF this] show "place_market_buy_order json_loads (failing_client 2) m l tp tr =
     (Inr PNone,
      tr @ [Log DEBUG Orderparameters [LVal (market_params m l tp)],
            New_trade (market_params m l tp),
            Log ERROR Order_mislukt [LVal (PDict [(''message'', PStr ''Rejected'')])]])"
    by simp
  assume "k \<noteq> 2"
  then have "futures_new_trade (failing_client k)
      (tr @ [Log DEBUG Orderparameters [LVal (market_params m l tp)]]) (market_params m l tp) =
      Inr (PDict [(''id'', PStr ''b''), (''entry_price'', PInt 50010)])"
    using assms by (simp add: failing_client_def scripted_new_trade)
  from place_market_dict[OF this] show "place_market_buy_order json_loads (failing_client k) m l tp tr =
     (Inr (PDict [(''id'', PStr ''b''), (''entry_price'', PInt 50010)]),
      tr @ [Log DEBUG Orderparameters [LVal (market_params m l tp)],
            New_trade (market_params m l tp),
            Log INFO Order_geplaatst
              [LVal (PDict [(''id'', PStr ''b''), (''entry_price'', PInt 50010)])]])"
    by simp
qed

lemma failing_limit_order:
  assumes "new_trades tr = [p, q]"
  shows "place_limit_buy_order json_loads (failing_client 3) m l lp tp tr =
     (Inr PNone,
      tr @ [Log DEBUG Orderparameters [LVal (limit_params m l lp tp)],
            New_trade (limit_params m l lp tp),
            Log ERROR Limietorder_mislukt_met [LVal (PDict [(''message'', PStr ''Rejected'')])]])"
proof -
  have "futures_new_trade (failing_client 3)
      (tr @ [Log DEBUG Orderparameters [LVal (limit_params m l lp tp)]]) (limit_params m l lp tp) =
      Inr (PDict [(''message'', PStr ''Rejected'')])"
    using assms by (simp add: failing_client_def scripted_new_trade rejected_def)
  from place_limit_dict[OF this] show ?thesis by simp
qed

theorem main_aborts_on_failure_witness:
  "main_with True json_rejects (failing_client 0) [] =
     (Inr PNone,
      [Get_ticker, Log ERROR Fout_ophalen_ticker [LExn (OtherError ''timeout'')],
       Log ERROR Kan_marktprijs_niet_ophalen []]) \<and>
   main_with True json_rejects infinite_price_client [] =
     (Inr PNone, [Get_ticker, Log ERROR Ongeldige_margin []]) \<and>
   main_with False json_rejects (failing_client 1) [] =
     (Inr PNone,
      [Get_ticker,
       Log INFO Margin_berekend [LVal (PInt 10000), LVal (PInt 5), LVal (PFloat (Finite 50000))],
       Log INFO Plaats_eerste_order [],
       Log DEBUG Orderparameters [LVal (market_params (PInt 10000) (PInt 1) PNone)],
       New_trade (market_params (PInt 10000) (PInt 1) PNone),
       Log ERROR Order_mislukt [LVal (PDict [(''message'', PStr ''Rejected'')])],
       Log ERROR Eerste_order_mislukt []]) \<and>
   main_with True json_rejects (failing_client 2) [] =
     (Inr PNone,
      [Get_ticker,
       Log INFO Margin_berekend [LVal (PInt 10000), LVal (PInt 5), LVal (PFloat (Finite 50000))],
       Log INFO Plaats_eerste_order [],
       Log DEBUG Orderparameters [LVal (market_params (PInt 10000) (PInt 1) PNone)],
       New_trade (market_params (PInt 10000) (PInt 1) PNone),
       Log INFO Order_geplaatst [LVal (PDict [(''id'', PStr ''a'')])],
       Sleep REQUEST_DELAY,
       Log INFO Plaats_tweede_order [],
       Log INFO Take_profit_direct [LVal (PInt 50500), LVal (PFloat (Finite 50000))],
       Log DEBUG Orderparameters [LVal (market_params (PInt 10000) (PInt 1) (PInt 50500))],
       New_trade (market_params (PInt 10000) (PInt 1) (PInt 50500)),
       Log ERROR Order_mislukt [LVal (PDict [(''message'', PStr ''Rejected'')])],
       Log ERROR Tweede_order_mislukt []]) \<and>
   main_with False json_rejects (failing_client 2) [] =
     (Inr PNone,
      [Get_ticker,
       Log INFO Margin_berekend [LVal (PInt 10000), LVal (PInt 5), LVal (PFloat (Finite 50000))],
       Log INFO Plaats_eerste_order [],
       Log DEBUG Orderparameters [LVal (market_params (PInt 10000) (PInt 1) PNone)],
       New_trade (market_params (PInt 10000) (PInt 1) PNone),
       Log INFO Order_geplaatst [LVal (PDict [(''id'', PStr ''a'')])],
       Sleep REQUEST_DELAY,
       Log INFO Plaats_tweede_order [],
       Log DEBUG Orderparameters [LVal (market_params (PInt 10000) (PInt 1) PNone)],
       New_trade (market_params (PInt 10000) (PInt 1) PNone),
       Log ERROR Order_mislukt [LVal (PDict [(''message'', PStr ''Rejected'')])],
       Log ERROR Tweede_order_mislukt []])"
proof (intro conjI)
  show "main_with True json_rejects (failing_client 0) [] =
     (Inr PNone,
      [Get_ticker, Log ERROR Fout_ophalen_ticker [LExn (OtherError ''timeout'')],
       Log ERROR Kan_marktprijs_niet_ophalen []])"
    using main_aborts_on_failure[where json_loads = json_rejects and lnm = "failing_client 0"
        and tr = "[]" and d = True]
    by (simp add: failing_ticker)
  show "main_with True json_rejects infinite_price_client [] =
     (Inr PNone, [Get_ticker, Log ERROR Ongeldige_margin []])"
    using main_aborts_on_failure[where json_loads = json_rejects and lnm = infinite_price_client
        and tr = "[]" and d = True]
    by (simp add: infinite_ticker usd_to_sats_infinite)
  show "main_with False json_rejects (failing_client 1) [] =
     (Inr PNone,
      [Get_ticker,
       Log INFO Margin_berekend [LVal (PInt 10000), LVal (PInt 5), LVal (PFloat (Finite 50000))],
       Log INFO Plaats_eerste_order [],
       Log DEBUG Orderparameters [LVal (market_params (PInt 10000) (PInt 1) PNone)],
       New_trade (market_params (PInt 10000) (PInt 1) PNone),
       Log ERROR Order_mislukt [LVal (PDict [(''message'', PStr ''Rejected'')])],
       Log ERROR Eerste_order_mislukt []])"
    using main_aborts_on_failure[where json_loads = json_rejects and lnm = "failing_client 1"
        and tr = "[]" and d = False]
    by (simp add: failing_ticker usd_to_sats_5_50000 failing_first_order del: One_nat_def)
  show "main_with True json_rejects (failing_client 2) [] =
     (Inr PNone,
      [Get_ticker,
       Log INFO Margin_berekend [LVal (PInt 10000), LVal (PInt 5), LVal (PFloat (Finite 50000))],
       Log INFO Plaats_eerste_order [],
       Log DEBUG Orderparameters [LVal (market_params (PInt 10000) (PInt 1) PNone)],
       New_trade (market_params (PInt 10000) (PInt 1) PNone),
       Log INFO Order_geplaatst [LVal (PDict [(''id'', PStr ''a'')])],
       Sleep REQUEST_DELAY,
       Log INFO Plaats_tweede_order [],
       Log INFO Take_profit_direct [LVal (PInt 50500), LVal (PFloat (Finite 50000))],
       Log DEBUG Orderparameters [LVal (market_params (PInt 10000) (PInt 1) (PInt 50500))],
       New_trade (market_params (PInt 10000) (PInt 1) (PInt 50500)),
       Log ERROR Order_mislukt [LVal (PDict [(''message'', PStr ''Rejected'')])],
       Log ERROR Tweede_order_mislukt []])"
    using main_aborts_on_failure[where json_loads = json_rejects and lnm = "failing_client 2"
        and tr = "[]" and d = True]
    by (simp add: failing_ticker usd_to_sats_5_50000 failing_first_order failing_second_order
        tp_50000 del: One_nat_def)
  show "main_with False json_rejects (failing_client 2) [] =
     (Inr PNone,
      [Get_ticker,
       Log INFO Margin_berekend [LVal (PInt 10000), LVal (PInt 5), LVal (PFloat (Finite 50000))],
       Log INFO Plaats_eerste_order [],
       Log DEBUG Orderparameters [LVal (market_params (PInt 10000) (PInt 1) PNone)],
       New_trade (market_params (PInt 10000) (PInt 1) PNone),
       Log INFO Order_geplaatst [LVal (PDict [(''id'', PStr ''a'')])],
       Sleep REQUEST_DELAY,
       Log INFO Plaats_tweede_order [],
       Log DEBUG Orderparameters [LVal (market_params (PInt 10000) (PInt 1) PNone)],
       New_trade (market_params (PInt 10000) (PInt 1) PNone),
       Log ERROR Order_mislukt [LVal (PDict [(''message'', PStr ''Rejected'')])],
       Log ERROR Tweede_order_mislukt []])"
    using main_aborts_on_failure[where json_loads = json_rejects and lnm = "failing_client 2"
        and tr = "[]" and d = False]
    by (simp add: failing_ticker usd_to_sats_5_50000 failing_first_order failing_second_order
        del: One_nat_def)
qed

section \<open>The prices main computes\<close>

text \<open>
  Once \<^verbatim>\<open>get_ticker\<close> returned a price and the margin is positive, the price is a finite
  positive float below \<open>2 ^ 40\<close>, and the take-profit and limit prices of \<^verbatim>\<open>main\<close> evaluate.
\<close>

lemma price_of_run:
  assumes "get_ticker json_loads lnm tr = (Inr market_price, t1)" "py_truthy market_price"
    and "usd_to_sats (PInt 5) market_price t1 = (Inr (PInt n), t2)" "0 < n"
  shows "\<exists>r. market_price = PFloat (Finite r) \<and> 0 < r \<and> r < 2 ^ 40"
proof (rule get_ticker_cases[of json_loads lnm tr])
  fix f evs
  assume "get_ticker json_loads lnm tr = (Inr (PFloat f), tr @ Get_ticker # evs)" "\<not> fle_rat f 0"
  with assms(1) have m: "market_price = PFloat f" and f: "\<not> fle_rat f 0" by simp_all
  from margin_positive_price[OF assms(3)[unfolded m] assms(4) f] m show ?thesis by simp
next
  fix evs
  assume "get_ticker json_loads lnm tr = (Inr PNone, tr @ Get_ticker # evs)"
  with assms(1,2) show ?thesis by simp
qed

lemma prices_of_run:
  assumes "get_ticker json_loads lnm tr = (Inr market_price, t1)" "py_truthy market_price"
    and "usd_to_sats (PInt 5) market_price t1 = (Inr (PInt n), t2)" "0 < n"
  shows "\<exists>tp lp ltp.
     bind_exn (py_mul_float market_price lit_1_01) py_round = Inr (PInt tp) \<and>
     bind_exn (py_sub_int market_price 100) py_round = Inr (PInt lp) \<and>
     bind_exn (py_mul_float (PInt lp) lit_1_01) py_round = Inr (PInt ltp)"
proof -
  from price_of_run[OF assms] obtain r where
    r: "market_price = PFloat (Finite r)" "0 < r" "r < 2 ^ 40" by blast
  from take_profit_computes[OF r(2,3)] limit_prices_compute[OF r(2,3)] r(1)
  show ?thesis by blast
qed

section \<open>The direct take-profit policy\<close>

lemma second_order_direct_trace:
  assumes "bind_exn (py_mul_float market_price lit_1_01) py_round = Inr tp_price"
  shows "\<exists>r evs. second_order_step True json_loads lnm market_price margin_sats tr =
       (r, tr @ Log INFO Take_profit_direct [LVal tp_price, LVal market_price] #
             Log DEBUG Orderparameters [LVal (market_params margin_sats (PInt 1) tp_price)] #
             New_trade (market_params margin_sats (PInt 1) tp_price) # evs) \<and>
     list_all is_log evs"
proof (rule place_market_cases[of json_loads lnm margin_sats "PInt 1" tp_price
      "tr @ [Log INFO Take_profit_direct [LVal tp_price, LVal market_price]]"])
  fix evs
  assume p: "place_market_buy_order json_loads lnm margin_sats (PInt 1) tp_price
      (tr @ [Log INFO Take_profit_direct [LVal tp_price, LVal market_price]]) =
      (Inr PNone, (tr @ [Log INFO Take_profit_direct [LVal tp_price, LVal market_price]]) @
         Log DEBUG Orderparameters [LVal (market_params margin_sats (PInt 1) tp_price)] #
         New_trade (market_params margin_sats (PInt 1) tp_price) # evs)"
    and l: "list_all is_log evs"
  show ?thesis using l by (simp add: second_order_direct[OF assms p])
next
  fix order ident evs
  assume p: "place_market_buy_order json_loads lnm margin_sats (PInt 1) tp_price
      (tr @ [Log INFO Take_profit_direct [LVal tp_price, LVal market_price]]) =
      (Inr order, (tr @ [Log INFO Take_profit_direct [LVal tp_price, LVal market_price]]) @
         Log DEBUG Orderparameters [LVal (market_params margin_sats (PInt 1) tp_price)] #
         New_trade (market_params margin_sats (PInt 1) tp_price) # evs)"
    and l: "list_all is_log evs" and t: "py_truthy order"
  show ?thesis
  proof (cases "bind_exn (py_get order ''entry_price'' market_price)
                (\<lambda>entry_price. bind_exn (bind_exn (py_mul_float entry_price lit_1_01) py_round)
                   (\<lambda>target. Inr (entry_price, target)))")
    case (Inl e)
    then show ?thesis using l t by (simp add: second_order_direct[OF assms p])
  next
    case (Inr pr)
    then show ?thesis using l t
      by (cases pr) (simp add: second_order_direct[OF assms p])
  qed
qed

lemma limit_order_extends:
  "\<exists>r evs. limit_order_step json_loads lnm market_price margin_sats tr = (r, tr @ evs) \<and>
     update_trades evs = [] \<and> sleeps evs = []"
proof (cases "bind_exn (bind_exn (py_sub_int market_price 100) py_round)
     (\<lambda>limit_price. bind_exn (bind_exn (py_mul_float limit_price lit_1_01) py_round)
        (\<lambda>limit_take_profit. Inr (limit_price, limit_take_profit)))")
  case (Inl e)
  from limit_order_raises[OF this] show ?thesis by simp
next
  case (Inr pr)
  obtain lp ltp where pr: "pr = (lp, ltp)" by (cases pr)
  from Inr pr have c: "bind_exn (py_sub_int market_price 100) py_round = Inr lp"
    "bind_exn (py_mul_float lp lit_1_01) py_round = Inr ltp"
    by (auto simp: bind_exn_def split: sum.splits)
  obtain lo evs where p: "place_limit_buy_order json_loads lnm margin_sats (PInt 1) lp ltp
      (tr @ [Log INFO Plaats_limietorder []]) =
      (Inr lo, (tr @ [Log INFO Plaats_limietorder []]) @
         Log DEBUG Orderparameters [LVal (limit_params margin_sats (PInt 1) lp ltp)] #
         New_trade (limit_params margin_sats (PInt 1) lp ltp) # evs)" "list_all is_log evs"
    by (rule place_limit_cases[of json_loads lnm margin_sats "PInt 1" lp ltp
          "tr @ [Log INFO Plaats_limietorder []]"]) blast+
  from logs_silent[OF p(2)] show ?thesis
    by (simp add: limit_order_placed[OF c p(1)])
qed

lemma main_direct_second_order:
  assumes "get_ticker json_loads lnm tr = (Inr market_price, t1)" "py_truthy market_price"
    and "usd_to_sats (PInt 5) market_price t1 = (Inr (PInt n), t2)" "0 < n"
    and "place_market_buy_order json_loads lnm (PInt n) (PInt 1) PNone
       (t2 @ [Log INFO Margin_berekend [LVal (PInt n), LVal (PInt 5), LVal market_price],
              Log INFO Plaats_eerste_order []]) = (Inr first_order, t3)"
      "py_truthy first_order"
  shows "\<exists>tp r evs.
     bind_exn (py_mul_float market_price lit_1_01) py_round = Inr (PInt tp) \<and>
     main_with True json_loads lnm tr =
       (r, t3 @ Sleep REQUEST_DELAY # Log INFO Plaats_tweede_order [] #
             Log INFO Take_profit_direct [LVal (PInt tp), LVal market_price] #
             Log DEBUG Orderparameters [LVal (market_params (PInt n) (PInt 1) (PInt tp))] #
             New_trade (market_params (PInt n) (PInt 1) (PInt tp)) # evs) \<and>
     update_trades evs = []"
proof -
  from prices_of_run[OF assms(1-4)] obtain tp where
    tp: "bind_exn (py_mul_float market_price lit_1_01) py_round = Inr (PInt tp)" by blast
  define T where "T = t3 @ [Sleep REQUEST_DELAY, Log INFO Plaats_tweede_order []]"
  define P where "P = market_params (PInt n) (PInt 1) (PInt tp)"
  from second_order_direct_trace[OF tp, of json_loads lnm "PInt n" T] obtain r evs where
    s: "second_order_step True json_loads lnm market_price (PInt n) T =
       (r, T @ Log INFO Take_profit_direct [LVal (PInt tp), LVal market_price] #
             Log DEBUG Orderparameters [LVal P] # New_trade P # evs)" "list_all is_log evs"
    unfolding P_def by blast
  define t4 where "t4 = T @ Log INFO Take_profit_direct [LVal (PInt tp), LVal market_price] #
             Log DEBUG Orderparameters [LVal P] # New_trade P # evs"
  note m = main_after_first_order[OF assms, of True, folded T_def, unfolded s(1), folded t4_def]
  from limit_order_extends[of json_loads lnm market_price "PInt n" "t4 @ [Sleep REQUEST_DELAY]"]
  obtain r' evs' where l: "limit_order_step json_loads lnm market_price (PInt n)
      (t4 @ [Sleep REQUEST_DELAY]) = (r', (t4 @ [Sleep REQUEST_DELAY]) @ evs')"
    "update_trades evs' = []" by blast
  have "\<exists>r'' evs''. main_with True json_loads lnm tr = (r'', t4 @ evs'') \<and> update_trades evs'' = []"
  proof (cases r)
    case (Inl e)
    with m show ?thesis by simp
  next
    case (Inr so)
    show ?thesis
    proof (cases "py_truthy so")
      case True
      with m Inr l show ?thesis by simp
    next
      case False
      with m Inr show ?thesis by simp
    qed
  qed
  then obtain r'' evs'' where
    "main_with True json_loads lnm tr = (r'', t4 @ evs'')" "update_trades evs'' = []" by blast
  with logs_silent[OF s(2)] tp show ?thesis
    unfolding t4_def T_def P_def
    by (intro exI[of _ tp] exI[of _ r''] exI[of _ "evs @ evs''"]) simp
qed

lemma direct_ideal_target_logged:
  assumes "bind_exn (py_mul_float market_price lit_1_01) py_round = Inr tp_price"
    and "place_market_buy_order json_loads lnm margin_sats (PInt 1) tp_price
       (tr @ [Log INFO Take_profit_direct [LVal tp_price, LVal market_price]]) = (Inr second_order, t4)"
    and "py_truthy second_order"
    and "py_get second_order ''entry_price'' market_price = Inr entry_price"
    and "bind_exn (py_mul_float entry_price lit_1_01) py_round = Inr target"
  shows "second_order_step True json_loads lnm market_price margin_sats tr =
     (Inr second_order,
      t4 @ [Log INFO Werkelijke_entry_price [LVal entry_price, LVal tp_price, LVal target]])"
  using assms(3-5) by (simp add: second_order_direct[OF assms(1,2)] bind_exn_Inr)

text \<open>
  C5. Under the direct policy (\<^verbatim>\<open>USE_DIRECT_TAKE_PROFIT = True\<close>) no run of \<^verbatim>\<open>main\<close> makes an
  update call. In every run that placed the first order, \<^verbatim>\<open>round(market_price * 1.01)\<close>
  evaluates for the price \<^verbatim>\<open>get_ticker\<close> returned before any trade, and the next call to the
  client after the delay is the second order's creation with that value as \<^verbatim>\<open>takeprofit\<close>;
  for the price 50000 it is 50500. When the second order is placed, the target computed
  from its entry price is written to the log and nothing else is done with it.
\<close>

theorem direct_take_profit:
  "update_trades (snd (main_with True json_loads lnm tr)) = update_trades tr \<and>
   (\<forall>market_price t1 n t2 first_order t3.
      get_ticker json_loads lnm tr = (Inr market_price, t1) \<and> py_truthy market_price \<and>
      usd_to_sats (PInt 5) market_price t1 = (Inr (PInt n), t2) \<and> 0 < n \<and>
      place_market_buy_order json_loads lnm (PInt n) (PInt 1) PNone
        (t2 @ [Log INFO Margin_berekend [LVal (PInt n), LVal (PInt 5), LVal market_price],
               Log INFO Plaats_eerste_order []]) = (Inr first_order, t3) \<and>
      py_truthy first_order \<longrightarrow>
      (\<exists>tp r evs.
         bind_exn (py_mul_float market_price lit_1_01) py_round = Inr (PInt tp) \<and>
         main_with True json_loads lnm tr =
           (r, t3 @ Sleep REQUEST_DELAY # Log INFO Plaats_tweede_order [] #
                 Log INFO Take_profit_direct [LVal (PInt tp), LVal market_price] #
                 Log DEBUG Orderparameters [LVal (market_params (PInt n) (PInt 1) (PInt tp))] #
                 New_trade (market_params (PInt n) (PInt 1) (PInt tp)) # evs) \<and>
         update_trades evs = [] \<and>
         market_params (PInt n) (PInt 1) (PInt tp) =
           PDict [(''type'', PStr ''m''), (''side'', PStr ''b''), (''margin'', PInt n),
                  (''leverage'', PInt 1), (''takeprofit'', PInt tp)])) \<and>
   bind_exn (py_mul_float (PFloat (Finite 50000)) lit_1_01) py_round = Inr (PInt 50500) \<and>
   (\<forall>market_price margin_sats tp_price second_order t4 entry_price target tr'.
      bind_exn (py_mul_float market_price lit_1_01) py_round = Inr tp_price \<and>
      place_market_buy_order json_loads lnm margin_sats (PInt 1) tp_price
        (tr' @ [Log INFO Take_profit_direct [LVal tp_price, LVal market_price]]) =
        (Inr second_order, t4) \<and>
      py_truthy second_order \<and>
      py_get second_order ''entry_price'' market_price = Inr entry_price \<and>
      bind_exn (py_mul_float entry_price lit_1_01) py_round = Inr target \<longrightarrow>
      second_order_step True json_loads lnm market_price margin_sats tr' =
        (Inr second_order,
         t4 @ [Log INFO Werkelijke_entry_price [LVal entry_price, LVal tp_price, LVal target]]))"
proof (intro conjI allI impI; (elim conjE)?)
  show "update_trades (snd (main_with True json_loads lnm tr)) = update_trades tr"
    using main_direct_keeps_updates[of json_loads lnm] by (simp add: keeps_def)
  show "bind_exn (py_mul_float (PFloat (Finite 50000)) lit_1_01) py_round = Inr (PInt 50500)"
    by (rule tp_50000)
next
  fix market_price t1 n t2 first_order t3
  assume a: "get_ticker json_loads lnm tr = (Inr market_price, t1)" "py_truthy market_price"
    "usd_to_sats (PInt 5) market_price t1 = (Inr (PInt n), t2)" "0 < n"
    "place_market_buy_order json_loads lnm (PInt n) (PInt 1) PNone
        (t2 @ [Log INFO Margin_berekend [LVal (PInt n), LVal (PInt 5), LVal market_price],
               Log INFO Plaats_eerste_order []]) = (Inr first_order, t3)"
    "py_truthy first_order"
  from main_direct_second_order[OF a] obtain tp r evs where
    "bind_exn (py_mul_float market_price lit_1_01) py_round = Inr (PInt tp)"
    "main_with True json_loads lnm tr =
       (r, t3 @ Sleep REQUEST_DELAY # Log INFO Plaats_tweede_order [] #
             Log INFO Take_profit_direct [LVal (PInt tp), LVal market_price] #
             Log DEBUG Orderparameters [LVal (market_params (PInt n) (PInt 1) (PInt tp))] #
             New_trade (market_params (PInt n) (PInt 1) (PInt tp)) # evs)"
    "update_trades evs = []" by blast
  then show "\<exists>tp r evs.
         bind_exn (py_mul_float market_price lit_1_01) py_round = Inr (PInt tp) \<and>
         main_with True json_loads lnm tr =
           (r, t3 @ Sleep REQUEST_DELAY # Log INFO Plaats_tweede_order [] #
                 Log INFO Take_profit_direct [LVal (PInt tp), LVal market_price] #
                 Log DEBUG Orderparameters [LVal (market_params (PInt n) (PInt 1) (PInt tp))] #
                 New_trade (market_params (PInt n) (PInt 1) (PInt tp)) # evs) \<and>
         update_trades evs = [] \<and>
         market_params (PInt n) (PInt 1) (PInt tp) =
           PDict [(''type'', PStr ''m''), (''side'', PStr ''b''), (''margin'', PInt n),
                  (''leverage'', PInt 1), (''takeprofit'', PInt tp)]"
    using market_params_takeprofit[of "PInt tp" "PInt n" "PInt 1"] by auto
next
  fix market_price margin_sats tp_price second_order t4 entry_price target tr'
  assume "bind_exn (py_mul_float market_price lit_1_01) py_round = Inr tp_price"
    "place_market_buy_order json_loads lnm margin_sats (PInt 1) tp_price
        (tr' @ [Log INFO Take_profit_direct [LVal tp_price, LVal market_price]]) =
        (Inr second_order, t4)"
    "py_truthy second_order"
    "py_get second_order ''entry_price'' market_price = Inr entry_price"
    "bind_exn (py_mul_float entry_price lit_1_01) py_round = Inr target"
  then show "second_order_step True json_loads lnm market_price margin_sats tr' =
        (Inr second_order,
         t4 @ [Log INFO Werkelijke_entry_price [LVal entry_price, LVal tp_price, LVal target]])"
    by (rule direct_ideal_target_logged)
qed

theorem direct_take_profit_witness:
  "update_trades (snd (main_with True json_rejects scenario_client [])) = [] \<and>
   (\<exists>r evs. main_with True json_rejects scenario_client [] =
      (r, [Get_ticker,
           Log INFO Margin_berekend [LVal (PInt 10000), LVal (PInt 5), LVal (PFloat (Finite 50000))],
           Log INFO Plaats_eerste_order [],
           Log DEBUG Orderparameters [LVal (market_params (PInt 10000) (PInt 1) PNone)],
           New_trade (market_params (PInt 10000) (PInt 1) PNone),
           Log INFO Order_geplaatst [LVal (PDict [(''id'', PStr ''a'')])],
           Sleep REQUEST_DELAY,
           Log INFO Plaats_tweede_order [],
           Log INFO Take_profit_direct [LVal (PInt 50500), LVal (PFloat (Finite 50000))],
           Log DEBUG Orderparameters
             [LVal (PDict [(''type'', PStr ''m''), (''side'', PStr ''b''), (''margin'', PInt 10000),
                           (''leverage'', PInt 1), (''takeprofit'', PInt 50500)])],
           New_trade (PDict [(''type'', PStr ''m''), (''side'', PStr ''b''), (''margin'', PInt 10000),
                           (''leverage'', PInt 1), (''takeprofit'', PInt 50500)])] @ evs) \<and>
      update_trades evs = []) \<and>
   second_order_step True json_rejects scenario_client (PFloat (Finite 50000)) (PInt 10000)
       [New_trade PNone] =
     (Inr (PDict [(''id'', PStr ''b''), (''entry_price'', PInt 50010)]),
      [New_trade PNone,
       Log INFO Take_profit_direct [LVal (PInt 50500), LVal (PFloat (Finite 50000))],
       Log DEBUG Orderparameters [LVal (market_params (PInt 10000) (PInt 1) (PInt 50500))],
       New_trade (market_params (PInt 10000) (PInt 1) (PInt 50500)),
       Log INFO Order_geplaatst [LVal (PDict [(''id'', PStr ''b''), (''entry_price'', PInt 50010)])],
       Log INFO Werkelijke_entry_price [LVal (PInt 50010), LVal (PInt 50500), LVal (PInt 50510)]])"
proof (intro conjI)
  note t = direct_take_profit[where json_loads = json_rejects and lnm = scenario_client
      and tr = "[]"]
  show "update_trades (snd (main_with True json_rejects scenario_client [])) = []"
    using t by simp
  have "\<exists>tp r evs.
         bind_exn (py_mul_float (PFloat (Finite 50000)) lit_1_01) py_round = Inr (PInt tp) \<and>
         main_with True json_rejects scenario_client [] =
           (r, [Get_ticker,
                Log INFO Margin_berekend
                  [LVal (PInt 10000), LVal (PInt 5), LVal (PFloat (Finite 50000))],
                Log INFO Plaats_eerste_order [],
                Log DEBUG Orderparameters [LVal (market_params (PInt 10000) (PInt 1) PNone)],
                New_trade (market_params (PInt 10000) (PInt 1) PNone),
                Log INFO Order_geplaatst [LVal (PDict [(''id'', PStr ''a'')])]] @
               Sleep REQUEST_DELAY # Log INFO Plaats_tweede_order [] #
               Log INFO Take_profit_direct [LVal (PInt tp), LVal (PFloat (Finite 50000))] #
               Log DEBUG Orderparameters [LVal (market_params (PInt 10000) (PInt 1) (PInt tp))] #
               New_trade (market_params (PInt 10000) (PInt 1) (PInt tp)) # evs) \<and>
         update_trades evs = [] \<and>
         market_params (PInt 10000) (PInt 1) (PInt tp) =
           PDict [(''type'', PStr ''m''), (''side'', PStr ''b''), (''margin'', PInt 10000),
                  (''leverage'', PInt 1), (''takeprofit'', PInt tp)]"
    using t[THEN conjunct2, THEN conjunct1, rule_format,
        where market_price = "PFloat (Finite 50000)" and ?t1.0 = "[Get_ticker]" and n = 10000
        and ?t2.0 = "[Get_ticker]" and first_order = "PDict [(''id'', PStr ''a'')]"]
    by (simp add: scenario_ticker usd_to_sats_5_50000 scenario_first_order)
  then show "\<exists>r evs. main_with True json_rejects scenario_client [] =
      (r, [Get_ticker,
           Log INFO Margin_berekend [LVal (PInt 10000), LVal (PInt 5), LVal (PFloat (Finite 50000))],
           Log INFO Plaats_eerste_order [],
           Log DEBUG Orderparameters [LVal (market_params (PInt 10000) (PInt 1) PNone)],
           New_trade (market_params (PInt 10000) (PInt 1) PNone),
           Log INFO Order_geplaatst [LVal (PDict [(''id'', PStr ''a'')])],
           Sleep REQUEST_DELAY,
           Log INFO Plaats_tweede_order [],
           Log INFO Take_profit_direct [LVal (PInt 50500), LVal (PFloat (Finite 50000))],
           Log DEBUG Orderparameters
             [LVal (PDict [(''type'', PStr ''m''), (''side'', PStr ''b''), (''margin'', PInt 10000),
                           (''leverage'', PInt 1), (''takeprofit'', PInt 50500)])],
           New_trade (PDict [(''type'', PStr ''m''), (''side'', PStr ''b''), (''margin'', PInt 10000),
                           (''leverage'', PInt 1), (''takeprofit'', PInt 50500)])] @ evs) \<and>
      update_trades evs = []"
    by (auto simp add: tp_50000)
  show "second_order_step True json_rejects scenario_client (PFloat (Finite 50000)) (PInt 10000)
       [New_trade PNone] =
     (Inr (PDict [(''id'', PStr ''b''), (''entry_price'', PInt 50010)]),
      [New_trade PNone,
       Log INFO Take_profit_direct [LVal (PInt 50500), LVal (PFloat (Finite 50000))],
       Log DEBUG Orderparameters [LVal (market_params (PInt 10000) (PInt 1) (PInt 50500))],
       New_trade (market_params (PInt 10000) (PInt 1) (PInt 50500)),
       Log INFO Order_geplaatst [LVal (PDict [(''id'', PStr ''b''), (''entry_price'', PInt 50010)])],
       Log INFO Werkelijke_entry_price [LVal (PInt 50010), LVal (PInt 50500), LVal (PInt 50510)]])"
    using t[THEN conjunct2, THEN conjunct2, THEN conjunct2, rule_format,
        where market_price = "PFloat (Finite 50000)" and margin_sats = "PInt 10000"
        and tp_price = "PInt 50500" and tr' = "[New_trade PNone]" and entry_price = "PInt 50010"
        and target = "PInt 50510"
        and second_order = "PDict [(''id'', PStr ''b''), (''entry_price'', PInt 50010)]"]
    by (simp add: tp_50000 tp_50010 scenario_second_order)
qed

section \<open>The deferred take-profit policy\<close>

lemma placed_order_has_id:
  assumes "place_market_buy_order json_loads lnm m l tp tr = (Inr order, t)" "py_truthy order"
  shows "\<exists>ident. py_getitem order ''id'' = Inr ident"
proof (rule place_market_cases[of json_loads lnm m l tp tr])
  fix order' ident evs
  assume "place_market_buy_order json_loads lnm m l tp tr =
      (Inr order', tr @ Log DEBUG Orderparameters [LVal (market_params m l tp)] #
         New_trade (market_params m l tp) # evs)"
    and i: "py_get order' ''id'' PNone = Inr ident" "py_truthy ident"
  with assms(1) have "order' = order" by simp
  with truthy_id_is_dict[OF i] show ?thesis by auto
next
  fix evs
  assume "place_market_buy_order json_loads lnm m l tp tr =
      (Inr PNone, tr @ Log DEBUG Orderparameters [LVal (market_params m l tp)] #
         New_trade (market_params m l tp) # evs)"
  with assms show ?thesis by simp
qed

lemma updates_before_second_order:
  assumes "get_ticker json_loads lnm tr = (Inr market_price, t1)"
    and "usd_to_sats (PInt 5) market_price t1 = (Inr (PInt n), t2)"
    and "place_market_buy_order json_loads lnm (PInt n) (PInt 1) PNone
       (t2 @ [Log INFO Margin_berekend [LVal (PInt n), LVal (PInt 5), LVal market_price],
              Log INFO Plaats_eerste_order []]) = (Inr first_order, t3)"
    and "place_market_buy_order json_loads lnm (PInt n) (PInt 1) PNone
       (t3 @ [Sleep REQUEST_DELAY, Log INFO Plaats_tweede_order []]) = (Inr second_order, t4)"
  shows "update_trades t4 = update_trades tr"
  using keepsD[OF keeps_get_ticker(1) assms(1)] keepsD[OF keeps_usd_to_sats(1) assms(2)]
    keepsD[OF keeps_place_market(1) assms(3)] keepsD[OF keeps_place_market(1) assms(4)]
  by simp

lemma deferred_no_entry_price:
  assumes "get_ticker json_loads lnm tr = (Inr market_price, t1)" "py_truthy market_price"
    and "usd_to_sats (PInt 5) market_price t1 = (Inr (PInt n), t2)" "0 < n"
    and "place_market_buy_order json_loads lnm (PInt n) (PInt 1) PNone
       (t2 @ [Log INFO Margin_berekend [LVal (PInt n), LVal (PInt 5), LVal market_price],
              Log INFO Plaats_eerste_order []]) = (Inr first_order, t3)"
      "py_truthy first_order"
    and "place_market_buy_order json_loads lnm (PInt n) (PInt 1) PNone
       (t3 @ [Sleep REQUEST_DELAY, Log INFO Plaats_tweede_order []]) = (Inr second_order, t4)"
      "py_truthy second_order"
    and "py_get second_order ''entry_price'' PNone = Inr entry_price" "\<not> py_truthy entry_price"
  shows "second_order_step False json_loads lnm market_price (PInt n)
       (t3 @ [Sleep REQUEST_DELAY, Log INFO Plaats_tweede_order []]) =
       (Inr second_order, t4 @ [Log ERROR Entry_price_niet_gevonden []])"
    and "main_with False json_loads lnm tr =
       limit_order_step json_loads lnm market_price (PInt n)
         (t4 @ [Log ERROR Entry_price_niet_gevonden [], Sleep REQUEST_DELAY])"
    and "update_trades (snd (main_with False json_loads lnm tr)) = update_trades tr"
proof -
  show s: "second_order_step False json_loads lnm market_price (PInt n)
       (t3 @ [Sleep REQUEST_DELAY, Log INFO Plaats_tweede_order []]) =
       (Inr second_order, t4 @ [Log ERROR Entry_price_niet_gevonden []])"
    using assms(8-10) by (simp add: second_order_deferred[OF assms(7)])
  show m: "main_with False json_loads lnm tr =
       limit_order_step json_loads lnm market_price (PInt n)
         (t4 @ [Log ERROR Entry_price_niet_gevonden [], Sleep REQUEST_DELAY])"
    using main_to_limit_order[OF assms(1-6) s assms(8)] by simp
  obtain r t where l: "limit_order_step json_loads lnm market_price (PInt n)
         (t4 @ [Log ERROR Entry_price_niet_gevonden [], Sleep REQUEST_DELAY]) = (r, t)"
    by fastforce
  from keepsD[OF keeps_limit_order_step(1) l]
    updates_before_second_order[OF assms(1,3,5,7)]
  show "update_trades (snd (main_with False json_loads lnm tr)) = update_trades tr"
    by (simp add: m l)
qed

text \<open>
  C6. Under the deferred policy, when the second order is placed and its answer carries no
  entry price (the key is absent, or its value is \<^verbatim>\<open>None\<close>, zero or empty), the second step
  logs the error "Entry_price niet gevonden" and nothing else; \<^verbatim>\<open>main\<close> goes on to the delay
  and the limit order, and the whole run makes no update call.
\<close>

theorem deferred_without_entry_price:
  "(\<forall>kvs. map_of kvs ''entry_price'' = None \<longrightarrow>
      py_get (PDict kvs) ''entry_price'' PNone = Inr PNone) \<and>
   (\<forall>market_price t1 n t2 first_order t3 second_order t4 entry_price.
      get_ticker json_loads lnm tr = (Inr market_price, t1) \<and> py_truthy market_price \<and>
      usd_to_sats (PInt 5) market_price t1 = (Inr (PInt n), t2) \<and> 0 < n \<and>
      place_market_buy_order json_loads lnm (PInt n) (PInt 1) PNone
        (t2 @ [Log INFO Margin_berekend [LVal (PInt n), LVal (PInt 5), LVal market_price],
               Log INFO Plaats_eerste_order []]) = (Inr first_order, t3) \<and>
      py_truthy first_order \<and>
      place_market_buy_order json_loads lnm (PInt n) (PInt 1) PNone
        (t3 @ [Sleep REQUEST_DELAY, Log INFO Plaats_tweede_order []]) = (Inr second_order, t4) \<and>
      py_truthy second_order \<and>
      py_get second_order ''entry_price'' PNone = Inr entry_price \<and> \<not> py_truthy entry_price \<longrightarrow>
      second_order_step False json_loads lnm market_price (PInt n)
        (t3 @ [Sleep REQUEST_DELAY, Log INFO Plaats_tweede_order []]) =
        (Inr second_order, t4 @ [Log ERROR Entry_price_niet_gevonden []]) \<and>
      main_with False json_loads lnm tr =
        limit_order_step json_loads lnm market_price (PInt n)
          (t4 @ [Log ERROR Entry_price_niet_gevonden [], Sleep REQUEST_DELAY]) \<and>
      update_trades (snd (main_with False json_loads lnm tr)) = update_trades tr)"
proof (intro conjI allI impI; (elim conjE)?)
  fix market_price t1 n t2 first_order t3 second_order t4 entry_price
  assume a: "get_ticker json_loads lnm tr = (Inr market_price, t1)" "py_truthy market_price"
    "usd_to_sats (PInt 5) market_price t1 = (Inr (PInt n), t2)" "0 < n"
    "place_market_buy_order json_loads lnm (PInt n) (PInt 1) PNone
        (t2 @ [Log INFO Margin_berekend [LVal (PInt n), LVal (PInt 5), LVal market_price],
               Log INFO Plaats_eerste_order []]) = (Inr first_order, t3)"
    "py_truthy first_order"
    "place_market_buy_order json_loads lnm (PInt n) (PInt 1) PNone
        (t3 @ [Sleep REQUEST_DELAY, Log INFO Plaats_tweede_order []]) = (Inr second_order, t4)"
    "py_truthy second_order"
    "py_get second_order ''entry_price'' PNone = Inr entry_price" "\<not> py_truthy entry_price"
  show "second_order_step False json_loads lnm market_price (PInt n)
        (t3 @ [Sleep REQUEST_DELAY, Log INFO Plaats_tweede_order []]) =
        (Inr second_order, t4 @ [Log ERROR Entry_price_niet_gevonden []])"
    using a by (rule deferred_no_entry_price(1))
  show "main_with False json_loads lnm tr =
        limit_order_step json_loads lnm market_price (PInt n)
          (t4 @ [Log ERROR Entry_price_niet_gevonden [], Sleep REQUEST_DELAY])"
    using a by (rule deferred_no_entry_price(2))
  show "update_trades (snd (main_with False json_loads lnm tr)) = update_trades tr"
    using a by (rule deferred_no_entry_price(3))
qed simp

lemma no_entry_price_ticker:
  "get_ticker json_loads no_entry_price_client tr = (Inr (PFloat (Finite 50000)), tr @ [Get_ticker])"
  by (simp add: no_entry_price_client_def scripted_ticker_50000)

lemma no_entry_price_first_order:
  assumes "new_trades tr = []"
  shows "place_market_buy_order json_loads no_entry_price_client m l tp tr =
     (Inr (PDict [(''id'', PStr ''a'')]),
      tr @ [Log DEBUG Orderparameters [LVal (market_params m l tp)],
            New_trade (market_params m l tp),
            Log INFO Order_geplaatst [LVal (PDict [(''id'', PStr ''a'')])]])"
proof -
  have "futures_new_trade no_entry_price_client
      (tr @ [Log DEBUG Orderparameters [LVal (market_params m l tp)]]) (market_params m l tp) =
      Inr (PDict [(''id'', PStr ''a'')])"
    using assms by (simp add: no_entry_price_client_def scripted_new_trade)
  from place_market_dict[OF this] show ?thesis by simp
qed

lemma no_entry_price_second_order:
  assumes "new_trades tr = [p]"
  shows "place_market_buy_order json_loads no_entry_price_client m l tp tr =
     (Inr (PDict [(''id'', PStr ''b'')]),
      tr @ [Log DEBUG Orderparameters [LVal (market_params m l tp)],
            New_trade (market_params m l tp),
            Log INFO Order_geplaatst [LVal (PDict [(''id'', PStr ''b'')])]])"
proof -
  have "futures_new_trade no_entry_price_client
      (tr @ [Log DEBUG Orderparameters [LVal (market_params m l tp)]]) (market_params m l tp) =
      Inr (PDict [(''id'', PStr ''b'')])"
    using assms by (simp add: no_entry_price_client_def scripted_new_trade)
  from place_market_dict[OF this] show ?thesis by simp
qed

theorem deferred_without_entry_price_witness:
  "second_order_step False json_rejects no_entry_price_client (PFloat (Finite 50000)) (PInt 10000)
     ([Get_ticker,
       Log INFO Margin_berekend [LVal (PInt 10000), LVal (PInt 5), LVal (PFloat (Finite 50000))],
       Log INFO Plaats_eerste_order [],
       Log DEBUG Orderparameters [LVal (market_params (PInt 10000) (PInt 1) PNone)],
       New_trade (market_params (PInt 10000) (PInt 1) PNone),
       Log INFO Order_geplaatst [LVal (PDict [(''id'', PStr ''a'')])]] @
      [Sleep REQUEST_DELAY, Log INFO Plaats_tweede_order []]) =
     (Inr (PDict [(''id'', PStr ''b'')]),
      [Get_ticker,
       Log INFO Margin_berekend [LVal (PInt 10000), LVal (PInt 5), LVal (PFloat (Finite 50000))],
       Log INFO Plaats_eerste_order [],
       Log DEBUG Orderparameters [LVal (market_params (PInt 10000) (PInt 1) PNone)],
       New_trade (market_params (PInt 10000) (PInt 1) PNone),
       Log INFO Order_geplaatst [LVal (PDict [(''id'', PStr ''a'')])],
       Sleep REQUEST_DELAY,
       Log INFO Plaats_tweede_order [],
       Log DEBUG Orderparameters [LVal (market_params (PInt 10000) (PInt 1) PNone)],
       New_trade (market_params (PInt 10000) (PInt 1) PNone),
       Log INFO Order_geplaatst [LVal (PDict [(''id'', PStr ''b'')])],
       Log ERROR Entry_price_niet_gevonden []]) \<and>
   update_trades (snd (main_with False json_rejects no_entry_price_client [])) = []"
proof -
  define t3 where "t3 = [Get_ticker,
       Log INFO Margin_berekend [LVal (PInt 10000), LVal (PInt 5), LVal (PFloat (Finite 50000))],
       Log INFO Plaats_eerste_order [],
       Log DEBUG Orderparameters [LVal (market_params (PInt 10000) (PInt 1) PNone)],
       New_trade (market_params (PInt 10000) (PInt 1) PNone),
       Log INFO Order_geplaatst [LVal (PDict [(''id'', PStr ''a'')])]]"
  define t4 where "t4 = t3 @ [Sleep REQUEST_DELAY, Log INFO Plaats_tweede_order [],
       Log DEBUG Orderparameters [LVal (market_params (PInt 10000) (PInt 1) PNone)],
       New_trade (market_params (PInt 10000) (PInt 1) PNone),
       Log INFO Order_geplaatst [LVal (PDict [(''id'', PStr ''b'')])]]"
  note w = deferred_without_entry_price[where json_loads = json_rejects
      and lnm = no_entry_price_client and tr = "[]", THEN conjunct2, rule_format,
      where market_price = "PFloat (Finite 50000)" and ?t1.0 = "[Get_ticker]" and n = 10000
        and ?t2.0 = "[Get_ticker]" and first_order = "PDict [(''id'', PStr ''a'')]"
        and ?t3.0 = t3 and ?t4.0 = t4
        and second_order = "PDict [(''id'', PStr ''b'')]" and entry_price = PNone]
  have "second_order_step False json_rejects no_entry_price_client (PFloat (Finite 50000))
      (PInt 10000) (t3 @ [Sleep REQUEST_DELAY, Log INFO Plaats_tweede_order []]) =
      (Inr (PDict [(''id'', PStr ''b'')]), t4 @ [Log ERROR Entry_price_niet_gevonden []])"
    and "update_trades (snd (main_with False json_rejects no_entry_price_client [])) =
      update_trades []"
    by (rule w[THEN conjunct1] w[THEN conjunct2, THEN conjunct2];
        simp add: no_entry_price_ticker usd_to_sats_5_50000 no_entry_price_first_order
          no_entry_price_second_order t3_def t4_def)+
  then show ?thesis by (simp add: t3_def t4_def)
qed

lemma main_deferred_update:
  assumes "get_ticker json_loads lnm tr = (Inr market_price, t1)" "py_truthy market_price"
    and "usd_to_sats (PInt 5) market_price t1 = (Inr (PInt n), t2)" "0 < n"
    and "place_market_buy_order json_loads lnm (PInt n) (PInt 1) PNone
       (t2 @ [Log INFO Margin_berekend [LVal (PInt n), LVal (PInt 5), LVal market_price],
              Log INFO Plaats_eerste_order []]) = (Inr first_order, t3)"
      "py_truthy first_order"
    and "place_market_buy_order json_loads lnm (PInt n) (PInt 1) PNone
       (t3 @ [Sleep REQUEST_DELAY, Log INFO Plaats_tweede_order []]) = (Inr second_order, t4)"
      "py_truthy second_order"
    and "py_get second_order ''entry_price'' PNone = Inr entry_price" "py_truthy entry_price"
    and "bind_exn (py_mul_float entry_price lit_1_01) py_round = Inr tp_price"
  shows "\<exists>trade_id t5 lp ltp evs.
     py_getitem second_order ''id'' = Inr trade_id \<and>
     set_take_profit json_loads lnm trade_id tp_price
       (t4 @ [Log INFO Take_profit_op_entry_price [LVal tp_price, LVal entry_price]]) =
       (Inr PNone, t5) \<and>
     bind_exn (py_sub_int market_price 100) py_round = Inr (PInt lp) \<and>
     bind_exn (py_mul_float (PInt lp) lit_1_01) py_round = Inr (PInt ltp) \<and>
     main_with False json_loads lnm tr =
       (Inr PNone,
        t5 @ Sleep REQUEST_DELAY # Log INFO Plaats_limietorder [] #
             Log DEBUG Orderparameters [LVal (limit_params (PInt n) (PInt 1) (PInt lp) (PInt ltp))] #
             New_trade (limit_params (PInt n) (PInt 1) (PInt lp) (PInt ltp)) # evs) \<and>
     list_all is_log evs"
proof -
  from placed_order_has_id[OF assms(7,8)] obtain trade_id where
    i: "py_getitem second_order ''id'' = Inr trade_id" by blast
  define T where "T = t4 @ [Log INFO Take_profit_op_entry_price [LVal tp_price, LVal entry_price]]"
  obtain t5 where u: "set_take_profit json_loads lnm trade_id tp_price T = (Inr PNone, t5)"
    by (rule set_take_profit_cases[of json_loads lnm trade_id tp_price T]) blast
  have s: "second_order_step False json_loads lnm market_price (PInt n)
      (t3 @ [Sleep REQUEST_DELAY, Log INFO Plaats_tweede_order []]) = (Inr second_order, t5)"
    using assms(8-11) i u by (simp add: second_order_deferred[OF assms(7)] T_def)
  note m = main_to_limit_order[OF assms(1-6) s assms(8)]
  from prices_of_run[OF assms(1-4)] obtain lp ltp where
    p: "bind_exn (py_sub_int market_price 100) py_round = Inr (PInt lp)"
      "bind_exn (py_mul_float (PInt lp) lit_1_01) py_round = Inr (PInt ltp)" by blast
  define L where "L = limit_params (PInt n) (PInt 1) (PInt lp) (PInt ltp)"
  obtain lo evs where l: "place_limit_buy_order json_loads lnm (PInt n) (PInt 1) (PInt lp) (PInt ltp)
      ((t5 @ [Sleep REQUEST_DELAY]) @ [Log INFO Plaats_limietorder []]) =
      (Inr lo, ((t5 @ [Sleep REQUEST_DELAY]) @ [Log INFO Plaats_limietorder []]) @
         Log DEBUG Orderparameters [LVal L] # New_trade L # evs)" "list_all is_log evs"
    unfolding L_def
    by (rule place_limit_cases[of json_loads lnm "PInt n" "PInt 1" "PInt lp" "PInt ltp"
          "(t5 @ [Sleep REQUEST_DELAY]) @ [Log INFO Plaats_limietorder []]"]) blast+
  define final where "final = (if \<not> py_truthy lo then Log ERROR Limietorder_mislukt []
            else Log INFO Limietorder_op_prijs [LVal (PInt lp), LVal (PInt ltp)])"
  have f: "is_log final" by (simp add: final_def)
  have "main_with False json_loads lnm tr =
      (Inr PNone, t5 @ Sleep REQUEST_DELAY # Log INFO Plaats_limietorder [] #
         Log DEBUG Orderparameters [LVal L] # New_trade L # (evs @ [final]))"
    by (simp add: m limit_order_placed[OF p l(1)] final_def)
  moreover have "list_all is_log (evs @ [final])" using l(2) f by simp
  ultimately show ?thesis using i u p unfolding T_def L_def by blast
qed

lemma set_take_profit_total:
  "\<exists>evs. set_take_profit json_loads lnm trade_id tp_price tr =
       (Inr PNone,
        tr @ Log DEBUG PUT_parameters
               [LVal (PDict [(''id'', trade_id), (''type'', PStr ''takeprofit''), (''value'', tp_price)])] #
             Update_trade
               (PDict [(''id'', trade_id), (''type'', PStr ''takeprofit''), (''value'', tp_price)]) # evs) \<and>
     list_all is_log evs"
  by (rule set_take_profit_cases[of json_loads lnm trade_id tp_price tr]) blast

text \<open>
  C10. \<^verbatim>\<open>set_take_profit\<close> never raises and always returns \<^verbatim>\<open>None\<close>: it makes the update call
  and then only writes to the log, whatever the client answers or raises. Under the deferred
  policy, once the second order is placed with an entry price whose take-profit evaluates,
  \<^verbatim>\<open>main\<close> calls \<^verbatim>\<open>set_take_profit\<close> and, whatever trace that call leaves, goes on with the
  delay and the creation call of the limit order.
\<close>

theorem take_profit_failure_does_not_abort:
  "(\<forall>trade_id tp_price tr'.
      \<exists>evs. set_take_profit json_loads lnm trade_id tp_price tr' =
        (Inr PNone,
         tr' @ Log DEBUG PUT_parameters
                 [LVal (PDict [(''id'', trade_id), (''type'', PStr ''takeprofit''),
                               (''value'', tp_price)])] #
               Update_trade
                 (PDict [(''id'', trade_id), (''type'', PStr ''takeprofit''),
                         (''value'', tp_price)]) # evs) \<and>
        list_all is_log evs) \<and>
   (\<forall>market_price t1 n t2 first_order t3 second_order t4 entry_price tp_price.
      get_ticker json_loads lnm tr = (Inr market_price, t1) \<and> py_truthy market_price \<and>
      usd_to_sats (PInt 5) market_price t1 = (Inr (PInt n), t2) \<and> 0 < n \<and>
      place_market_buy_order json_loads lnm (PInt n) (PInt 1) PNone
        (t2 @ [Log INFO Margin_berekend [LVal (PInt n), LVal (PInt 5), LVal market_price],
               Log INFO Plaats_eerste_order []]) = (Inr first_order, t3) \<and>
      py_truthy first_order \<and>
      place_market_buy_order json_loads lnm (PInt n) (PInt 1) PNone
        (t3 @ [Sleep REQUEST_DELAY, Log INFO Plaats_tweede_order []]) = (Inr second_order, t4) \<and>
      py_truthy second_order \<and>
      py_get second_order ''entry_price'' PNone = Inr entry_price \<and> py_truthy entry_price \<and>
      bind_exn (py_mul_float entry_price lit_1_01) py_round = Inr tp_price \<longrightarrow>
      (\<exists>trade_id t5 lp ltp evs.
         py_getitem second_order ''id'' = Inr trade_id \<and>
         set_take_profit json_loads lnm trade_id tp_price
           (t4 @ [Log INFO Take_profit_op_entry_price [LVal tp_price, LVal entry_price]]) =
           (Inr PNone, t5) \<and>
         bind_exn (py_sub_int market_price 100) py_round = Inr (PInt lp) \<and>
         bind_exn (py_mul_float (PInt lp) lit_1_01) py_round = Inr (PInt ltp) \<and>
         main_with False json_loads lnm tr =
           (Inr PNone,
            t5 @ Sleep REQUEST_DELAY # Log INFO Plaats_limietorder [] #
                 Log DEBUG Orderparameters
                   [LVal (limit_params (PInt n) (PInt 1) (PInt lp) (PInt ltp))] #
                 New_trade (limit_params (PInt n) (PInt 1) (PInt lp) (PInt ltp)) # evs) \<and>
         list_all is_log evs))"
proof (intro conjI allI impI; (elim conjE)?)
  fix trade_id tp_price tr'
  show "\<exists>evs. set_take_profit json_loads lnm trade_id tp_price tr' =
        (Inr PNone,
         tr' @ Log DEBUG PUT_parameters
                 [LVal (PDict [(''id'', trade_id), (''type'', PStr ''takeprofit''),
                               (''value'', tp_price)])] #
               Update_trade
                 (PDict [(''id'', trade_id), (''type'', PStr ''takeprofit''),
                         (''value'', tp_price)]) # evs) \<and>
        list_all is_log evs"
    by (rule set_take_profit_total)
next
  fix market_price t1 n t2 first_order t3 second_order t4 entry_price tp_price
  assume "get_ticker json_loads lnm tr = (Inr market_price, t1)" "py_truthy market_price"
    "usd_to_sats (PInt 5) market_price t1 = (Inr (PInt n), t2)" "0 < n"
    "place_market_buy_order json_loads lnm (PInt n) (PInt 1) PNone
        (t2 @ [Log INFO Margin_berekend [LVal (PInt n), LVal (PInt 5), LVal market_price],
               Log INFO Plaats_eerste_order []]) = (Inr first_order, t3)"
    "py_truthy first_order"
    "place_market_buy_order json_loads lnm (PInt n) (PInt 1) PNone
        (t3 @ [Sleep REQUEST_DELAY, Log INFO Plaats_tweede_order []]) = (Inr second_order, t4)"
    "py_truthy second_order"
    "py_get second_order ''entry_price'' PNone = Inr entry_price" "py_truthy entry_price"
    "bind_exn (py_mul_float entry_price lit_1_01) py_round = Inr tp_price"
  then show "\<exists>trade_id t5 lp ltp evs.
         py_getitem second_order ''id'' = Inr trade_id \<and>
         set_take_profit json_loads lnm trade_id tp_price
           (t4 @ [Log INFO Take_profit_op_entry_price [LVal tp_price, LVal entry_price]]) =
           (Inr PNone, t5) \<and>
         bind_exn (py_sub_int market_price 100) py_round = Inr (PInt lp) \<and>
         bind_exn (py_mul_float (PInt lp) lit_1_01) py_round = Inr (PInt ltp) \<and>
         main_with False json_loads lnm tr =
           (Inr PNone,
            t5 @ Sleep REQUEST_DELAY # Log INFO Plaats_limietorder [] #
                 Log DEBUG Orderparameters
                   [LVal (limit_params (PInt n) (PInt 1) (PInt lp) (PInt ltp))] #
                 New_trade (limit_params (PInt n) (PInt 1) (PInt lp) (PInt ltp)) # evs) \<and>
         list_all is_log evs"
    by (rule main_deferred_update)
qed

lemma scenario_update_fails:
  "set_take_profit json_loads scenario_client trade_id tp_price tr =
     (Inr PNone,
      tr @ [Log DEBUG PUT_parameters
              [LVal (PDict [(''id'', trade_id), (''type'', PStr ''takeprofit''), (''value'', tp_price)])],
            Update_trade
              (PDict [(''id'', trade_id), (''type'', PStr ''takeprofit''), (''value'', tp_price)]),
            Log ERROR Fout_instellen_take_profit [LExn (OtherError ''HTTPError'')]])"
  by (simp add: set_take_profit_def io_defs scenario_client_def scripted_client_def)

theorem take_profit_failure_does_not_abort_witness:
  "\<exists>evs. main_with False json_rejects scenario_client [] =
     (Inr PNone,
      [Get_ticker,
       Log INFO Margin_berekend [LVal (PInt 10000), LVal (PInt 5), LVal (PFloat (Finite 50000))],
       Log INFO Plaats_eerste_order [],
       Log DEBUG Orderparameters [LVal (market_params (PInt 10000) (PInt 1) PNone)],
       New_trade (market_params (PInt 10000) (PInt 1) PNone),
       Log INFO Order_geplaatst [LVal (PDict [(''id'', PStr ''a'')])],
       Sleep REQUEST_DELAY,
       Log INFO Plaats_tweede_order [],
       Log DEBUG Orderparameters [LVal (market_params (PInt 10000) (PInt 1) PNone)],
       New_trade (market_params (PInt 10000) (PInt 1) PNone),
       Log INFO Order_geplaatst [LVal (PDict [(''id'', PStr ''b''), (''entry_price'', PInt 50010)])],
       Log INFO Take_profit_op_entry_price [LVal (PInt 50510), LVal (PInt 50010)],
       Log DEBUG PUT_parameters
         [LVal (PDict [(''id'', PStr ''b''), (''type'', PStr ''takeprofit''), (''value'', PInt 50510)])],
       Update_trade
         (PDict [(''id'', PStr ''b''), (''type'', PStr ''takeprofit''), (''value'', PInt 50510)]),
       Log ERROR Fout_instellen_take_profit [LExn (OtherError ''HTTPError'')],
       Sleep REQUEST_DELAY,
       Log INFO Plaats_limietorder [],
       Log DEBUG Orderparameters
         [LVal (limit_params (PInt 10000) (PInt 1) (PInt 49900) (PInt 50399))],
       New_trade (limit_params (PInt 10000) (PInt 1) (PInt 49900) (PInt 50399))] @ evs) \<and>
     list_all is_log evs"
proof -
  define t3 where "t3 = [Get_ticker,
       Log INFO Margin_berekend [LVal (PInt 10000), LVal (PInt 5), LVal (PFloat (Finite 50000))],
       Log INFO Plaats_eerste_order [],
       Log DEBUG Orderparameters [LVal (market_params (PInt 10000) (PInt 1) PNone)],
       New_trade (market_params (PInt 10000) (PInt 1) PNone),
       Log INFO Order_geplaatst [LVal (PDict [(''id'', PStr ''a'')])]]"
  define t4 where "t4 = t3 @ [Sleep REQUEST_DELAY, Log INFO Plaats_tweede_order [],
       Log DEBUG Orderparameters [LVal (market_params (PInt 10000) (PInt 1) PNone)],
       New_trade (market_params (PInt 10000) (PInt 1) PNone),
       Log INFO Order_geplaatst [LVal (PDict [(''id'', PStr ''b''), (''entry_price'', PInt 50010)])]]"
  have "\<exists>trade_id t5 lp ltp evs.
         py_getitem (PDict [(''id'', PStr ''b''), (''entry_price'', PInt 50010)]) ''id'' =
           Inr trade_id \<and>
         set_take_profit json_rejects scenario_client trade_id (PInt 50510)
           (t4 @ [Log INFO Take_profit_op_entry_price [LVal (PInt 50510), LVal (PInt 50010)]]) =
           (Inr PNone, t5) \<and>
         bind_exn (py_sub_int (PFloat (Finite 50000)) 100) py_round = Inr (PInt lp) \<and>
         bind_exn (py_mul_float (PInt lp) lit_1_01) py_round = Inr (PInt ltp) \<and>
         main_with False json_rejects scenario_client [] =
           (Inr PNone,
            t5 @ Sleep REQUEST_DELAY # Log INFO Plaats_limietorder [] #
                 Log DEBUG Orderparameters
                   [LVal (limit_params (PInt 10000) (PInt 1) (PInt lp) (PInt ltp))] #
                 New_trade (limit_params (PInt 10000) (PInt 1) (PInt lp) (PInt ltp)) # evs) \<and>
         list_all is_log evs"
    by (rule take_profit_failure_does_not_abort[where json_loads = json_rejects
          and lnm = scenario_client and tr = "[]", THEN conjunct2, rule_format,
          where market_price = "PFloat (Finite 50000)" and ?t1.0 = "[Get_ticker]" and n = 10000
            and ?t2.0 = "[Get_ticker]" and first_order = "PDict [(''id'', PStr ''a'')]"
            and ?t3.0 = t3 and ?t4.0 = t4 and entry_price = "PInt 50010"
            and tp_price = "PInt 50510"
            and second_order = "PDict [(''id'', PStr ''b''), (''entry_price'', PInt 50010)]"])
      (simp add: scenario_ticker usd_to_sats_5_50000 scenario_first_order scenario_second_order
        tp_50010 t3_def t4_def)
  then obtain evs where
    "main_with False json_rejects scenario_client [] =
       (Inr PNone,
        (t4 @ [Log INFO Take_profit_op_entry_price [LVal (PInt 50510), LVal (PInt 50010)],
           Log DEBUG PUT_parameters
             [LVal (PDict [(''id'', PStr ''b''), (''type'', PStr ''takeprofit''),
                           (''value'', PInt 50510)])],
           Update_trade
             (PDict [(''id'', PStr ''b''), (''type'', PStr ''takeprofit''), (''value'', PInt 50510)]),
           Log ERROR Fout_instellen_take_profit [LExn (OtherError ''HTTPError'')]]) @
         Sleep REQUEST_DELAY # Log INFO Plaats_limietorder [] #
         Log DEBUG Orderparameters
           [LVal (limit_params (PInt 10000) (PInt 1) (PInt 49900) (PInt 50399))] #
         New_trade (limit_params (PInt 10000) (PInt 1) (PInt 49900) (PInt 50399)) # evs)"
    "list_all is_log evs"
    by (auto simp: scenario_update_fails limit_50000 tp_49900)
  then show ?thesis by (intro exI[of _ evs]) (simp add: t3_def t4_def)
qed

section \<open>The delays\<close>


























section \<open>The end-to-end scenario\<close>

lemma tp_50010_float:
  "bind_exn (py_mul_float (PFloat (Finite 50010)) lit_1_01) py_round = Inr (PInt 50510)"
  by (simp add: bind_exn_def py_mul_float_def lit_1_01 fmul_50010 rne_50510)

lemma scenario_main:
  assumes a: "get_ticker json_loads lnm tr = (Inr (PFloat (Finite 50000)), t1)"
    and c: "place_market_buy_order json_loads lnm (PInt 10000) (PInt 1) PNone
        (t1 @ [Log INFO Margin_berekend
                 [LVal (PInt 10000), LVal (PInt 5), LVal (PFloat (Finite 50000))],
               Log INFO Plaats_eerste_order []]) = (Inr first_order, t3)"
    and f: "py_truthy first_order"
    and s: "place_market_buy_order json_loads lnm (PInt 10000) (PInt 1) (PInt 50500)
        (t3 @ [Sleep REQUEST_DELAY, Log INFO Plaats_tweede_order [],
               Log INFO Take_profit_direct [LVal (PInt 50500), LVal (PFloat (Finite 50000))]]) =
        (Inr second_order, t4)"
    and so: "py_truthy second_order"
    and g: "py_get second_order ''entry_price'' (PFloat (Finite 50000)) = Inr entry_price"
    and e: "entry_price = PInt 50010 \<or> entry_price = PFloat (Finite 50010)"
    and l: "place_limit_buy_order json_loads lnm (PInt 10000) (PInt 1) (PInt 49900) (PInt 50399)
        (t4 @ [Log INFO Werkelijke_entry_price
                 [LVal entry_price, LVal (PInt 50500), LVal (PInt 50510)],
               Sleep REQUEST_DELAY, Log INFO Plaats_limietorder []]) = (Inr limit_order, t5)"
  shows "main json_loads lnm tr =
     (Inr PNone,
      t5 @ [if \<not> py_truthy limit_order then Log ERROR Limietorder_mislukt []
            else Log INFO Limietorder_op_prijs [LVal (PInt 49900), LVal (PInt 50399)]])"
proof -
  have t: "py_truthy (PFloat (Finite 50000))" by simp
  note b = usd_to_sats_5_50000[of t1]
  have n: "0 < (10000::int)" by simp
  from e have tp: "bind_exn (py_mul_float entry_price lit_1_01) py_round = Inr (PInt 50510)"
    using tp_50010 tp_50010_float by blast
  have s': "place_market_buy_order json_loads lnm (PInt 10000) (PInt 1) (PInt 50500)
      ((t3 @ [Sleep REQUEST_DELAY, Log INFO Plaats_tweede_order []]) @
       [Log INFO Take_profit_direct [LVal (PInt 50500), LVal (PFloat (Finite 50000))]]) =
      (Inr second_order, t4)"
    using s by simp
  note step = direct_ideal_target_logged[OF tp_50000 s' so g tp]
  have l': "place_limit_buy_order json_loads lnm (PInt 10000) (PInt 1) (PInt 49900) (PInt 50399)
      (((t4 @ [Log INFO Werkelijke_entry_price
                 [LVal entry_price, LVal (PInt 50500), LVal (PInt 50510)]]) @
        [Sleep REQUEST_DELAY]) @ [Log INFO Plaats_limietorder []]) = (Inr limit_order, t5)"
    using l by simp
  show ?thesis
    unfolding main_def USE_DIRECT_TAKE_PROFIT_def
    by (simp only: main_to_limit_order[OF a t b n c f step so]
        limit_order_placed[OF limit_50000 tp_49900 l'])
qed

text \<open>
  C8. With \<^verbatim>\<open>USD_AMOUNT = 5\<close> and a price of 50000 from \<^verbatim>\<open>get_ticker\<close>, the margin is
  \<^verbatim>\<open>round(5 / 50000 * 1e8) = 10000\<close>, the take-profit of the second order is
  \<^verbatim>\<open>round(50000 * 1.01) = 50500\<close>, the target computed from an entry price of 50010 is
  \<^verbatim>\<open>round(50010 * 1.01) = 50510\<close>, the limit price is \<^verbatim>\<open>round(50000 - 100) = 49900\<close> and its
  take-profit is \<^verbatim>\<open>round(49900 * 1.01) = 50399\<close>. In every run of \<^verbatim>\<open>main\<close> where the price is
  50000, the first order is placed and the second order is placed with an entry price of 50010,
  the second order is created with \<^verbatim>\<open>takeprofit\<close> 50500, the entry price, 50500 and 50510 are
  written to the log, no update call is made, and the limit order is created with price 49900 and
  \<^verbatim>\<open>takeprofit\<close> 50399.
\<close>

theorem scenario_numbers:
  "usd_to_sats (PInt 5) (PFloat (Finite 50000)) tr = (Inr (PInt 10000), tr) \<and>
   bind_exn (py_mul_float (PFloat (Finite 50000)) lit_1_01) py_round = Inr (PInt 50500) \<and>
   bind_exn (py_mul_float (PInt 50010) lit_1_01) py_round = Inr (PInt 50510) \<and>
   bind_exn (py_sub_int (PFloat (Finite 50000)) 100) py_round = Inr (PInt 49900) \<and>
   bind_exn (py_mul_float (PInt 49900) lit_1_01) py_round = Inr (PInt 50399) \<and>
   market_params (PInt 10000) (PInt 1) (PInt 50500) =
     PDict [(''type'', PStr ''m''), (''side'', PStr ''b''), (''margin'', PInt 10000),
            (''leverage'', PInt 1), (''takeprofit'', PInt 50500)] \<and>
   limit_params (PInt 10000) (PInt 1) (PInt 49900) (PInt 50399) =
     PDict [(''type'', PStr ''l''), (''side'', PStr ''b''), (''margin'', PInt 10000),
            (''leverage'', PInt 1), (''price'', PInt 49900), (''takeprofit'', PInt 50399)] \<and>
   (\<forall>t1 first_order t3 second_order t4 entry_price limit_order t5.
      get_ticker json_loads lnm tr = (Inr (PFloat (Finite 50000)), t1) \<and>
      place_market_buy_order json_loads lnm (PInt 10000) (PInt 1) PNone
        (t1 @ [Log INFO Margin_berekend
                 [LVal (PInt 10000), LVal (PInt 5), LVal (PFloat (Finite 50000))],
               Log INFO Plaats_eerste_order []]) = (Inr first_order, t3) \<and>
      py_truthy first_order \<and>
      place_market_buy_order json_loads lnm (PInt 10000) (PInt 1) (PInt 50500)
        (t3 @ [Sleep REQUEST_DELAY, Log INFO Plaats_tweede_order [],
               Log INFO Take_profit_direct [LVal (PInt 50500), LVal (PFloat (Finite 50000))]]) =
        (Inr second_order, t4) \<and>
      py_truthy second_order \<and>
      py_get second_order ''entry_price'' (PFloat (Finite 50000)) = Inr entry_price \<and>
      (entry_price = PInt 50010 \<or> entry_price = PFloat (Finite 50010)) \<and>
      place_limit_buy_order json_loads lnm (PInt 10000) (PInt 1) (PInt 49900) (PInt 50399)
        (t4 @ [Log INFO Werkelijke_entry_price
                 [LVal entry_price, LVal (PInt 50500), LVal (PInt 50510)],
               Sleep REQUEST_DELAY, Log INFO Plaats_limietorder []]) = (Inr limit_order, t5) \<longrightarrow>
      main json_loads lnm tr =
        (Inr PNone,
         t5 @ [if \<not> py_truthy limit_order then Log ERROR Limietorder_mislukt []
               else Log INFO Limietorder_op_prijs [LVal (PInt 49900), LVal (PInt 50399)]]) \<and>
      update_trades t5 = update_trades tr)"
proof (intro conjI allI impI; (elim conjE)?)
  show "usd_to_sats (PInt 5) (PFloat (Finite 50000)) tr = (Inr (PInt 10000), tr)"
    by (rule usd_to_sats_5_50000)
  show "bind_exn (py_mul_float (PFloat (Finite 50000)) lit_1_01) py_round = Inr (PInt 50500)"
    by (rule tp_50000)
  show "bind_exn (py_mul_float (PInt 50010) lit_1_01) py_round = Inr (PInt 50510)"
    by (rule tp_50010)
  show "bind_exn (py_sub_int (PFloat (Finite 50000)) 100) py_round = Inr (PInt 49900)"
    by (rule limit_50000)
  show "bind_exn (py_mul_float (PInt 49900) lit_1_01) py_round = Inr (PInt 50399)"
    by (rule tp_49900)
  show "market_params (PInt 10000) (PInt 1) (PInt 50500) =
     PDict [(''type'', PStr ''m''), (''side'', PStr ''b''), (''margin'', PInt 10000),
            (''leverage'', PInt 1), (''takeprofit'', PInt 50500)]"
    by (simp add: market_params_takeprofit)
  show "limit_params (PInt 10000) (PInt 1) (PInt 49900) (PInt 50399) =
     PDict [(''type'', PStr ''l''), (''side'', PStr ''b''), (''margin'', PInt 10000),
            (''leverage'', PInt 1), (''price'', PInt 49900), (''takeprofit'', PInt 50399)]"
    by (simp add: limit_params_takeprofit)
next
  fix t1 first_order t3 second_order t4 entry_price limit_order t5
  assume a: "get_ticker json_loads lnm tr = (Inr (PFloat (Finite 50000)), t1)"
    and c: "place_market_buy_order json_loads lnm (PInt 10000) (PInt 1) PNone
        (t1 @ [Log INFO Margin_berekend
                 [LVal (PInt 10000), LVal (PInt 5), LVal (PFloat (Finite 50000))],
               Log INFO Plaats_eerste_order []]) = (Inr first_order, t3)"
    and f: "py_truthy first_order"
    and s: "place_market_buy_order json_loads lnm (PInt 10000) (PInt 1) (PInt 50500)
        (t3 @ [Sleep REQUEST_DELAY, Log INFO Plaats_tweede_order [],
               Log INFO Take_profit_direct [LVal (PInt 50500), LVal (PFloat (Finite 50000))]]) =
        (Inr second_order, t4)"
    and so: "py_truthy second_order"
    and g: "py_get second_order ''entry_price'' (PFloat (Finite 50000)) = Inr entry_price"
    and e: "entry_price = PInt 50010 \<or> entry_price = PFloat (Finite 50010)"
    and l: "place_limit_buy_order json_loads lnm (PInt 10000) (PInt 1) (PInt 49900) (PInt 50399)
        (t4 @ [Log INFO Werkelijke_entry_price
                 [LVal entry_price, LVal (PInt 50500), LVal (PInt 50510)],
               Sleep REQUEST_DELAY, Log INFO Plaats_limietorder []]) = (Inr limit_order, t5)"
  show "main json_loads lnm tr =
        (Inr PNone,
         t5 @ [if \<not> py_truthy limit_order then Log ERROR Limietorder_mislukt []
               else Log INFO Limietorder_op_prijs [LVal (PInt 49900), LVal (PInt 50399)]])"
    by (rule scenario_main[OF a c f s so g e l])
  from keepsD[OF keeps_place_limit(1) l] keepsD[OF keeps_place_market(1) s]
    keepsD[OF keeps_place_market(1) c] keepsD[OF keeps_get_ticker(1) a]
  show "update_trades t5 = update_trades tr" by simp
qed

text \<open>
  In the run where the price is 50000 and the second order's entry price is 50010, the log
  holds the target 50510; no entry of the log holds 50560.
\<close>

theorem ideal_target_is_50510:
  "Log INFO Werkelijke_entry_price [LVal (PInt 50010), LVal (PInt 50500), LVal (PInt 50510)]
     \<in> set (snd (main json_rejects scenario_client [])) \<and>
   Log INFO Werkelijke_entry_price [LVal (PInt 50010), LVal (PInt 50500), LVal (PInt 50560)]
     \<notin> set (snd (main json_rejects scenario_client [])) \<and>
   bind_exn (py_mul_float (PInt 50010) lit_1_01) py_round \<noteq> Inr (PInt 50560)"
  by (simp add: scenario_run tp_50010)

theorem scenario_numbers_witness:
  "main json_rejects scenario_client [] =
     (Inr PNone,
      [Get_ticker,
       Log INFO Margin_berekend [LVal (PInt 10000), LVal (PInt 5), LVal (PFloat (Finite 50000))],
       Log INFO Plaats_eerste_order [],
       Log DEBUG Orderparameters [LVal (market_params (PInt 10000) (PInt 1) PNone)],
       New_trade (market_params (PInt 10000) (PInt 1) PNone),
       Log INFO Order_geplaatst [LVal (PDict [(''id'', PStr ''a'')])],
       Sleep REQUEST_DELAY,
       Log INFO Plaats_tweede_order [],
       Log INFO Take_profit_direct [LVal (PInt 50500), LVal (PFloat (Finite 50000))],
       Log DEBUG Orderparameters [LVal (market_params (PInt 10000) (PInt 1) (PInt 50500))],
       New_trade (market_params (PInt 10000) (PInt 1) (PInt 50500)),
       Log INFO Order_geplaatst [LVal (PDict [(''id'', PStr ''b''), (''entry_price'', PInt 50010)])],
       Log INFO Werkelijke_entry_price [LVal (PInt 50010), LVal (PInt 50500), LVal (PInt 50510)],
       Sleep REQUEST_DELAY,
       Log INFO Plaats_limietorder [],
       Log DEBUG Orderparameters
         [LVal (limit_params (PInt 10000) (PInt 1) (PInt 49900) (PInt 50399))],
       New_trade (limit_params (PInt 10000) (PInt 1) (PInt 49900) (PInt 50399)),
       Log INFO Limietorder_geplaatst [LVal (PDict [(''id'', PStr ''c'')])],
       Log INFO Limietorder_op_prijs [LVal (PInt 49900), LVal (PInt 50399)]])"
proof -
  define t3 where "t3 = [Get_ticker,
       Log INFO Margin_berekend [LVal (PInt 10000), LVal (PInt 5), LVal (PFloat (Finite 50000))],
       Log INFO Plaats_eerste_order [],
       Log DEBUG Orderparameters [LVal (market_params (PInt 10000) (PInt 1) PNone)],
       New_trade (market_params (PInt 10000) (PInt 1) PNone),
       Log INFO Order_geplaatst [LVal (PDict [(''id'', PStr ''a'')])]]"
  define t4 where "t4 = t3 @ [Sleep REQUEST_DELAY, Log INFO Plaats_tweede_order [],
       Log INFO Take_profit_direct [LVal (PInt 50500), LVal (PFloat (Finite 50000))],
       Log DEBUG Orderparameters [LVal (market_params (PInt 10000) (PInt 1) (PInt 50500))],
       New_trade (market_params (PInt 10000) (PInt 1) (PInt 50500)),
       Log INFO Order_geplaatst
         [LVal (PDict [(''id'', PStr ''b''), (''entry_price'', PInt 50010)])]]"
  define t5 where "t5 = t4 @ [Log INFO Werkelijke_entry_price
         [LVal (PInt 50010), LVal (PInt 50500), LVal (PInt 50510)],
       Sleep REQUEST_DELAY, Log INFO Plaats_limietorder [],
       Log DEBUG Orderparameters
         [LVal (limit_params (PInt 10000) (PInt 1) (PInt 49900) (PInt 50399))],
       New_trade (limit_params (PInt 10000) (PInt 1) (PInt 49900) (PInt 50399)),
       Log INFO Limietorder_geplaatst [LVal (PDict [(''id'', PStr ''c'')])]]"
  have h: "get_ticker json_rejects scenario_client [] =
        (Inr (PFloat (Finite 50000)), [Get_ticker]) \<and>
      place_market_buy_order json_rejects scenario_client (PInt 10000) (PInt 1) PNone
        ([Get_ticker] @
         [Log INFO Margin_berekend [LVal (PInt 10000), LVal (PInt 5), LVal (PFloat (Finite 50000))],
          Log INFO Plaats_eerste_order []]) = (Inr (PDict [(''id'', PStr ''a'')]), t3) \<and>
      py_truthy (PDict [(''id'', PStr ''a'')]) \<and>
      place_market_buy_order json_rejects scenario_client (PInt 10000) (PInt 1) (PInt 50500)
        (t3 @ [Sleep REQUEST_DELAY, Log INFO Plaats_tweede_order [],
               Log INFO Take_profit_direct [LVal (PInt 50500), LVal (PFloat (Finite 50000))]]) =
        (Inr (PDict [(''id'', PStr ''b''), (''entry_price'', PInt 50010)]), t4) \<and>
      py_truthy (PDict [(''id'', PStr ''b''), (''entry_price'', PInt 50010)]) \<and>
      py_get (PDict [(''id'', PStr ''b''), (''entry_price'', PInt 50010)]) ''entry_price''
        (PFloat (Finite 50000)) = Inr (PInt 50010) \<and>
      (PInt 50010 = PInt 50010 \<or> PInt 50010 = PFloat (Finite 50010)) \<and>
      place_limit_buy_order json_rejects scenario_client (PInt 10000) (PInt 1) (PInt 49900)
        (PInt 50399)
        (t4 @ [Log INFO Werkelijke_entry_price
                 [LVal (PInt 50010), LVal (PInt 50500), LVal (PInt 50510)],
               Sleep REQUEST_DELAY, Log INFO Plaats_limietorder []]) =
        (Inr (PDict [(''id'', PStr ''c'')]), t5)"
  proof (intro conjI)
    show "get_ticker json_rejects scenario_client [] = (Inr (PFloat (Finite 50000)), [Get_ticker])"
      using scenario_ticker[of json_rejects "[]"] by simp
    show "place_market_buy_order json_rejects scenario_client (PInt 10000) (PInt 1) PNone
        ([Get_ticker] @
         [Log INFO Margin_berekend [LVal (PInt 10000), LVal (PInt 5), LVal (PFloat (Finite 50000))],
          Log INFO Plaats_eerste_order []]) = (Inr (PDict [(''id'', PStr ''a'')]), t3)"
      by (simp add: scenario_first_order t3_def)
    show "place_market_buy_order json_rejects scenario_client (PInt 10000) (PInt 1) (PInt 50500)
        (t3 @ [Sleep REQUEST_DELAY, Log INFO Plaats_tweede_order [],
               Log INFO Take_profit_direct [LVal (PInt 50500), LVal (PFloat (Finite 50000))]]) =
        (Inr (PDict [(''id'', PStr ''b''), (''entry_price'', PInt 50010)]), t4)"
      by (subst scenario_second_order[where p = "market_params (PInt 10000) (PInt 1) PNone"])
        (simp_all add: t3_def t4_def)
    show "place_limit_buy_order json_rejects scenario_client (PInt 10000) (PInt 1) (PInt 49900)
        (PInt 50399)
        (t4 @ [Log INFO Werkelijke_entry_price
                 [LVal (PInt 50010), LVal (PInt 50500), LVal (PInt 50510)],
               Sleep REQUEST_DELAY, Log INFO Plaats_limietorder []]) =
        (Inr (PDict [(''id'', PStr ''c'')]), t5)"
      by (subst scenario_limit_order[where p = "market_params (PInt 10000) (PInt 1) PNone"
            and q = "market_params (PInt 10000) (PInt 1) (PInt 50500)"])
        (simp_all add: t3_def t4_def t5_def)
  qed simp_all
  from scenario_numbers[where json_loads = json_rejects and lnm = scenario_client and tr = "[]",
      THEN conjunct2, THEN conjunct2, THEN conjunct2, THEN conjunct2, THEN conjunct2,
      THEN conjunct2, THEN conjunct2, rule_format, OF h]
  show ?thesis by (simp add: t3_def t4_def t5_def)
qed

section \<open>Blanks around a price\<close>

text \<open>
  The blanks of \<^verbatim>\<open>float\<close>: a separator character before the digits makes it raise, and
  \<^verbatim>\<open>get_ticker\<close> return \<^verbatim>\<open>None\<close>; a no-break space is dropped.
\<close>

lemma float_separator: "py_float (PStr [CHR 0x1C, CHR ''5'']) = Inl ValueError"
  by (simp add: float_of_string_def strip_def is_space_def blank_unicode_space_def split_sign_def
      mantissa_def digitpart_def is_digit_def bind_exn_def)

lemma float_no_break_space: "py_float (PStr [CHR 0xA0, CHR ''5'']) = Inr (PFloat (Finite 5))"
  by (simp add: float_of_string_def strip_def is_space_def blank_unicode_space_def split_sign_def
      mantissa_def digitpart_def is_digit_def exponent_def digits_val_def digit_val_def lower_def
      bind_exn_def round64_numeral)

lemma separator_ticker:
  "get_ticker json_loads
     (scripted_client (Inr (PDict [(''lastPrice'', PStr [CHR 0x1C, CHR ''5''])]))
        (Inr PNone) (Inr PNone) (Inr PNone) (Inr PNone)) tr =
     (Inr PNone, tr @ [Get_ticker, Log ERROR Fout_ophalen_ticker [LExn ValueError]])"
  by (simp add: get_ticker_def io_defs scripted_client_def parse_response_structured bind_exn_def
      float_separator del: py_float.simps)

section \<open>A ticker that is not a number\<close>

lemma float_nan: "py_float (PStr ''nan'') = Inr (PFloat NaN)"
  by (simp add: float_of_string_def strip_def is_space_def blank_unicode_space_def split_sign_def
      lower_def bind_exn_def)

lemma nan_ticker:
  "get_ticker json_loads nan_price_client tr = (Inr (PFloat NaN), tr @ [Get_ticker])"
  by (simp add: nan_price_client_def get_ticker_def io_defs scripted_client_def
      parse_response_structured bind_exn_def float_nan py_le_int_def del: py_float.simps)

lemma usd_to_sats_nan:
  "usd_to_sats (PInt 5) (PFloat NaN) tr =
     (Inr (PInt 0), tr @ [Log ERROR Fout_usd_to_sats [LExn ValueError]])"
  by (simp add: usd_to_sats_def io_defs bind_exn_def py_truediv_def py_mul_float_def
      int_to_float_small fdiv_def fmul_def lit_1e8)

text \<open>
  C4. \<^verbatim>\<open>get_ticker\<close> is to return a strictly positive price or \<^verbatim>\<open>None\<close>. When the ticker's
  \<^verbatim>\<open>lastPrice\<close> is the string \<^verbatim>\<open>nan\<close>, \<^verbatim>\<open>float\<close> makes NaN of it, the test
  \<^verbatim>\<open>price <= 0\<close> is false, and \<^verbatim>\<open>get_ticker\<close> returns NaN with nothing logged: a value that is
  neither strictly positive nor \<^verbatim>\<open>None\<close>. NaN is truthy, so \<^verbatim>\<open>main\<close> goes on to \<^verbatim>\<open>usd_to_sats\<close>,
  where \<^verbatim>\<open>round\<close> raises on it, and stops at the margin of 0.
\<close>

theorem get_ticker_returns_nan:
  "get_ticker json_rejects nan_price_client [] = (Inr (PFloat NaN), [Get_ticker]) \<and>
   \<not> strictly_positive NaN \<and> PFloat NaN \<noteq> PNone \<and> py_truthy (PFloat NaN) \<and>
   main json_rejects nan_price_client [] =
     (Inr PNone,
      [Get_ticker, Log ERROR Fout_usd_to_sats [LExn ValueError], Log ERROR Ongeldige_margin []])"
proof -
  have a: "get_ticker json_rejects nan_price_client [] = (Inr (PFloat NaN), [Get_ticker])"
    using nan_ticker[of json_rejects "[]"] by simp
  have t: "py_truthy (PFloat NaN)" by simp
  have b: "usd_to_sats (PInt 5) (PFloat NaN) [Get_ticker] =
      (Inr (PInt 0), [Get_ticker, Log ERROR Fout_usd_to_sats [LExn ValueError]])"
    using usd_to_sats_nan[of "[Get_ticker]"] by simp
  have n: "(0::int) \<le> 0" by simp
  from main_no_margin[OF a t b n, of USE_DIRECT_TAKE_PROFIT]
  have "main json_rejects nan_price_client [] =
     (Inr PNone,
      [Get_ticker, Log ERROR Fout_usd_to_sats [LExn ValueError], Log ERROR Ongeldige_margin []])"
    by (simp add: main_def)
  with a t show ?thesis by simp
qed

end
